theory Spec2Isabelle
  imports Complex_Main "HOL-Library.Word" "HOL-Library.Signed_Division" "HOL-Library.AList"
begin

unbundle bit_operations_syntax

section \<open>Strings\<close>

text \<open>
  Go strings are byte sequences; they are modelled as \<^typ>\<open>string\<close> (a list of 8-bit
  characters), so \<open>length\<close> is Go's \<open>len\<close>. The literals of the source that contain
  CJK text are written byte by byte in their UTF-8 encoding.
\<close>

text \<open>\<open>strings.HasPrefix\<close>.\<close>

definition HasPrefix :: "string \<Rightarrow> string \<Rightarrow> bool" where
  "HasPrefix s p = (take (length p) s = p)"

text \<open>\<open>strings.Contains\<close>.\<close>

fun Contains :: "string \<Rightarrow> string \<Rightarrow> bool" where
  "Contains [] sub = (sub = [])"
| "Contains (c # cs) sub = (HasPrefix (c # cs) sub \<or> Contains cs sub)"

text \<open>\<open>strings.Join\<close>.\<close>

fun Join :: "string list \<Rightarrow> string \<Rightarrow> string" where
  "Join [] sep = []"
| "Join [x] sep = x"
| "Join (x # y # ys) sep = x @ sep @ Join (y # ys) sep"

text \<open>The verb \<open>%d\<close> of \<open>fmt.Sprintf\<close>: decimal digits, with a minus sign below zero.\<close>

definition digit_char :: "int \<Rightarrow> char" where
  "digit_char d = ''0123456789'' ! nat d"

function digits :: "int \<Rightarrow> string" where
  "digits n = (if n < 10 then [digit_char n] else digits (n div 10) @ [digit_char (n mod 10)])"
  by pat_completeness auto
termination
  by (relation "measure nat") auto

declare digits.simps [simp del]

definition itoa :: "int \<Rightarrow> string" where
  "itoa i = (if i < 0 then ''-'' @ digits (- i) else digits i)"

text \<open>\<open>truncStr\<close>: the first \<open>maxLen\<close> bytes followed by three dots when the string is longer.\<close>

definition truncStr :: "string \<Rightarrow> nat \<Rightarrow> string" where
  "truncStr s maxLen = (if length s \<le> maxLen then s else take maxLen s @ ''...'')"

subsection \<open>Literals of the classifier\<close>

text \<open>
  The texts of the evidence lines and of the verdict labels. In English:
  \<open>txt_all_probes_failed\<close>: all probes failed;
  \<open>txt_platform\<close>: relay platform;
  \<open>txt_rewritten\<close>: rewritten;
  \<open>txt_sig_short\<close>: signature truncated;
  \<open>txt_sig_vertex\<close>: prefix \<open>claude#\<close> (Vertex AI);
  \<open>txt_sig_normal\<close>: normal signature;
  \<open>txt_sig_none\<close>: no signature;
  \<open>txt_msg_uuid\<close>: not native;
  \<open>txt_kiro\<close>: hard evidence of a Kiro relay;
  \<open>txt_anthropic_only\<close>: only Anthropic has it;
  \<open>txt_cache_obj\<close>: nested object, Anthropic's new format;
  \<open>tag_fix\<close>: the tag "correction";
  \<open>txt_tooluse_points\<close>, \<open>txt_moved\<close>: the points moved from Bedrock to Antigravity;
  \<open>txt_kiro_rewrite\<close>: attributed to the rewriting of a Kiro relay (not Antigravity);
  \<open>tag_missing\<close>: the tag "missing";
  \<open>txt_missing_geo\<close>, \<open>txt_missing_cache\<close>, \<open>txt_missing_sig\<close>: the field did not appear;
  \<open>txt_cancelled\<close>: the positive points were cancelled by the penalties;
  \<open>txt_no_signal\<close>: no valid fingerprint signal;
  \<open>txt_suspect_head\<close>, \<open>txt_suspect_mid\<close>: suspected disguise as Anthropic, so many
  required fields missing;
  \<open>txt_suspect_relay\<close>: a relay may rewrite the tool id prefix and inject
  \<open>service_tier\<close>, but cannot forge \<open>inference_geo\<close> and the nested \<open>cache_creation\<close>;
  \<open>txt_verdict_anthropic\<close>: Anthropic official API;
  \<open>txt_verdict_suspicious\<close>: suspected disguise as Anthropic;
  \<open>txt_verdict_unknown\<close>: cannot be determined.
\<close>

definition txt_all_probes_failed :: string where
  "txt_all_probes_failed = [CHR 0xE6, CHR 0x89, CHR 0x80, CHR 0xE6, CHR 0x9C, CHR 0x89, CHR 0xE6, CHR 0x8E, CHR 0xA2, CHR 0xE6, CHR 0xB5, CHR 0x8B, CHR 0xE5, CHR 0x9D, CHR 0x87, CHR 0xE5, CHR 0xA4, CHR 0xB1, CHR 0xE8, CHR 0xB4, CHR 0xA5]"

definition txt_platform :: string where
  "txt_platform = [CHR 0xE4, CHR 0xB8, CHR 0xAD, CHR 0xE8, CHR 0xBD, CHR 0xAC, CHR 0xE5, CHR 0xB9, CHR 0xB3, CHR 0xE5, CHR 0x8F, CHR 0xB0] @ '': ''"

definition txt_rewritten :: string where
  "txt_rewritten = '' -> '' @ [CHR 0xE8, CHR 0xA2, CHR 0xAB, CHR 0xE6, CHR 0x94, CHR 0xB9, CHR 0xE5, CHR 0x86, CHR 0x99]"

definition txt_sig_short :: string where
  "txt_sig_short = '') -> '' @ [CHR 0xE7, CHR 0xAD, CHR 0xBE, CHR 0xE5, CHR 0x90, CHR 0x8D, CHR 0xE6, CHR 0x88, CHR 0xAA, CHR 0xE6, CHR 0x96, CHR 0xAD]"

definition txt_sig_vertex :: string where
  "txt_sig_vertex = '') -> claude# '' @ [CHR 0xE5, CHR 0x89, CHR 0x8D, CHR 0xE7, CHR 0xBC, CHR 0x80] @ '' (Vertex AI)''"

definition txt_sig_normal :: string where
  "txt_sig_normal = '') -> '' @ [CHR 0xE6, CHR 0xAD, CHR 0xA3, CHR 0xE5, CHR 0xB8, CHR 0xB8, CHR 0xE7, CHR 0xAD, CHR 0xBE, CHR 0xE5, CHR 0x90, CHR 0x8D]"

definition txt_sig_none :: string where
  "txt_sig_none = '' thinking sig: '' @ [CHR 0xE6, CHR 0x97, CHR 0xA0, CHR 0xE7, CHR 0xAD, CHR 0xBE, CHR 0xE5, CHR 0x90, CHR 0x8D]"

definition txt_msg_uuid :: string where
  "txt_msg_uuid = '' -> msg_<UUID> ('' @ [CHR 0xE9, CHR 0x9D, CHR 0x9E, CHR 0xE5, CHR 0x8E, CHR 0x9F, CHR 0xE7, CHR 0x94, CHR 0x9F] @ '')''"

definition txt_kiro :: string where
  "txt_kiro = '' -> kiro-* (Kiro '' @ [CHR 0xE9, CHR 0x80, CHR 0x86, CHR 0xE5, CHR 0x90, CHR 0x91, CHR 0xE9, CHR 0x93, CHR 0x81, CHR 0xE8, CHR 0xAF, CHR 0x81] @ '')''"

definition txt_anthropic_only :: string where
  "txt_anthropic_only = '' -> Anthropic '' @ [CHR 0xE7, CHR 0x8B, CHR 0xAC, CHR 0xE6, CHR 0x9C, CHR 0x89]"

definition txt_cache_obj :: string where
  "txt_cache_obj = '' cache_creation: '' @ [CHR 0xE5, CHR 0xB5, CHR 0x8C, CHR 0xE5, CHR 0xA5, CHR 0x97, CHR 0xE5, CHR 0xAF, CHR 0xB9, CHR 0xE8, CHR 0xB1, CHR 0xA1] @ '' -> Anthropic '' @ [CHR 0xE6, CHR 0x96, CHR 0xB0, CHR 0xE6, CHR 0xA0, CHR 0xBC, CHR 0xE5, CHR 0xBC, CHR 0x8F]"

definition tag_fix :: string where
  "tag_fix = ''['' @ [CHR 0xE4, CHR 0xBF, CHR 0xAE, CHR 0xE6, CHR 0xAD, CHR 0xA3] @ '']''"

definition txt_tooluse_points :: string where
  "txt_tooluse_points = '' tooluse_ '' @ [CHR 0xE5, CHR 0x88, CHR 0x86, CHR 0xE6, CHR 0x95, CHR 0xB0] @ '' ''"

definition txt_moved :: string where
  "txt_moved = '' '' @ [CHR 0xE4, CHR 0xBB, CHR 0x8E] @ '' Bedrock '' @ [CHR 0xE8, CHR 0xBD, CHR 0xAC, CHR 0xE7, CHR 0xA7, CHR 0xBB, CHR 0xE5, CHR 0x88, CHR 0xB0] @ '' Antigravity''"

definition txt_kiro_rewrite :: string where
  "txt_kiro_rewrite = '' '' @ [CHR 0xE5, CHR 0xBD, CHR 0x92, CHR 0xE5, CHR 0xB1, CHR 0x9E] @ '' Kiro '' @ [CHR 0xE4, CHR 0xB8, CHR 0xAD, CHR 0xE8, CHR 0xBD, CHR 0xAC, CHR 0xE6, CHR 0x94, CHR 0xB9, CHR 0xE5, CHR 0x86, CHR 0x99] @ '' ('' @ [CHR 0xE9, CHR 0x9D, CHR 0x9E] @ '' Antigravity)''"

definition tag_missing :: string where
  "tag_missing = ''['' @ [CHR 0xE7, CHR 0xBC, CHR 0xBA, CHR 0xE5, CHR 0xA4, CHR 0xB1] @ '']''"

definition txt_missing_geo :: string where
  "txt_missing_geo = '' inference_geo '' @ [CHR 0xE6, CHR 0x9C, CHR 0xAA, CHR 0xE5, CHR 0x87, CHR 0xBA, CHR 0xE7, CHR 0x8E, CHR 0xB0] @ '' (Anthropic '' @ [CHR 0xE5, CHR 0xAE, CHR 0x98, CHR 0xE6, CHR 0x96, CHR 0xB9, CHR 0xE5, CHR 0xBF, CHR 0x85, CHR 0xE6, CHR 0x9C, CHR 0x89, CHR 0xE5, CHR 0xAD, CHR 0x97, CHR 0xE6, CHR 0xAE, CHR 0xB5] @ '')''"

definition txt_missing_cache :: string where
  "txt_missing_cache = '' cache_creation '' @ [CHR 0xE5, CHR 0xB5, CHR 0x8C, CHR 0xE5, CHR 0xA5, CHR 0x97, CHR 0xE5, CHR 0xAF, CHR 0xB9, CHR 0xE8, CHR 0xB1, CHR 0xA1, CHR 0xE6, CHR 0x9C, CHR 0xAA, CHR 0xE5, CHR 0x87, CHR 0xBA, CHR 0xE7, CHR 0x8E, CHR 0xB0]"

definition txt_missing_sig :: string where
  "txt_missing_sig = '' thinking signature '' @ [CHR 0xE4, CHR 0xB8, CHR 0xBA, CHR 0xE7, CHR 0xA9, CHR 0xBA] @ '' ('' @ [CHR 0xE7, CHR 0x9C, CHR 0x9F] @ '' Anthropic thinking '' @ [CHR 0xE8, CHR 0xBD, CHR 0xAE, CHR 0xE5, CHR 0xBA, CHR 0x94, CHR 0xE6, CHR 0x9C, CHR 0x89] @ '' len 200+ '' @ [CHR 0xE7, CHR 0xAD, CHR 0xBE, CHR 0xE5, CHR 0x90, CHR 0x8D] @ '')''"

definition txt_cancelled :: string where
  "txt_cancelled = ''[!] '' @ [CHR 0xE6, CHR 0xAD, CHR 0xA3, CHR 0xE9, CHR 0x9D, CHR 0xA2, CHR 0xE5, CHR 0x88, CHR 0x86, CHR 0xE6, CHR 0x95, CHR 0xB0, CHR 0xE8, CHR 0xA2, CHR 0xAB, CHR 0xE7, CHR 0xBC, CHR 0xBA, CHR 0xE5, CHR 0xA4, CHR 0xB1, CHR 0xE6, CHR 0x89, CHR 0xA3, CHR 0xE5, CHR 0x88, CHR 0x86, CHR 0xE6, CHR 0x8A, CHR 0xB5, CHR 0xE6, CHR 0xB6, CHR 0x88, CHR 0xEF, CHR 0xBC, CHR 0x8C, CHR 0xE9, CHR 0xAB, CHR 0x98, CHR 0xE5, CHR 0xBA, CHR 0xA6, CHR 0xE5, CHR 0x8F, CHR 0xAF, CHR 0xE7, CHR 0x96, CHR 0x91, CHR 0xE4, CHR 0xBC, CHR 0xAA, CHR 0xE8, CHR 0xA3, CHR 0x85] @ '' Anthropic''"

definition txt_no_signal :: string where
  "txt_no_signal = [CHR 0xE6, CHR 0x9C, CHR 0xAA, CHR 0xE8, CHR 0x8E, CHR 0xB7, CHR 0xE5, CHR 0x8F, CHR 0x96, CHR 0xE5, CHR 0x88, CHR 0xB0, CHR 0xE6, CHR 0x9C, CHR 0x89, CHR 0xE6, CHR 0x95, CHR 0x88, CHR 0xE6, CHR 0x8C, CHR 0x87, CHR 0xE7, CHR 0xBA, CHR 0xB9, CHR 0xE4, CHR 0xBF, CHR 0xA1, CHR 0xE5, CHR 0x8F, CHR 0xB7]"

definition txt_suspect_head :: string where
  "txt_suspect_head = ''[!!] '' @ [CHR 0xE7, CHR 0x96, CHR 0x91, CHR 0xE4, CHR 0xBC, CHR 0xBC, CHR 0xE4, CHR 0xBC, CHR 0xAA, CHR 0xE8, CHR 0xA3, CHR 0x85] @ '' Anthropic: ''"

definition txt_suspect_mid :: string where
  "txt_suspect_mid = '' '' @ [CHR 0xE4, CHR 0xB8, CHR 0xAA, CHR 0xE5, CHR 0xBF, CHR 0x85, CHR 0xE6, CHR 0x9C, CHR 0x89, CHR 0xE5, CHR 0xAD, CHR 0x97, CHR 0xE6, CHR 0xAE, CHR 0xB5, CHR 0xE7, CHR 0xBC, CHR 0xBA, CHR 0xE5, CHR 0xA4, CHR 0xB1] @ '' (''"

definition txt_suspect_relay :: string where
  "txt_suspect_relay = ''[!!] '' @ [CHR 0xE4, CHR 0xB8, CHR 0xAD, CHR 0xE8, CHR 0xBD, CHR 0xAC, CHR 0xE7, CHR 0xAB, CHR 0x99, CHR 0xE5, CHR 0x8F, CHR 0xAF, CHR 0xE8, CHR 0x83, CHR 0xBD, CHR 0xE9, CHR 0x87, CHR 0x8D, CHR 0xE5, CHR 0x86, CHR 0x99, CHR 0xE4, CHR 0xBA, CHR 0x86] @ '' tool_id '' @ [CHR 0xE5, CHR 0x89, CHR 0x8D, CHR 0xE7, CHR 0xBC, CHR 0x80, CHR 0xE5, CHR 0xB9, CHR 0xB6, CHR 0xE6, CHR 0xB3, CHR 0xA8, CHR 0xE5, CHR 0x85, CHR 0xA5] @ '' service_tier'' @ [CHR 0xEF, CHR 0xBC, CHR 0x8C, CHR 0xE4, CHR 0xBD, CHR 0x86, CHR 0xE6, CHR 0x97, CHR 0xA0, CHR 0xE6, CHR 0xB3, CHR 0x95, CHR 0xE4, CHR 0xBC, CHR 0xAA, CHR 0xE9, CHR 0x80, CHR 0xA0] @ '' inference_geo '' @ [CHR 0xE5, CHR 0x92, CHR 0x8C] @ '' cache_creation '' @ [CHR 0xE5, CHR 0xB5, CHR 0x8C, CHR 0xE5, CHR 0xA5, CHR 0x97, CHR 0xE5, CHR 0xAF, CHR 0xB9, CHR 0xE8, CHR 0xB1, CHR 0xA1]"

definition txt_verdict_anthropic :: string where
  "txt_verdict_anthropic = ''Anthropic '' @ [CHR 0xE5, CHR 0xAE, CHR 0x98, CHR 0xE6, CHR 0x96, CHR 0xB9] @ '' API''"

definition txt_verdict_suspicious :: string where
  "txt_verdict_suspicious = [CHR 0xE7, CHR 0x96, CHR 0x91, CHR 0xE4, CHR 0xBC, CHR 0xBC, CHR 0xE4, CHR 0xBC, CHR 0xAA, CHR 0xE8, CHR 0xA3, CHR 0x85] @ '' Anthropic''"

definition txt_verdict_unknown :: string where
  "txt_verdict_unknown = [CHR 0xE6, CHR 0x97, CHR 0xA0, CHR 0xE6, CHR 0xB3, CHR 0x95, CHR 0xE7, CHR 0xA1, CHR 0xAE, CHR 0xE5, CHR 0xAE, CHR 0x9A]"

section \<open>Data model\<close>

text \<open>
  \<open>Fingerprint\<close>: what one probe extracted. Go's \<open>int\<close> is 64 bits wide here. The
  classifier adds at most 21 to a score per fingerprint (the transfer of the second pass
  included) and at most 54 to the total, and a slice of fingerprints, each of more than
  256 bytes, has fewer than \<open>2 ^ 55\<close> elements, so no score, count or total can leave
  the 64-bit range: they are unbounded integers. \<open>LatencyMs\<close> is an \<open>int64\<close> read as
  its signed value; its sum wraps around.
\<close>

record Fingerprint =
  ToolID :: string
  ToolIDSource :: string
  MsgID :: string
  MsgIDSource :: string
  MsgIDFormat :: string
  Model :: string
  ModelRequested :: string
  ModelSource :: string
  UsageStyle :: string
  HasServiceTier :: bool
  ServiceTier :: string
  HasInferenceGeo :: bool
  InferenceGeo :: string
  HasCacheCreation :: bool
  HasAWSHeaders :: bool
  HasAnthropicHdrs :: bool
  ThinkingSigClass :: string
  ThinkingSigLen :: int
  ProbeType :: string
  LatencyMs :: int
  StopReason :: string
  ProxyPlatform :: string
  PlatformClues :: "string list"
  Error :: string
  RatelimitInputLimit :: int
  RatelimitInputRemaining :: int
  RatelimitInputReset :: string

text \<open>The zero value \<open>Fingerprint{}\<close>.\<close>

definition emptyFP :: Fingerprint where
  "emptyFP = \<lparr>ToolID = [], ToolIDSource = [], MsgID = [], MsgIDSource = [], MsgIDFormat = [],
     Model = [], ModelRequested = [], ModelSource = [], UsageStyle = [],
     HasServiceTier = False, ServiceTier = [], HasInferenceGeo = False, InferenceGeo = [],
     HasCacheCreation = False, HasAWSHeaders = False, HasAnthropicHdrs = False,
     ThinkingSigClass = [], ThinkingSigLen = 0, ProbeType = [], LatencyMs = 0, StopReason = [],
     ProxyPlatform = [], PlatformClues = [], Error = [],
     RatelimitInputLimit = 0, RatelimitInputRemaining = 0, RatelimitInputReset = []\<rparr>"

text \<open>
  The \<open>scores\<close> map of the classifier. It is created with the three keys
  \<open>anthropic\<close>, \<open>bedrock\<close> and \<open>antigravity\<close>, and no key is ever added or removed:
  one field per key.
\<close>

record ScoreMap =
  anthropic :: int
  bedrock :: int
  antigravity :: int

text \<open>
  \<open>Confidence\<close> is a \<open>float64\<close>. The program computes it in binary floating point;
  the expression is kept as it is written, not evaluated: \<open>ConfZero\<close> is the constant
  \<open>0.0\<close>, and \<open>ConfRatio m t\<close> is
  \<open>math.Round(float64(m)/float64(t)*100) / 100\<close>. Its binary64 value is \<open>confValue\<close>,
  below.
\<close>

datatype confidence = ConfZero | ConfRatio int int

text \<open>The result of \<open>verifyRatelimitDynamic\<close>: the keys \<open>verdict\<close>, \<open>detail\<close> and \<open>samples\<close>.\<close>

record sample =
  Remaining :: int
  Reset :: string

record RatelimitResult =
  rl_verdict :: string
  rl_detail :: string
  rl_samples :: "sample list"

record DetectResult =
  Verdict :: string
  VerdictText :: string
  Confidence :: confidence
  Scores :: ScoreMap
  Evidence :: "string list"
  Fingerprints :: "Fingerprint list"
  ResultModel :: string
  AvgLatencyMs :: int
  ResultProxyPlatform :: string
  ResultPlatformClues :: "string list"
  RatelimitVerify :: "RatelimitResult option"

text \<open>\<open>verdictTextMap\<close>; a key that is not in a Go map reads as the empty string.\<close>

definition verdictTextMap :: "string \<Rightarrow> string" where
  "verdictTextMap k =
     (if k = ''anthropic'' then txt_verdict_anthropic
      else if k = ''bedrock'' then ''AWS Bedrock (Kiro)''
      else if k = ''antigravity'' then ''Google Vertex AI (Antigravity)''
      else if k = ''suspicious'' then txt_verdict_suspicious
      else if k = ''unknown'' then txt_verdict_unknown
      else [])"

section \<open>The classifier: \<open>analyze\<close>\<close>

text \<open>The fingerprints without an error, in order.\<close>

definition validFPs_of :: "Fingerprint list \<Rightarrow> Fingerprint list" where
  "validFPs_of fingerprints = filter (\<lambda>fp. Error fp = []) fingerprints"

text \<open>Signed 64-bit wrap-around, and the average latency (Go's \<open>/\<close> truncates).\<close>

definition wrap64 :: "int \<Rightarrow> int" where
  "wrap64 x = (x + 2 ^ 63) mod 2 ^ 64 - 2 ^ 63"

definition avgLatency :: "Fingerprint list \<Rightarrow> int" where
  "avgLatency validFPs =
     wrap64 (fold (\<lambda>fp totalLatency. wrap64 (totalLatency + LatencyMs fp)) validFPs 0
             sdiv int (length validFPs))"

text \<open>The first non-empty proxy platform among the valid fingerprints, with its clues.\<close>

definition firstPlatform :: "Fingerprint list \<Rightarrow> string \<times> string list" where
  "firstPlatform validFPs =
     (case find (\<lambda>fp. ProxyPlatform fp \<noteq> []) validFPs of
        None \<Rightarrow> ([], [])
      | Some fp \<Rightarrow> (ProxyPlatform fp, PlatformClues fp))"

subsection \<open>First pass: additive scoring\<close>

text \<open>
  The state of the passes is the pair of the scores and the evidence lines so far.
  Each function below is one numbered block of the loop body, for the fingerprint
  whose tag is \<open>[R<i+1>]\<close>.
\<close>

type_synonym acc = "ScoreMap \<times> string list"

definition scoreToolID :: "string \<Rightarrow> Fingerprint \<Rightarrow> acc \<Rightarrow> acc" where
  "scoreToolID tag fp = (\<lambda>(scores, evidence).
     if ToolIDSource fp = ''bedrock'' then
       (scores\<lparr>bedrock := bedrock scores + 5\<rparr>,
        evidence @ [tag @ '' tool_use id: '' @ truncStr (ToolID fp) 28 @ '' -> tooluse_ (Bedrock/AG)''])
     else if ToolIDSource fp = ''anthropic'' then
       (scores\<lparr>anthropic := anthropic scores + 5\<rparr>,
        evidence @ [tag @ '' tool_use id: '' @ truncStr (ToolID fp) 28 @ '' -> toolu_ (Anthropic)''])
     else if ToolIDSource fp = ''vertex'' then
       (scores\<lparr>antigravity := antigravity scores + 5\<rparr>,
        evidence @ [tag @ '' tool_use id: '' @ truncStr (ToolID fp) 28 @ '' -> tool_N (Vertex AI)''])
     else if ToolIDSource fp = ''rewritten'' \<and> ToolID fp \<noteq> [] then
       (scores, evidence @ [tag @ '' tool_use id: '' @ truncStr (ToolID fp) 28 @ txt_rewritten])
     else (scores, evidence))"

definition scoreThinkingSig :: "string \<Rightarrow> Fingerprint \<Rightarrow> acc \<Rightarrow> acc" where
  "scoreThinkingSig tag fp = (\<lambda>(scores, evidence).
     if ThinkingSigClass fp = ''short'' then
       (scores, evidence @ [tag @ '' thinking sig: (len='' @ itoa (ThinkingSigLen fp) @ txt_sig_short])
     else if ThinkingSigClass fp = ''vertex'' then
       (scores\<lparr>antigravity := antigravity scores + 5\<rparr>,
        evidence @ [tag @ '' thinking sig: (len='' @ itoa (ThinkingSigLen fp) @ txt_sig_vertex])
     else if ThinkingSigClass fp = ''normal'' then
       (scores, evidence @ [tag @ '' thinking sig: (len='' @ itoa (ThinkingSigLen fp) @ txt_sig_normal])
     else if ThinkingSigClass fp = ''none'' \<and> ProbeType fp = ''thinking'' then
       (scores, evidence @ [tag @ txt_sig_none])
     else (scores, evidence))"

definition scoreMsgID :: "string \<Rightarrow> Fingerprint \<Rightarrow> acc \<Rightarrow> acc" where
  "scoreMsgID tag fp = (\<lambda>(scores, evidence).
     if MsgIDSource fp = ''anthropic'' then
       (scores\<lparr>anthropic := anthropic scores + 2\<rparr>,
        evidence @ [tag @ '' message id: '' @ truncStr (MsgID fp) 28 @ '' -> msg_<base62> (Anthropic)''])
     else if MsgIDSource fp = ''antigravity'' then
       (scores, evidence @ [tag @ '' message id: '' @ truncStr (MsgID fp) 28 @ txt_msg_uuid])
     else if MsgIDSource fp = ''vertex'' then
       (scores\<lparr>antigravity := antigravity scores + 6\<rparr>,
        evidence @ [tag @ '' message id: '' @ truncStr (MsgID fp) 28 @ '' -> req_vrtx_ (Vertex AI)''])
     else if MsgIDSource fp = ''rewritten'' then
       (scores, evidence @ [tag @ '' message id: '' @ truncStr (MsgID fp) 28 @ txt_rewritten])
     else (scores, evidence))"

definition scoreModel :: "string \<Rightarrow> Fingerprint \<Rightarrow> acc \<Rightarrow> acc" where
  "scoreModel tag fp = (\<lambda>(scores, evidence).
     if ModelSource fp = ''kiro'' then
       (scores\<lparr>bedrock := bedrock scores + 8\<rparr>,
        evidence @ [tag @ '' model: '' @ Model fp @ txt_kiro])
     else if ModelSource fp = ''bedrock'' then
       (scores\<lparr>bedrock := bedrock scores + 3\<rparr>,
        evidence @ [tag @ '' model: '' @ Model fp @ '' -> anthropic.* (Bedrock)''])
     else (scores, evidence))"

definition scoreServiceTier :: "string \<Rightarrow> Fingerprint \<Rightarrow> acc \<Rightarrow> acc" where
  "scoreServiceTier tag fp = (\<lambda>(scores, evidence).
     if HasServiceTier fp then
       (scores\<lparr>anthropic := anthropic scores + 3\<rparr>,
        evidence @ [tag @ '' service_tier: '' @ ServiceTier fp @ txt_anthropic_only])
     else (scores, evidence))"

definition scoreInferenceGeo :: "string \<Rightarrow> Fingerprint \<Rightarrow> acc \<Rightarrow> acc" where
  "scoreInferenceGeo tag fp = (\<lambda>(scores, evidence).
     if HasInferenceGeo fp then
       (scores\<lparr>anthropic := anthropic scores + 2\<rparr>,
        evidence @ [tag @ '' inference_geo: '' @ InferenceGeo fp @ txt_anthropic_only])
     else (scores, evidence))"

definition scoreCacheCreation :: "string \<Rightarrow> Fingerprint \<Rightarrow> acc \<Rightarrow> acc" where
  "scoreCacheCreation tag fp = (\<lambda>(scores, evidence).
     if HasCacheCreation fp then
       (scores\<lparr>anthropic := anthropic scores + 1\<rparr>, evidence @ [tag @ txt_cache_obj])
     else (scores, evidence))"

definition scoreUsageStyle :: "string \<Rightarrow> Fingerprint \<Rightarrow> acc \<Rightarrow> acc" where
  "scoreUsageStyle tag fp = (\<lambda>(scores, evidence).
     if UsageStyle fp = ''camelCase'' then
       (scores\<lparr>bedrock := bedrock scores + 2\<rparr>, evidence @ [tag @ '' usage: camelCase (Bedrock)''])
     else (scores, evidence))"

definition scoreAWSHeaders :: "string \<Rightarrow> Fingerprint \<Rightarrow> acc \<Rightarrow> acc" where
  "scoreAWSHeaders tag fp = (\<lambda>(scores, evidence).
     if HasAWSHeaders fp then
       (scores\<lparr>bedrock := bedrock scores + 3\<rparr>, evidence @ [tag @ '' AWS headers detected''])
     else (scores, evidence))"

definition scoreAnthropicHdrs :: "string \<Rightarrow> Fingerprint \<Rightarrow> acc \<Rightarrow> acc" where
  "scoreAnthropicHdrs tag fp = (\<lambda>(scores, evidence).
     if HasAnthropicHdrs fp then
       (scores\<lparr>anthropic := anthropic scores + 2\<rparr>,
        evidence @ [tag @ '' Anthropic rate-limit headers detected''])
     else (scores, evidence))"

text \<open>The loop body for the fingerprint at index \<open>i\<close> (from 0), and the loop.\<close>

definition scoreFingerprint :: "nat \<Rightarrow> Fingerprint \<Rightarrow> acc \<Rightarrow> acc" where
  "scoreFingerprint i fp a =
     (let tag = ''[R'' @ itoa (int i + 1) @ '']'' in
      scoreAnthropicHdrs tag fp (scoreAWSHeaders tag fp (scoreUsageStyle tag fp
        (scoreCacheCreation tag fp (scoreInferenceGeo tag fp (scoreServiceTier tag fp
          (scoreModel tag fp (scoreMsgID tag fp (scoreThinkingSig tag fp
            (scoreToolID tag fp a))))))))))"

fun firstPassFrom :: "nat \<Rightarrow> Fingerprint list \<Rightarrow> acc \<Rightarrow> acc" where
  "firstPassFrom i [] a = a"
| "firstPassFrom i (fp # fps) a = firstPassFrom (Suc i) fps (scoreFingerprint i fp a)"

definition firstPass :: "Fingerprint list \<Rightarrow> acc \<Rightarrow> acc" where
  "firstPass validFPs a = firstPassFrom 0 validFPs a"

subsection \<open>Second pass: attribution of the \<open>tooluse_\<close> points\<close>

definition hasKiroModel :: "Fingerprint list \<Rightarrow> bool" where
  "hasKiroModel validFPs = list_ex (\<lambda>fp. ModelSource fp = ''kiro'') validFPs"

definition toolusePoints :: "Fingerprint list \<Rightarrow> int" where
  "toolusePoints validFPs =
     fold (\<lambda>fp points. if ToolIDSource fp = ''bedrock'' then points + 5 else points) validFPs 0"

definition msgUUIDCount :: "Fingerprint list \<Rightarrow> int" where
  "msgUUIDCount validFPs =
     fold (\<lambda>fp n. if MsgIDSource fp = ''antigravity'' then n + 1 else n) validFPs 0"

definition transferTooluse :: "Fingerprint list \<Rightarrow> acc \<Rightarrow> acc" where
  "transferTooluse validFPs = (\<lambda>(scores, evidence).
     if \<not> hasKiroModel validFPs \<and> 0 < antigravity scores \<and> 0 < bedrock scores then
       if 4 \<le> antigravity scores then
         (scores\<lparr>antigravity := antigravity scores + toolusePoints validFPs,
                 bedrock := bedrock scores - toolusePoints validFPs\<rparr>,
          evidence @ [tag_fix @ txt_tooluse_points @ itoa (toolusePoints validFPs) @ txt_moved])
       else (scores, evidence)
     else (scores, evidence))"

definition noteKiroRewrite :: "Fingerprint list \<Rightarrow> acc \<Rightarrow> acc" where
  "noteKiroRewrite validFPs = (\<lambda>(scores, evidence).
     if hasKiroModel validFPs \<and> 0 < msgUUIDCount validFPs then
       (scores, evidence @ [tag_fix @ '' msg_<UUID> x'' @ itoa (msgUUIDCount validFPs) @ txt_kiro_rewrite])
     else (scores, evidence))"

definition secondPass :: "Fingerprint list \<Rightarrow> acc \<Rightarrow> acc" where
  "secondPass validFPs a = noteKiroRewrite validFPs (transferTooluse validFPs a)"

subsection \<open>Third pass: missing fields as negative evidence\<close>

text \<open>The state gains the list of missing flags.\<close>

type_synonym acc3 = "ScoreMap \<times> string list \<times> string list"

definition hasThinkingProbe :: "Fingerprint list \<Rightarrow> bool" where
  "hasThinkingProbe validFPs = list_ex (\<lambda>fp. ProbeType fp = ''thinking'') validFPs"

definition anyInferenceGeo :: "Fingerprint list \<Rightarrow> bool" where
  "anyInferenceGeo validFPs = list_ex HasInferenceGeo validFPs"

definition anyCacheObj :: "Fingerprint list \<Rightarrow> bool" where
  "anyCacheObj validFPs = list_ex HasCacheCreation validFPs"

definition anyThinkingSig :: "Fingerprint list \<Rightarrow> bool" where
  "anyThinkingSig validFPs =
     list_ex (\<lambda>fp. ProbeType fp = ''thinking'' \<and> 0 < ThinkingSigLen fp) validFPs"

definition missInferenceGeo :: "Fingerprint list \<Rightarrow> acc3 \<Rightarrow> acc3" where
  "missInferenceGeo validFPs = (\<lambda>(scores, evidence, missingFlags).
     if \<not> anyInferenceGeo validFPs then
       (scores\<lparr>anthropic := anthropic scores - 3\<rparr>,
        evidence @ [tag_missing @ txt_missing_geo],
        missingFlags @ [''inference_geo''])
     else (scores, evidence, missingFlags))"

definition missCacheObj :: "Fingerprint list \<Rightarrow> acc3 \<Rightarrow> acc3" where
  "missCacheObj validFPs = (\<lambda>(scores, evidence, missingFlags).
     if \<not> anyCacheObj validFPs then
       (scores\<lparr>anthropic := anthropic scores - 2\<rparr>,
        evidence @ [tag_missing @ txt_missing_cache],
        missingFlags @ [''cache_creation_obj''])
     else (scores, evidence, missingFlags))"

definition missThinkingSig :: "Fingerprint list \<Rightarrow> acc3 \<Rightarrow> acc3" where
  "missThinkingSig validFPs = (\<lambda>(scores, evidence, missingFlags).
     if hasThinkingProbe validFPs \<and> \<not> anyThinkingSig validFPs then
       (scores\<lparr>anthropic := anthropic scores - 3\<rparr>,
        evidence @ [tag_missing @ txt_missing_sig],
        missingFlags @ [''thinking_signature''])
     else (scores, evidence, missingFlags))"

definition thirdPass :: "Fingerprint list \<Rightarrow> acc \<Rightarrow> acc3" where
  "thirdPass validFPs = (\<lambda>(scores, evidence).
     if 0 < anthropic scores \<and> bedrock scores = 0 \<and> antigravity scores = 0 then
       missThinkingSig validFPs (missCacheObj validFPs (missInferenceGeo validFPs (scores, evidence, [])))
     else (scores, evidence, []))"

subsection \<open>Clamp and verdict\<close>

definition clampScores :: "ScoreMap \<Rightarrow> ScoreMap" where
  "clampScores scores =
     \<lparr>anthropic = (if anthropic scores < 0 then 0 else anthropic scores),
      bedrock = (if bedrock scores < 0 then 0 else bedrock scores),
      antigravity = (if antigravity scores < 0 then 0 else antigravity scores)\<rparr>"

definition total_of :: "ScoreMap \<Rightarrow> int" where
  "total_of scores = anthropic scores + bedrock scores + antigravity scores"

text \<open>
  The winner loop: it starts from \<open>anthropic\<close> and visits \<open>bedrock\<close>, then
  \<open>antigravity\<close>; a bucket replaces the current winner only with a strictly greater score.
  The result is the winner and \<open>maxScore\<close>.
\<close>

definition scoreOf :: "ScoreMap \<Rightarrow> string \<Rightarrow> int" where
  "scoreOf scores k =
     (if k = ''anthropic'' then anthropic scores
      else if k = ''bedrock'' then bedrock scores
      else if k = ''antigravity'' then antigravity scores
      else 0)"

definition winnerStep :: "ScoreMap \<Rightarrow> string \<Rightarrow> string \<times> int \<Rightarrow> string \<times> int" where
  "winnerStep scores k = (\<lambda>(winner, maxScore).
     if maxScore < scoreOf scores k then (k, scoreOf scores k) else (winner, maxScore))"

definition winnerOf :: "ScoreMap \<Rightarrow> string \<times> int" where
  "winnerOf scores =
     fold (winnerStep scores) [''bedrock'', ''antigravity''] (''anthropic'', anthropic scores)"

text \<open>
  The verdict block, up to the two lines appended for a suspicious result: the verdict,
  the confidence and the evidence.
\<close>

definition verdictPass :: "ScoreMap \<Rightarrow> string list \<Rightarrow> string list \<Rightarrow> string \<times> confidence \<times> string list" where
  "verdictPass scores evidence missingFlags =
     (let (verdict, conf, suspicious, evidence1) =
        (if total_of scores = 0 then
           if 0 < length missingFlags then
             (''anthropic'', ConfZero, True, evidence @ [txt_cancelled])
           else (''unknown'', ConfZero, False, evidence @ [txt_no_signal])
         else
           (fst (winnerOf scores), ConfRatio (snd (winnerOf scores)) (total_of scores),
            fst (winnerOf scores) = ''anthropic'' \<and> 2 \<le> length missingFlags, evidence))
      in if suspicious then
           (''suspicious'', conf,
            evidence1 @ [txt_suspect_head @ itoa (int (length missingFlags)) @ txt_suspect_mid
                          @ Join missingFlags '', '' @ '')'',
                         txt_suspect_relay])
         else (verdict, conf, evidence1))"

subsection \<open>\<open>analyze\<close>\<close>

definition zeroScores :: ScoreMap where
  "zeroScores = \<lparr>anthropic = 0, bedrock = 0, antigravity = 0\<rparr>"

text \<open>
  The scores and the evidence after the first pass, which starts from the zero scores
  and the line of the proxy platform, and the scores before the clamp, with the evidence
  and the missing flags.
\<close>

definition afterFirstPass :: "Fingerprint list \<Rightarrow> acc" where
  "afterFirstPass validFPs =
     firstPass validFPs
       (zeroScores,
        if fst (firstPlatform validFPs) \<noteq> [] then [txt_platform @ fst (firstPlatform validFPs)] else [])"

definition rawPasses :: "Fingerprint list \<Rightarrow> acc3" where
  "rawPasses validFPs = thirdPass validFPs (secondPass validFPs (afterFirstPass validFPs))"

definition missingFlags_of :: "Fingerprint list \<Rightarrow> string list" where
  "missingFlags_of fingerprints = snd (snd (rawPasses (validFPs_of fingerprints)))"

definition analyze :: "Fingerprint list \<Rightarrow> string \<Rightarrow> DetectResult" where
  "analyze fingerprints model =
     (let validFPs = validFPs_of fingerprints in
      if length validFPs = 0 then
        \<lparr>Verdict = ''unknown'', VerdictText = verdictTextMap ''unknown'', Confidence = ConfZero,
         Scores = zeroScores, Evidence = [txt_all_probes_failed], Fingerprints = fingerprints,
         ResultModel = model, AvgLatencyMs = 0, ResultProxyPlatform = [],
         ResultPlatformClues = [], RatelimitVerify = None\<rparr>
      else
        (let (rawScores, evidence, missingFlags) = rawPasses validFPs;
             scores = clampScores rawScores;
             (verdict, conf, evidence2) = verdictPass scores evidence missingFlags
         in \<lparr>Verdict = verdict,
             VerdictText = (if verdictTextMap verdict = [] then verdict else verdictTextMap verdict),
             Confidence = conf, Scores = scores, Evidence = evidence2,
             Fingerprints = fingerprints, ResultModel = model,
             AvgLatencyMs = avgLatency validFPs,
             ResultProxyPlatform = fst (firstPlatform validFPs),
             ResultPlatformClues = snd (firstPlatform validFPs),
             RatelimitVerify = None\<rparr>))"

section \<open>The safe dialer\<close>

text \<open>
  \<open>net.IP\<close> is a byte slice of length 4 or 16. The methods below are those of Go's
  standard library (package \<open>net\<close>), which \<open>safeDialer\<close> calls; \<open>metadataIP\<close> is the
  value of \<open>net.ParseIP("169.254.169.254")\<close>, the 16-byte form of that address.
\<close>

type_synonym IP = "8 word list"

record IPAddr =
  IP :: IP
  Zone :: string

definition v4InV6Prefix :: "8 word list" where
  "v4InV6Prefix = [0, 0, 0, 0, 0, 0, 0, 0, 0, 0, 0xff, 0xff]"

definition IPv4 :: "8 word \<Rightarrow> 8 word \<Rightarrow> 8 word \<Rightarrow> 8 word \<Rightarrow> IP" where
  "IPv4 a b c d = v4InV6Prefix @ [a, b, c, d]"

definition IPv4zero :: IP where
  "IPv4zero = IPv4 0 0 0 0"

definition IPv6unspecified :: IP where
  "IPv6unspecified = [0, 0, 0, 0, 0, 0, 0, 0, 0, 0, 0, 0, 0, 0, 0, 0]"

definition IPv6loopback :: IP where
  "IPv6loopback = [0, 0, 0, 0, 0, 0, 0, 0, 0, 0, 0, 0, 0, 0, 0, 1]"

definition To4 :: "IP \<Rightarrow> IP option" where
  "To4 ip =
     (if length ip = 4 then Some ip
      else if length ip = 16 \<and> list_all (\<lambda>b. b = 0) (take 10 ip) \<and> ip ! 10 = 0xff \<and> ip ! 11 = 0xff
      then Some (drop 12 ip)
      else None)"

definition Equal :: "IP \<Rightarrow> IP \<Rightarrow> bool" where
  "Equal ip x =
     (if length ip = length x then ip = x
      else if length ip = 4 \<and> length x = 16 then take 12 x = v4InV6Prefix \<and> ip = drop 12 x
      else if length ip = 16 \<and> length x = 4 then take 12 ip = v4InV6Prefix \<and> drop 12 ip = x
      else False)"

definition IsUnspecified :: "IP \<Rightarrow> bool" where
  "IsUnspecified ip = (Equal ip IPv4zero \<or> Equal ip IPv6unspecified)"

definition IsLoopback :: "IP \<Rightarrow> bool" where
  "IsLoopback ip =
     (case To4 ip of Some ip4 \<Rightarrow> ip4 ! 0 = 127 | None \<Rightarrow> Equal ip IPv6loopback)"

definition IsPrivate :: "IP \<Rightarrow> bool" where
  "IsPrivate ip =
     (case To4 ip of
        Some ip4 \<Rightarrow> ip4 ! 0 = 10 \<or> (ip4 ! 0 = 172 \<and> ip4 ! 1 AND 0xf0 = 16) \<or>
                    (ip4 ! 0 = 192 \<and> ip4 ! 1 = 168)
      | None \<Rightarrow> length ip = 16 \<and> ip ! 0 AND 0xfe = 0xfc)"

definition IsLinkLocalMulticast :: "IP \<Rightarrow> bool" where
  "IsLinkLocalMulticast ip =
     (case To4 ip of
        Some ip4 \<Rightarrow> ip4 ! 0 = 224 \<and> ip4 ! 1 = 0 \<and> ip4 ! 2 = 0
      | None \<Rightarrow> length ip = 16 \<and> ip ! 0 = 0xff \<and> ip ! 1 AND 0x0f = 0x02)"

definition IsLinkLocalUnicast :: "IP \<Rightarrow> bool" where
  "IsLinkLocalUnicast ip =
     (case To4 ip of
        Some ip4 \<Rightarrow> ip4 ! 0 = 169 \<and> ip4 ! 1 = 254
      | None \<Rightarrow> length ip = 16 \<and> ip ! 0 = 0xfe \<and> ip ! 1 AND 0xc0 = 0x80)"

definition metadataIP :: IP where
  "metadataIP = IPv4 169 254 169 254"

text \<open>
  The network, as the dialer sees it: \<open>net.SplitHostPort\<close>, the resolver and the
  underlying \<open>dialer.DialContext\<close>, each returning the text of its error on the left,
  and \<open>net.JoinHostPort\<close>.
\<close>

record 'c net_env =
  SplitHostPort :: "string \<Rightarrow> string + string \<times> string"
  JoinHostPort :: "string \<Rightarrow> string \<Rightarrow> string"
  LookupIPAddr :: "string \<Rightarrow> string + IPAddr list"
  DialContext :: "string \<Rightarrow> string \<Rightarrow> string + 'c"

text \<open>The loop over the resolved addresses: the message of the first address it rejects.\<close>

fun checkIPs :: "IPAddr list \<Rightarrow> string option" where
  "checkIPs [] = None"
| "checkIPs (ipAddr # ips) =
     (if IsLoopback (IP ipAddr) \<or> IsPrivate (IP ipAddr) \<or> IsLinkLocalUnicast (IP ipAddr) \<or>
         IsLinkLocalMulticast (IP ipAddr) \<or> IsUnspecified (IP ipAddr)
      then Some ''connection to private IP blocked''
      else if Equal (IP ipAddr) metadataIP then Some ''connection to metadata endpoint blocked''
      else checkIPs ips)"

text \<open>
  The function \<open>safeDialer\<close> returns. Its result is the connection or the error message,
  and the list of the calls it made to \<open>dialer.DialContext\<close> (network and address).
\<close>

type_synonym 'c dial_result = "(string + 'c) \<times> (string \<times> string) list"

definition safeDialer :: "'c net_env \<Rightarrow> string \<Rightarrow> string \<Rightarrow> 'c dial_result" where
  "safeDialer env network addr =
     (case SplitHostPort env addr of
        Inl err \<Rightarrow> (Inl (''invalid address: '' @ err), [])
      | Inr (host, port) \<Rightarrow>
          (case LookupIPAddr env host of
             Inl err \<Rightarrow> (Inl (''DNS lookup failed: '' @ err), [])
           | Inr ips \<Rightarrow>
               (case checkIPs ips of
                  Some msg \<Rightarrow> (Inl msg, [])
                | None \<Rightarrow> (DialContext env network (JoinHostPort env host port),
                            [(network, JoinHostPort env host port)]))))"

text \<open>
  The dial function of the client a detection builds: \<open>newUnsafeHTTPClient\<close> (the
  default transport, a plain dial) when \<open>skipSSRFCheck\<close> holds, \<open>newSafeHTTPClient\<close>
  otherwise.
\<close>

definition clientDial :: "bool \<Rightarrow> 'c net_env \<Rightarrow> string \<Rightarrow> string \<Rightarrow> 'c dial_result" where
  "clientDial skipSSRFCheck env network addr =
     (if skipSSRFCheck then (DialContext env network addr, [(network, addr)])
      else safeDialer env network addr)"

section \<open>Probing\<close>

subsection \<open>Library functions\<close>

text \<open>
  \<open>strings.ToLower\<close> on ASCII text: the program lowers header keys, which are ASCII
  tokens in a response that Go's HTTP client accepts. An upper-case letter and its
  lower-case form differ in the bit of value 32, which the upper-case one lacks.
\<close>

definition lowerChar :: "char \<Rightarrow> char" where
  "lowerChar c =
     (if 65 \<le> (of_char c :: nat) \<and> (of_char c :: nat) \<le> 90
      then (case c of Char b0 b1 b2 b3 b4 b5 b6 b7 \<Rightarrow> Char b0 b1 b2 b3 b4 True b6 b7)
      else c)"

definition ToLower :: "string \<Rightarrow> string" where
  "ToLower s = map lowerChar s"

definition isDigit :: "char \<Rightarrow> bool" where
  "isDigit c = (48 \<le> (of_char c :: nat) \<and> (of_char c :: nat) \<le> 57)"

text \<open>A hexadecimal digit of either case: the class \<open>[0-9a-f]\<close> under the flag \<open>(?i)\<close>.\<close>

definition isHex :: "char \<Rightarrow> bool" where
  "isHex c = (isDigit c \<or> (97 \<le> (of_char c :: nat) \<and> (of_char c :: nat) \<le> 102)
                        \<or> (65 \<le> (of_char c :: nat) \<and> (of_char c :: nat) \<le> 70))"

text \<open>
  \<open>strconv.Atoi\<close>: an optional sign and at least one decimal digit, nothing else;
  a value outside the 64-bit range is an error.
\<close>

definition digitsValue :: "string \<Rightarrow> int" where
  "digitsValue s = fold (\<lambda>c n. 10 * n + ((of_char c :: int) - 48)) s 0"

definition Atoi :: "string \<Rightarrow> int option" where
  "Atoi s =
     (let body = (if s \<noteq> [] \<and> (hd s = CHR ''-'' \<or> hd s = CHR ''+'') then tl s else s);
          n = (if s \<noteq> [] \<and> hd s = CHR ''-'' then - digitsValue body else digitsValue body)
      in if body \<noteq> [] \<and> list_all isDigit body \<and> - (2 ^ 63) \<le> n \<and> n < 2 ^ 63 then Some n else None)"

text \<open>
  A decoded JSON value, as \<open>encoding/json\<close> stores it in an \<open>any\<close>: a number is a
  \<open>float64\<close> (kept as its 64 bits), an object is a map, read here with \<open>map_of\<close>.
\<close>

datatype json =
  JNull | JBool bool | JNum "64 word" | JStr string | JArr "json list" | JObj "(string \<times> json) list"

text \<open>The type assertion \<open>v.(string)\<close> on a map entry, with the empty string when it fails.\<close>

definition asString :: "json option \<Rightarrow> string" where
  "asString v = (case v of Some (JStr s) \<Rightarrow> s | _ \<Rightarrow> [])"

text \<open>
  What the program takes from outside its own text: \<open>common.Unmarshal\<close> into a
  \<open>map[string]any\<close> (\<open>None\<close> is its error), the verb \<open>%v\<close> of \<open>fmt.Sprintf\<close> on a
  decoded value, and \<open>detectProxyPlatform\<close>, whose result depends on the iteration
  order of a Go map and is left to the environment.
\<close>

record library =
  Unmarshal :: "string \<Rightarrow> (string \<times> json) list option"
  formatValue :: "json \<Rightarrow> string"
  detectProxyPlatform :: "(string \<times> string list) list \<Rightarrow> string \<times> string list"

subsection \<open>Classifying identifiers\<close>

definition anthropicToolPrefix :: string where "anthropicToolPrefix = ''toolu_''"
definition bedrockToolPrefix :: string where "bedrockToolPrefix = ''tooluse_''"
definition anthropicMsgPrefix :: string where "anthropicMsgPrefix = ''msg_''"
definition kiroModelPrefix :: string where "kiroModelPrefix = ''kiro-''"
definition bedrockModelPrefix :: string where "bedrockModelPrefix = ''anthropic.''"
definition thinkingSigShortThreshold :: nat where "thinkingSigShortThreshold = 100"

text \<open>\<open>toolNPattern\<close>, the expression \<open>^tool_\d+$\<close>.\<close>

definition toolNPattern :: "string \<Rightarrow> bool" where
  "toolNPattern s = (HasPrefix s ''tool_'' \<and> drop 5 s \<noteq> [] \<and> list_all isDigit (drop 5 s))"

text \<open>
  \<open>msgIDUUIDPattern\<close>, the expression \<open>(?i)^msg_[0-9a-f]{8}-[0-9a-f]{4}-\<close>. The program
  tests it only on strings that start with \<open>msg_\<close>; the function is the match of what
  follows these four bytes.
\<close>

definition msgIDUUIDTail :: "string \<Rightarrow> bool" where
  "msgIDUUIDTail t =
     (14 \<le> length t \<and> list_all isHex (take 8 t) \<and> t ! 8 = CHR ''-'' \<and>
      list_all isHex (take 4 (drop 9 t)) \<and> t ! 13 = CHR ''-'')"

text \<open>
  \<open>uuidPattern\<close>, the expression
  \<open>(?i)^[0-9a-f]{8}-[0-9a-f]{4}-[0-9a-f]{4}-[0-9a-f]{4}-[0-9a-f]{12}$\<close>.
\<close>

definition uuidPattern :: "string \<Rightarrow> bool" where
  "uuidPattern s =
     (length s = 36 \<and> list_all isHex (take 8 s) \<and> s ! 8 = CHR ''-'' \<and>
      list_all isHex (take 4 (drop 9 s)) \<and> s ! 13 = CHR ''-'' \<and>
      list_all isHex (take 4 (drop 14 s)) \<and> s ! 18 = CHR ''-'' \<and>
      list_all isHex (take 4 (drop 19 s)) \<and> s ! 23 = CHR ''-'' \<and>
      list_all isHex (drop 24 s))"

definition classifyMsgID :: "string \<Rightarrow> string \<times> string" where
  "classifyMsgID msgID =
     (if msgID = [] then (''unknown'', [])
      else if HasPrefix msgID ''req_vrtx_'' then (''vertex'', ''req_vrtx'')
      else if HasPrefix msgID anthropicMsgPrefix then
        (if msgIDUUIDTail (drop 4 msgID) then (''antigravity'', ''msg_uuid'')
         else (''anthropic'', ''base62''))
      else if uuidPattern msgID then (''rewritten'', ''uuid'')
      else (''rewritten'', ''other''))"

definition classifyThinkingSig :: "string \<Rightarrow> string" where
  "classifyThinkingSig sig =
     (if sig = [] then ''none''
      else if length sig < thinkingSigShortThreshold then ''short''
      else if HasPrefix sig ''claude#'' then ''vertex''
      else ''normal'')"

subsection \<open>\<open>probeOnce\<close>\<close>

text \<open>
  What the HTTP layer did with the request of one probe. \<open>Body\<close> holds the bytes that
  could be read, \<open>BodyErr\<close> whether \<open>io.ReadAll\<close> returned an error, \<open>Elapsed\<close> the
  milliseconds since the request was sent. \<open>Header\<close> lists the entries of the header
  map, each key once, in the order the program's loops visit them.
\<close>

record response =
  StatusCode :: int
  Header :: "(string \<times> string list) list"
  Body :: string
  BodyErr :: bool
  Elapsed :: int

text \<open>
  \<open>MarshalError\<close> and \<open>RequestError\<close>: building the request failed;
  \<open>TransportError done\<close>: \<open>client.Do\<close> failed, and \<open>done\<close> tells whether the context
  had ended by then; \<open>Responded\<close>: a response arrived.
\<close>

datatype exchange = MarshalError | RequestError | TransportError bool | Responded response

definition awsHeaderKeywords :: "string list" where
  "awsHeaderKeywords = [''x-amzn'', ''x-amz-'', ''bedrock'']"

definition anthropicHeaderKeywords :: "string list" where
  "anthropicHeaderKeywords = [''anthropic-ratelimit'', ''x-ratelimit'', ''retry-after'']"

definition scanHeaderKeys :: "(string \<times> string list) list \<Rightarrow> Fingerprint \<Rightarrow> Fingerprint" where
  "scanHeaderKeys header fp =
     fold (\<lambda>(k, vals) fp.
        (let fp1 = (if list_ex (Contains (ToLower k)) awsHeaderKeywords
                    then fp\<lparr>HasAWSHeaders := True\<rparr> else fp)
         in if list_ex (Contains (ToLower k)) anthropicHeaderKeywords
            then fp1\<lparr>HasAnthropicHdrs := True\<rparr> else fp1)) header fp"

definition ratelimitHeader :: "string \<times> string list \<Rightarrow> Fingerprint \<Rightarrow> Fingerprint" where
  "ratelimitHeader = (\<lambda>(k, vals) fp.
     if ToLower k = ''anthropic-ratelimit-input-tokens-limit'' \<and> 0 < length vals then
       (case Atoi (hd vals) of Some n \<Rightarrow> fp\<lparr>RatelimitInputLimit := n\<rparr> | None \<Rightarrow> fp)
     else if ToLower k = ''anthropic-ratelimit-input-tokens-remaining'' \<and> 0 < length vals then
       (case Atoi (hd vals) of Some n \<Rightarrow> fp\<lparr>RatelimitInputRemaining := n\<rparr> | None \<Rightarrow> fp)
     else if ToLower k = ''anthropic-ratelimit-input-tokens-reset'' \<and> 0 < length vals then
       fp\<lparr>RatelimitInputReset := hd vals\<rparr>
     else fp)"

definition scanRatelimitHeaders :: "(string \<times> string list) list \<Rightarrow> Fingerprint \<Rightarrow> Fingerprint" where
  "scanRatelimitHeaders header fp = fold ratelimitHeader header fp"

text \<open>One content block: a \<open>tool_use\<close> block sets the tool id, a \<open>thinking\<close> block the signature.\<close>

definition scanToolUse :: "(string \<times> json) list \<Rightarrow> Fingerprint \<Rightarrow> Fingerprint" where
  "scanToolUse bm fp =
     (if map_of bm ''type'' = Some (JStr ''tool_use'') then
        (let toolID = asString (map_of bm ''id''); fp1 = fp\<lparr>ToolID := toolID\<rparr> in
         if HasPrefix toolID bedrockToolPrefix then fp1\<lparr>ToolIDSource := ''bedrock''\<rparr>
         else if HasPrefix toolID anthropicToolPrefix then fp1\<lparr>ToolIDSource := ''anthropic''\<rparr>
         else if toolNPattern toolID then fp1\<lparr>ToolIDSource := ''vertex''\<rparr>
         else if toolID \<noteq> [] then fp1\<lparr>ToolIDSource := ''rewritten''\<rparr>
         else fp1)
      else fp)"

definition scanThinking :: "(string \<times> json) list \<Rightarrow> Fingerprint \<Rightarrow> Fingerprint" where
  "scanThinking bm fp =
     (if map_of bm ''type'' = Some (JStr ''thinking'') then
        fp\<lparr>ThinkingSigLen := int (length (asString (map_of bm ''signature''))),
           ThinkingSigClass := classifyThinkingSig (asString (map_of bm ''signature''))\<rparr>
      else fp)"

definition scanBlock :: "json \<Rightarrow> Fingerprint \<Rightarrow> Fingerprint" where
  "scanBlock block fp = (case block of JObj bm \<Rightarrow> scanThinking bm (scanToolUse bm fp) | _ \<Rightarrow> fp)"

definition scanContent :: "(string \<times> json) list \<Rightarrow> Fingerprint \<Rightarrow> Fingerprint" where
  "scanContent body fp =
     (case map_of body ''content'' of Some (JArr content) \<Rightarrow> fold scanBlock content fp | _ \<Rightarrow> fp)"

definition scanMsgID :: "(string \<times> json) list \<Rightarrow> Fingerprint \<Rightarrow> Fingerprint" where
  "scanMsgID body fp =
     fp\<lparr>MsgID := asString (map_of body ''id''),
        MsgIDSource := fst (classifyMsgID (asString (map_of body ''id''))),
        MsgIDFormat := snd (classifyMsgID (asString (map_of body ''id'')))\<rparr>"

definition scanModel :: "(string \<times> json) list \<Rightarrow> Fingerprint \<Rightarrow> Fingerprint" where
  "scanModel body fp =
     (let m = asString (map_of body ''model''); fp1 = fp\<lparr>Model := m\<rparr> in
      if HasPrefix m kiroModelPrefix then fp1\<lparr>ModelSource := ''kiro''\<rparr>
      else if HasPrefix m bedrockModelPrefix then fp1\<lparr>ModelSource := ''bedrock''\<rparr>
      else if m \<noteq> [] then fp1\<lparr>ModelSource := ''anthropic''\<rparr>
      else fp1)"

definition scanUsage :: "library \<Rightarrow> (string \<times> json) list \<Rightarrow> Fingerprint \<Rightarrow> Fingerprint" where
  "scanUsage lib body fp =
     (case map_of body ''usage'' of
        Some (JObj usage) \<Rightarrow>
          (let fp1 = (if map_of usage ''inputTokens'' \<noteq> None then fp\<lparr>UsageStyle := ''camelCase''\<rparr>
                      else if map_of usage ''input_tokens'' \<noteq> None then fp\<lparr>UsageStyle := ''snake_case''\<rparr>
                      else fp);
               fp2 = (case map_of usage ''service_tier'' of
                        Some st \<Rightarrow> fp1\<lparr>HasServiceTier := True, ServiceTier := formatValue lib st\<rparr>
                      | None \<Rightarrow> fp1);
               fp3 = (case map_of usage ''inference_geo'' of
                        Some ig \<Rightarrow> fp2\<lparr>HasInferenceGeo := True, InferenceGeo := formatValue lib ig\<rparr>
                      | None \<Rightarrow> fp2)
           in (case map_of usage ''cache_creation'' of
                 Some (JObj cc) \<Rightarrow> fp3\<lparr>HasCacheCreation := True\<rparr>
               | _ \<Rightarrow> fp3))
      | _ \<Rightarrow> fp)"

definition parseBody :: "library \<Rightarrow> (string \<times> json) list \<Rightarrow> Fingerprint \<Rightarrow> Fingerprint" where
  "parseBody lib body fp =
     (scanUsage lib body (scanModel body (scanMsgID body (scanContent body fp))))
       \<lparr>StopReason := asString (map_of body ''stop_reason'')\<rparr>"

definition probeOnce :: "library \<Rightarrow> string \<Rightarrow> string \<Rightarrow> exchange \<Rightarrow> Fingerprint" where
  "probeOnce lib model probeType ex =
     (let fp = emptyFP\<lparr>ProbeType := probeType, ModelRequested := model\<rparr> in
      case ex of
        MarshalError \<Rightarrow> fp\<lparr>Error := ''failed to build request''\<rparr>
      | RequestError \<Rightarrow> fp\<lparr>Error := ''failed to create request''\<rparr>
      | TransportError done \<Rightarrow>
          fp\<lparr>Error := (if done then ''detection timed out'' else ''request failed'')\<rparr>
      | Responded resp \<Rightarrow>
          (let fp1 = fp\<lparr>LatencyMs := Elapsed resp\<rparr> in
           if StatusCode resp \<noteq> 200 then
             fp1\<lparr>Error := ''HTTP '' @ itoa (StatusCode resp) @ '': '' @ take 200 (Body resp)\<rparr>
           else
             (let fp2 = scanHeaderKeys (Header resp) fp1;
                  fp3 = fp2\<lparr>ProxyPlatform := fst (detectProxyPlatform lib (Header resp)),
                           PlatformClues := snd (detectProxyPlatform lib (Header resp))\<rparr>;
                  fp4 = scanRatelimitHeaders (Header resp) fp3
              in if BodyErr resp then fp4\<lparr>Error := ''failed to read response''\<rparr>
                 else (case Unmarshal lib (Body resp) of
                         None \<Rightarrow> fp4\<lparr>Error := ''response body not JSON''\<rparr>
                       | Some body \<Rightarrow> parseBody lib body fp4))))"

section \<open>Rate-limit verification\<close>

subsection \<open>Literals\<close>

text \<open>
  The texts of the verification, of the controller and of the label of an unavailable
  model. In English:
  \<open>txt_rl_unavailable\<close>: header not available (too few samples);
  \<open>txt_rl_fixed\<close>, \<open>txt_rl_forged\<close>: remaining fixed at a value, suspected forgery;
  \<open>txt_rl_monotone\<close>, \<open>txt_rl_real\<close>: remaining decreases monotonically, a real rate limit;
  \<open>txt_rl_arrow\<close>: an arrow between two values;
  \<open>txt_rl_varies\<close>, \<open>txt_rl_maybe\<close>: remaining changes but not monotonically, possibly real;
  \<open>txt_ev_rl_static\<close>, \<open>txt_ev_rl_dynamic\<close>, \<open>txt_ev_rl_unavailable\<close>: the evidence
  lines for the three verdicts;
  \<open>txt_verdict_unavailable\<close>: not available;
  \<open>txt_key_empty\<close>: the API key must not be empty;
  \<open>txt_choose_model\<close>: choose the models to detect;
  \<open>txt_invalid_target\<close>: invalid target address.
\<close>

definition txt_rl_unavailable :: string where
  "txt_rl_unavailable = ''ratelimit header '' @ [CHR 0xE4, CHR 0xB8, CHR 0x8D, CHR 0xE5, CHR 0x8F, CHR 0xAF, CHR 0xE7, CHR 0x94, CHR 0xA8, CHR 0xEF, CHR 0xBC, CHR 0x88, CHR 0xE6, CHR 0xA0, CHR 0xB7, CHR 0xE6, CHR 0x9C, CHR 0xAC, CHR 0xE4, CHR 0xB8, CHR 0x8D, CHR 0xE8, CHR 0xB6, CHR 0xB3, CHR 0xEF, CHR 0xBC, CHR 0x89]"

definition txt_rl_fixed :: string where
  "txt_rl_fixed = ''remaining '' @ [CHR 0xE5, CHR 0x9B, CHR 0xBA, CHR 0xE5, CHR 0xAE, CHR 0x9A, CHR 0xE4, CHR 0xB8, CHR 0xBA] @ '' ''"

definition txt_rl_forged :: string where
  "txt_rl_forged = [CHR 0xEF, CHR 0xBC, CHR 0x8C, CHR 0xE7, CHR 0x96, CHR 0x91, CHR 0xE4, CHR 0xBC, CHR 0xBC, CHR 0xE4, CHR 0xBC, CHR 0xAA, CHR 0xE9, CHR 0x80, CHR 0xA0]"

definition txt_rl_monotone :: string where
  "txt_rl_monotone = ''remaining '' @ [CHR 0xE5, CHR 0x8D, CHR 0x95, CHR 0xE8, CHR 0xB0, CHR 0x83, CHR 0xE9, CHR 0x80, CHR 0x92, CHR 0xE5, CHR 0x87, CHR 0x8F] @ '' ''"

definition txt_rl_arrow :: string where
  "txt_rl_arrow = '' '' @ [CHR 0xE2, CHR 0x86, CHR 0x92] @ '' ''"

definition txt_rl_real :: string where
  "txt_rl_real = '')'' @ [CHR 0xEF, CHR 0xBC, CHR 0x8C, CHR 0xE7, CHR 0x9C, CHR 0x9F, CHR 0xE5, CHR 0xAE, CHR 0x9E] @ '' ratelimit''"

definition txt_rl_varies :: string where
  "txt_rl_varies = ''remaining '' @ [CHR 0xE6, CHR 0x9C, CHR 0x89, CHR 0xE5, CHR 0x8F, CHR 0x98, CHR 0xE5, CHR 0x8C, CHR 0x96, CHR 0xE4, CHR 0xBD, CHR 0x86, CHR 0xE9, CHR 0x9D, CHR 0x9E, CHR 0xE5, CHR 0x8D, CHR 0x95, CHR 0xE8, CHR 0xB0, CHR 0x83] @ '' (''"

definition txt_rl_maybe :: string where
  "txt_rl_maybe = '')'' @ [CHR 0xEF, CHR 0xBC, CHR 0x8C, CHR 0xE5, CHR 0x8F, CHR 0xAF, CHR 0xE8, CHR 0x83, CHR 0xBD, CHR 0xE7, CHR 0x9C, CHR 0x9F, CHR 0xE5, CHR 0xAE, CHR 0x9E]"

definition txt_ev_rl_static :: string where
  "txt_ev_rl_static = ''[!!] ratelimit remaining '' @ [CHR 0xE5, CHR 0x80, CHR 0xBC, CHR 0xE5, CHR 0x9B, CHR 0xBA, CHR 0xE5, CHR 0xAE, CHR 0x9A, CHR 0xE4, CHR 0xB8, CHR 0x8D, CHR 0xE5, CHR 0x8F, CHR 0x98, CHR 0xEF, CHR 0xBC, CHR 0x8C, CHR 0xE7, CHR 0x96, CHR 0x91, CHR 0xE4, CHR 0xBC, CHR 0xBC, CHR 0xE4, CHR 0xBC, CHR 0xAA, CHR 0xE9, CHR 0x80, CHR 0xA0, CHR 0xE7, CHR 0x9A, CHR 0x84] @ '' ratelimit header''"

definition txt_ev_rl_dynamic :: string where
  "txt_ev_rl_dynamic = ''['' @ [CHR 0xE2, CHR 0x9C, CHR 0x93] @ ''] ratelimit remaining '' @ [CHR 0xE6, CHR 0xAD, CHR 0xA3, CHR 0xE5, CHR 0xB8, CHR 0xB8, CHR 0xE9, CHR 0x80, CHR 0x92, CHR 0xE5, CHR 0x87, CHR 0x8F, CHR 0xEF, CHR 0xBC, CHR 0x8C, CHR 0xE7, CHR 0x9C, CHR 0x9F, CHR 0xE5, CHR 0xAE, CHR 0x9E] @ '' Anthropic ratelimit header''"

definition txt_ev_rl_unavailable :: string where
  "txt_ev_rl_unavailable = ''[i] ratelimit header '' @ [CHR 0xE4, CHR 0xB8, CHR 0x8D, CHR 0xE5, CHR 0x8F, CHR 0xAF, CHR 0xE7, CHR 0x94, CHR 0xA8, CHR 0xEF, CHR 0xBC, CHR 0x8C, CHR 0xE6, CHR 0x97, CHR 0xA0, CHR 0xE6, CHR 0xB3, CHR 0x95, CHR 0xE8, CHR 0xBF, CHR 0x9B, CHR 0xE8, CHR 0xA1, CHR 0x8C, CHR 0xE5, CHR 0x8A, CHR 0xA8, CHR 0xE6, CHR 0x80, CHR 0x81, CHR 0xE9, CHR 0xAA, CHR 0x8C, CHR 0xE8, CHR 0xAF, CHR 0x81]"

definition txt_verdict_unavailable :: string where
  "txt_verdict_unavailable = [CHR 0xE4, CHR 0xB8, CHR 0x8D, CHR 0xE5, CHR 0x8F, CHR 0xAF, CHR 0xE7, CHR 0x94, CHR 0xA8]"

definition txt_key_empty :: string where
  "txt_key_empty = ''API Key '' @ [CHR 0xE4, CHR 0xB8, CHR 0x8D, CHR 0xE8, CHR 0x83, CHR 0xBD, CHR 0xE4, CHR 0xB8, CHR 0xBA, CHR 0xE7, CHR 0xA9, CHR 0xBA]"

definition txt_choose_model :: string where
  "txt_choose_model = [CHR 0xE8, CHR 0xAF, CHR 0xB7, CHR 0xE9, CHR 0x80, CHR 0x89, CHR 0xE6, CHR 0x8B, CHR 0xA9, CHR 0xE8, CHR 0xA6, CHR 0x81, CHR 0xE6, CHR 0xA3, CHR 0x80, CHR 0xE6, CHR 0xB5, CHR 0x8B, CHR 0xE7, CHR 0x9A, CHR 0x84, CHR 0xE6, CHR 0xA8, CHR 0xA1, CHR 0xE5, CHR 0x9E, CHR 0x8B]"

definition txt_invalid_target :: string where
  "txt_invalid_target = [CHR 0xE6, CHR 0x97, CHR 0xA0, CHR 0xE6, CHR 0x95, CHR 0x88, CHR 0xE7, CHR 0x9A, CHR 0x84, CHR 0xE7, CHR 0x9B, CHR 0xAE, CHR 0xE6, CHR 0xA0, CHR 0x87, CHR 0xE5, CHR 0x9C, CHR 0xB0, CHR 0xE5, CHR 0x9D, CHR 0x80]"

subsection \<open>\<open>verifyRatelimitDynamic\<close>\<close>

text \<open>
  The environment of a run of probes: \<open>ctxDone i\<close> tells whether the context had ended
  when the program tested \<open>ctx.Err()\<close> at its \<open>i\<close>-th test point, and \<open>exchanges i\<close> is
  what the HTTP layer did with the \<open>i\<close>-th probe.
\<close>

record detect_env =
  ctxDone :: "nat \<Rightarrow> bool"
  exchanges :: "nat \<Rightarrow> exchange"

text \<open>
  The loop over the shots, from shot \<open>i\<close> with \<open>n\<close> shots to go: it stops when the
  context has ended, and appends a sample when the fingerprint has no error and a
  positive \<open>RatelimitInputRemaining\<close>.
\<close>

fun shotLoop :: "library \<Rightarrow> detect_env \<Rightarrow> string \<Rightarrow> nat \<Rightarrow> nat \<Rightarrow> sample list \<Rightarrow> sample list" where
  "shotLoop lib env model i 0 samples = samples"
| "shotLoop lib env model i (Suc n) samples =
     (if ctxDone env i then samples
      else
        (let fp = probeOnce lib model ''simple'' (exchanges env i) in
         shotLoop lib env model (Suc i) n
           (if Error fp = [] \<and> 0 < RatelimitInputRemaining fp
            then samples @ [\<lparr>Remaining = RatelimitInputRemaining fp, Reset = RatelimitInputReset fp\<rparr>]
            else samples)))"

text \<open>The two tests on the samples, and the decision.\<close>

definition allSame :: "sample list \<Rightarrow> bool" where
  "allSame samples = list_all (\<lambda>s. Remaining s = Remaining (hd samples)) (tl samples)"

fun monotoneDec :: "sample list \<Rightarrow> bool" where
  "monotoneDec [] = True"
| "monotoneDec [s] = True"
| "monotoneDec (s # t # rest) = (\<not> Remaining s < Remaining t \<and> monotoneDec (t # rest))"

definition decideRatelimit :: "sample list \<Rightarrow> RatelimitResult" where
  "decideRatelimit samples =
     (if length samples < 2 then
        \<lparr>rl_verdict = ''unavailable'', rl_detail = txt_rl_unavailable, rl_samples = samples\<rparr>
      else
        (let totalDrop = Remaining (hd samples) - Remaining (last samples) in
         if allSame samples then
           \<lparr>rl_verdict = ''static'',
            rl_detail = txt_rl_fixed @ itoa (Remaining (hd samples)) @ txt_rl_forged,
            rl_samples = samples\<rparr>
         else if monotoneDec samples \<and> 0 < totalDrop then
           \<lparr>rl_verdict = ''dynamic'',
            rl_detail = txt_rl_monotone @ itoa (Remaining (hd samples)) @ txt_rl_arrow @
                        itoa (Remaining (last samples)) @ '' (drop='' @ itoa totalDrop @ txt_rl_real,
            rl_samples = samples\<rparr>
         else
           \<lparr>rl_verdict = ''dynamic'',
            rl_detail = txt_rl_varies @ itoa (Remaining (hd samples)) @ txt_rl_arrow @
                        itoa (Remaining (last samples)) @ txt_rl_maybe,
            rl_samples = samples\<rparr>))"

definition verifyRatelimitDynamic :: "library \<Rightarrow> detect_env \<Rightarrow> string \<Rightarrow> int \<Rightarrow> RatelimitResult" where
  "verifyRatelimitDynamic lib env model shots =
     decideRatelimit (shotLoop lib env model 0 (nat (if shots \<le> 0 then 4 else shots)) [])"

section \<open>Detection\<close>

text \<open>The loop of the tool probes, from round \<open>i\<close> with \<open>n\<close> rounds to go.\<close>

fun toolProbes :: "library \<Rightarrow> detect_env \<Rightarrow> string \<Rightarrow> nat \<Rightarrow> nat \<Rightarrow> Fingerprint list \<Rightarrow> Fingerprint list" where
  "toolProbes lib env model i 0 fingerprints = fingerprints"
| "toolProbes lib env model i (Suc n) fingerprints =
     (if ctxDone env i then fingerprints
      else toolProbes lib env model (Suc i) n
             (fingerprints @ [probeOnce lib model ''tool'' (exchanges env i)]))"

text \<open>
  \<open>DetectSingleModel\<close>. Its client dials through \<open>clientDial skipSSRFCheck\<close>, and what
  the HTTP layer does with a probe may depend on the client: the environment is given
  for each value of \<open>skipSSRFCheck\<close>. With \<open>n\<close> rounds, the test points \<open>0 .. n - 1\<close>
  are those of the tool loop, \<open>n\<close> is the test before the thinking probe, \<open>n + 1\<close> the
  test before the verification, and the verification's own loop uses the points from
  \<open>n + 2\<close>; the probes are numbered in the order of the program text.
\<close>

definition DetectSingleModel ::
  "library \<Rightarrow> (bool \<Rightarrow> detect_env) \<Rightarrow> string \<Rightarrow> int \<Rightarrow> bool \<Rightarrow> bool \<Rightarrow> DetectResult" where
  "DetectSingleModel lib envs model rounds skipSSRFCheck verifyRatelimit =
     (let env = envs skipSSRFCheck;
          n = nat rounds;
          tools = toolProbes lib env model 0 n [];
          fingerprints = (if \<not> ctxDone env n
                          then tools @ [probeOnce lib model ''thinking'' (exchanges env n)]
                          else tools);
          result = analyze fingerprints model
      in if verifyRatelimit \<and> \<not> ctxDone env (n + 1) then
           (let rl = verifyRatelimitDynamic lib
                       \<lparr>ctxDone = (\<lambda>j. ctxDone env (n + 2 + j)),
                        exchanges = (\<lambda>j. exchanges env (n + 1 + j))\<rparr> model 4
            in result\<lparr>RatelimitVerify := Some rl,
                      Evidence := Evidence result @
                        (if rl_verdict rl = ''static'' then [txt_ev_rl_static]
                         else if rl_verdict rl = ''dynamic'' then [txt_ev_rl_dynamic]
                         else if rl_verdict rl = ''unavailable'' then [txt_ev_rl_unavailable]
                         else [])\<rparr>)
         else result)"

text \<open>\<open>CheckModelAvailable\<close>, from what the HTTP layer did with its request.\<close>

definition CheckModelAvailable :: "exchange \<Rightarrow> bool" where
  "CheckModelAvailable ex = (case ex of Responded resp \<Rightarrow> StatusCode resp = 200 | _ \<Rightarrow> False)"

subsection \<open>\<open>ScanMultipleModels\<close>\<close>

text \<open>
  \<open>Summary\<close> is a Go map from model to verdict: an association list with one entry per
  key, where an assignment replaces the entry of a key it already has.
\<close>

record ScanResult =
  BaseURL :: string
  ScanProxyPlatform :: string
  ModelResults :: "DetectResult list"
  Summary :: "(string \<times> string) list"
  IsMixed :: bool

definition DefaultScanModels :: "string list" where
  "DefaultScanModels =
     [''claude-opus-4-6-thinking'', ''claude-opus-4-6-20250918'', ''claude-sonnet-4-5-20250929'',
      ''claude-haiku-4-5-20251001'', ''claude-3-5-sonnet-20241022'', ''claude-3-haiku-20240307'']"

text \<open>
  The environment of a scan, for the \<open>j\<close>-th model of the list: whether the context of
  the scan had ended, the exchange of the availability check (for each value of
  \<open>skipSSRFCheck\<close>), and the environment of the detection.
\<close>

record scan_env =
  scanDone :: "nat \<Rightarrow> bool"
  availability :: "bool \<Rightarrow> nat \<Rightarrow> exchange"
  detection :: "nat \<Rightarrow> bool \<Rightarrow> detect_env"

definition unavailableResult :: "string \<Rightarrow> DetectResult" where
  "unavailableResult model =
     \<lparr>Verdict = ''unavailable'', VerdictText = txt_verdict_unavailable, Confidence = ConfZero,
      Scores = zeroScores, Evidence = [], Fingerprints = [], ResultModel = model,
      AvgLatencyMs = 0, ResultProxyPlatform = [], ResultPlatformClues = [],
      RatelimitVerify = None\<rparr>"

fun scanLoop ::
  "library \<Rightarrow> scan_env \<Rightarrow> int \<Rightarrow> bool \<Rightarrow> nat \<Rightarrow> string list \<Rightarrow> ScanResult \<Rightarrow> ScanResult" where
  "scanLoop lib env rounds skipSSRFCheck j [] scan = scan"
| "scanLoop lib env rounds skipSSRFCheck j (model # models) scan =
     (if scanDone env j then scan
      else if \<not> CheckModelAvailable (availability env skipSSRFCheck j) then
        scanLoop lib env rounds skipSSRFCheck (Suc j) models
          (scan\<lparr>ModelResults := ModelResults scan @ [unavailableResult model],
                Summary := AList.update model ''unavailable'' (Summary scan)\<rparr>)
      else
        (let result = DetectSingleModel lib (detection env j) model rounds skipSSRFCheck False in
         scanLoop lib env rounds skipSSRFCheck (Suc j) models
           (scan\<lparr>ModelResults := ModelResults scan @ [result],
                 Summary := AList.update model (Verdict result) (Summary scan),
                 ScanProxyPlatform :=
                   (if ResultProxyPlatform result \<noteq> [] \<and> ScanProxyPlatform scan = []
                    then ResultProxyPlatform result else ScanProxyPlatform scan)\<rparr>)))"

text \<open>The set of the verdicts of the summary other than \<open>unavailable\<close>, without repetition.\<close>

definition verdictSet :: "(string \<times> string) list \<Rightarrow> string list" where
  "verdictSet summary = remdups (filter (\<lambda>v. v \<noteq> ''unavailable'') (map snd summary))"

definition ScanMultipleModels ::
  "library \<Rightarrow> scan_env \<Rightarrow> string \<Rightarrow> string list \<Rightarrow> int \<Rightarrow> bool \<Rightarrow> ScanResult" where
  "ScanMultipleModels lib env baseURL models rounds skipSSRFCheck =
     (let scan = scanLoop lib env rounds skipSSRFCheck 0
                   (if length models = 0 then DefaultScanModels else models)
                   \<lparr>BaseURL = baseURL, ScanProxyPlatform = [], ModelResults = [], Summary = [],
                    IsMixed = False\<rparr>
      in scan\<lparr>IsMixed := 1 < length (verdictSet (Summary scan))\<rparr>)"

subsection \<open>The controller\<close>

record ProxyDetectRequest =
  ReqBaseURL :: string
  APIKey :: string
  Models :: "string list"
  Rounds :: int
  VerifyRatelimit :: bool

text \<open>
  What the handler reads from outside: the role of the caller and the constant
  \<open>common.RoleAdminUser\<close>, the configured server address, \<open>url.Parse\<close> (the scheme and
  the host name of a URL it accepts), and the environments of the two detections.
\<close>

record controller_env =
  role :: int
  RoleAdminUser :: int
  ServerAddress :: string
  urlParse :: "string \<Rightarrow> (string \<times> string) option"
  single :: "bool \<Rightarrow> detect_env"
  multi :: scan_env

definition ValidateProxyDetectURL :: "controller_env \<Rightarrow> string \<Rightarrow> string option" where
  "ValidateProxyDetectURL env rawURL =
     (case urlParse env rawURL of
        None \<Rightarrow> Some ''invalid URL format''
      | Some (scheme, hostname) \<Rightarrow>
          if scheme \<noteq> ''http'' \<and> scheme \<noteq> ''https'' then Some ''only http/https URLs are allowed''
          else if hostname = [] then Some ''URL must have a hostname''
          else None)"

text \<open>The resolved base URL, the admin flag and the error message (empty without error).\<close>

definition resolveProxyDetectBaseURL :: "controller_env \<Rightarrow> string \<Rightarrow> string \<times> bool \<times> string" where
  "resolveProxyDetectBaseURL env baseURL =
     (let isAdmin = (RoleAdminUser env \<le> role env);
          baseURL1 = (if \<not> isAdmin then ServerAddress env else baseURL);
          baseURL2 = (if baseURL1 = [] then ServerAddress env else baseURL1)
      in if ValidateProxyDetectURL env baseURL2 \<noteq> None then ([], isAdmin, txt_invalid_target)
         else (baseURL2, isAdmin, []))"

text \<open>The answer of the handler, once the request has been decoded: a message or the data.\<close>

datatype api_response = Failure string | Success ScanResult

definition ProxyDetect :: "library \<Rightarrow> controller_env \<Rightarrow> ProxyDetectRequest \<Rightarrow> api_response" where
  "ProxyDetect lib env req =
     (if APIKey req = [] then Failure txt_key_empty
      else if length (Models req) = 0 then Failure txt_choose_model
      else
        (let models = (if 6 < length (Models req) then take 6 (Models req) else Models req);
             rounds1 = (if Rounds req \<le> 0 then 2 else Rounds req);
             rounds2 = (if 3 < rounds1 then 3 else rounds1);
             (baseURL, isAdmin, errMsg) = resolveProxyDetectBaseURL env (ReqBaseURL req)
         in if errMsg \<noteq> [] then Failure errMsg
            else if length models = 1 then
              (let detectResult = DetectSingleModel lib (single env) (hd models) rounds2 isAdmin
                                    (VerifyRatelimit req)
               in Success \<lparr>BaseURL = baseURL,
                           ScanProxyPlatform = ResultProxyPlatform detectResult,
                           ModelResults = [detectResult],
                           Summary = [(ResultModel detectResult, Verdict detectResult)],
                           IsMixed = False\<rparr>)
            else Success (ScanMultipleModels lib (multi env) baseURL models rounds2 isAdmin)))"

section \<open>Inputs used by the properties\<close>

subsection \<open>Fingerprints and networks\<close>

text \<open>Two disguised relays: the penalties leave 2 points in the first and none in the second.\<close>

definition fpDisguised :: Fingerprint where
  "fpDisguised = emptyFP\<lparr>ToolID := ''toolu_01'', ToolIDSource := ''anthropic'',
      MsgID := ''msg_01'', MsgIDSource := ''anthropic'', HasServiceTier := True,
      ServiceTier := ''standard'', ProbeType := ''thinking'', ThinkingSigClass := ''none''\<rparr>"

definition fpCancelled :: Fingerprint where
  "fpCancelled = emptyFP\<lparr>MsgID := ''msg_01'', MsgIDSource := ''anthropic'', ProbeType := ''tool''\<rparr>"

text \<open>A relay with 5 points for \<open>bedrock\<close> and 5 for \<open>antigravity\<close>, none of them from a tool id.\<close>

definition fpTie :: Fingerprint where
  "fpTie = emptyFP\<lparr>Model := ''anthropic.claude-3'', ModelSource := ''bedrock'',
      UsageStyle := ''camelCase'', ProbeType := ''thinking'',
      ThinkingSigClass := ''vertex'', ThinkingSigLen := 120\<rparr>"

text \<open>A fingerprint with 5 points for \<open>anthropic\<close> and 5 for \<open>bedrock\<close>.\<close>

definition fpTieAB :: Fingerprint where
  "fpTieAB = emptyFP\<lparr>ToolID := ''toolu_01'', ToolIDSource := ''anthropic'',
      Model := ''anthropic.claude-3'', ModelSource := ''bedrock'',
      UsageStyle := ''camelCase'', ProbeType := ''tool''\<rparr>"

text \<open>
  A relay over Vertex AI: tool ids with the prefix \<open>tooluse_\<close> and a message id with
  the prefix \<open>req_vrtx_\<close>.
\<close>

definition fpTooluse :: Fingerprint where
  "fpTooluse = emptyFP\<lparr>ToolID := ''tooluse_abc'', ToolIDSource := ''bedrock'', ProbeType := ''tool''\<rparr>"

definition fpVrtx :: Fingerprint where
  "fpVrtx = emptyFP\<lparr>MsgID := ''req_vrtx_01'', MsgIDSource := ''vertex'', ProbeType := ''thinking''\<rparr>"

text \<open>A network where \<open>rebind.example\<close> resolves to a public address and to loopback.\<close>

definition envRebind :: "nat net_env" where
  "envRebind =
     \<lparr>SplitHostPort = (\<lambda>addr. if addr = ''rebind.example:443'' then Inr (''rebind.example'', ''443'')
                              else Inl ''missing port in address''),
      JoinHostPort = (\<lambda>host port. host @ '':'' @ port),
      LookupIPAddr = (\<lambda>host. if host = ''rebind.example''
                             then Inr [\<lparr>IP = [93, 184, 216, 34], Zone = []\<rparr>,
                                       \<lparr>IP = IPv4 127 0 0 1, Zone = []\<rparr>]
                             else Inl ''no such host''),
      DialContext = (\<lambda>network addr. Inr 0)\<rparr>"

text \<open>A network where \<open>meta.example\<close> resolves to the metadata address alone.\<close>

definition envMetadata :: "nat net_env" where
  "envMetadata =
     \<lparr>SplitHostPort = (\<lambda>addr. if addr = ''meta.example:80'' then Inr (''meta.example'', ''80'')
                              else Inl ''missing port in address''),
      JoinHostPort = (\<lambda>host port. host @ '':'' @ port),
      LookupIPAddr = (\<lambda>host. if host = ''meta.example''
                             then Inr [\<lparr>IP = [169, 254, 169, 254], Zone = []\<rparr>]
                             else Inl ''no such host''),
      DialContext = (\<lambda>network addr. Inr 0)\<rparr>"

subsection \<open>A relation used by the properties of the classifier\<close>

text \<open>No score of the first state exceeds the score of the second.\<close>

definition grows :: "acc \<Rightarrow> acc \<Rightarrow> bool" where
  "grows a b = (anthropic (fst a) \<le> anthropic (fst b) \<and> bedrock (fst a) \<le> bedrock (fst b) \<and>
                antigravity (fst a) \<le> antigravity (fst b))"

subsection \<open>Inputs and readings used by the properties of the probes\<close>

text \<open>
  The signatures of the \<open>thinking\<close> blocks of a content array, in order (the empty
  string for a block without a string under \<open>signature\<close>), and the signature a probe
  ends with: that of the last thinking block of the decoded body of a response with
  status 200, if there is one.
\<close>

fun thinkingSigs :: "json list \<Rightarrow> string list" where
  "thinkingSigs [] = []"
| "thinkingSigs (JObj bm # blocks) =
     (if map_of bm ''type'' = Some (JStr ''thinking'')
      then asString (map_of bm ''signature'') # thinkingSigs blocks
      else thinkingSigs blocks)"
| "thinkingSigs (b # blocks) = thinkingSigs blocks"

definition lastThinkingSig :: "library \<Rightarrow> exchange \<Rightarrow> string option" where
  "lastThinkingSig lib ex =
     (case ex of
        Responded resp \<Rightarrow>
          (if StatusCode resp = 200 \<and> \<not> BodyErr resp then
             (case Unmarshal lib (Body resp) of
                Some body \<Rightarrow>
                  (case map_of body ''content'' of
                     Some (JArr content) \<Rightarrow>
                       (if thinkingSigs content = [] then None
                        else Some (last (thinkingSigs content)))
                   | _ \<Rightarrow> None)
              | None \<Rightarrow> None)
           else None)
      | _ \<Rightarrow> None)"

text \<open>
  A library whose decoder knows four bodies: an answer with a text block only, an
  answer whose thinking block has a short signature with the prefix \<open>claude#\<close>, an
  answer of Anthropic's shape and an answer of a Kiro relay.
\<close>

definition libSample :: library where
  "libSample =
     \<lparr>Unmarshal = (\<lambda>s.
        if s = ''text-only'' then
          Some [(''content'', JArr [JObj [(''type'', JStr ''text''), (''text'', JStr ''5'')]])]
        else if s = ''short-vertex'' then
          Some [(''content'', JArr [JObj [(''type'', JStr ''thinking''),
                                          (''signature'', JStr ''claude#abc'')]])]
        else if s = ''anthropic-shape'' then
          Some [(''id'', JStr ''msg_01XFDUDYJgAACzvnptvVoYEL''),
                (''model'', JStr ''claude-sonnet-4-5-20250929''),
                (''content'', JArr [JObj [(''type'', JStr ''tool_use''), (''id'', JStr ''toolu_01A'')]]),
                (''usage'', JObj [(''input_tokens'', JNum 0), (''service_tier'', JStr ''standard''),
                                  (''inference_geo'', JStr ''us''),
                                  (''cache_creation'', JObj [])])]
        else if s = ''kiro-shape'' then
          Some [(''id'', JStr ''01234567-89ab-cdef-0123-456789abcdef''),
                (''model'', JStr ''kiro-sonnet-4''),
                (''content'', JArr [JObj [(''type'', JStr ''tool_use''), (''id'', JStr ''tooluse_xyz'')]]),
                (''usage'', JObj [(''inputTokens'', JNum 0)])]
        else None),
      formatValue = (\<lambda>v. case v of JStr s \<Rightarrow> s | _ \<Rightarrow> ''?''),
      detectProxyPlatform = (\<lambda>h. ([], []))\<rparr>"

definition respWith :: "(string \<times> string list) list \<Rightarrow> string \<Rightarrow> response" where
  "respWith h b = \<lparr>StatusCode = 200, Header = h, Body = b, BodyErr = False, Elapsed = 120\<rparr>"

subsection \<open>Inputs and readings used by the properties of the verification\<close>

text \<open>
  The fingerprints of the probes that the loop of \<open>verifyRatelimitDynamic\<close> issues, from
  shot \<open>i\<close> with \<open>n\<close> shots to go: one per shot until the context has ended.
\<close>

fun shotFingerprints :: "library \<Rightarrow> detect_env \<Rightarrow> string \<Rightarrow> nat \<Rightarrow> nat \<Rightarrow> Fingerprint list" where
  "shotFingerprints lib env model i 0 = []"
| "shotFingerprints lib env model i (Suc n) =
     (if ctxDone env i then []
      else probeOnce lib model ''simple'' (exchanges env i) # shotFingerprints lib env model (Suc i) n)"

text \<open>
  A run in which every response carries the header
  \<open>anthropic-ratelimit-input-tokens-remaining\<close> with the value 0, a run in which every
  response carries it with the value 50000 and a body that is not JSON, and runs with
  the values 50000 four times, 500, 400, 400, 300 and 500, 300, 400, 200.
\<close>

definition respRemaining :: "string \<Rightarrow> response" where
  "respRemaining v =
     respWith [(''Anthropic-Ratelimit-Input-Tokens-Remaining'', [v])] ''anthropic-shape''"

definition envExhausted :: detect_env where
  "envExhausted = \<lparr>ctxDone = (\<lambda>i. False), exchanges = (\<lambda>i. Responded (respRemaining ''0''))\<rparr>"

definition respBroken :: response where
  "respBroken = respWith [(''Anthropic-Ratelimit-Input-Tokens-Remaining'', [''50000''])] ''<html>''"

definition envBroken :: detect_env where
  "envBroken = \<lparr>ctxDone = (\<lambda>i. False), exchanges = (\<lambda>i. Responded respBroken)\<rparr>"

definition envOf :: "string list \<Rightarrow> detect_env" where
  "envOf vs = \<lparr>ctxDone = (\<lambda>i. False),
               exchanges = (\<lambda>i. if i < length vs then Responded (respRemaining (vs ! i))
                                 else TransportError False)\<rparr>"

subsection \<open>Inputs used by the properties of the scan\<close>

text \<open>
  A scan in which every model is available and the \<open>j\<close>-th detection receives the
  \<open>j\<close>-th body of a list for each of its probes; a controller environment for a caller
  who is not an administrator; a request that names one model twice and a request with
  two models.
\<close>

definition scanEnvOf :: "string list \<Rightarrow> scan_env" where
  "scanEnvOf bodies =
     \<lparr>scanDone = (\<lambda>j. False),
      availability = (\<lambda>skipSSRFCheck j. Responded (respWith [] ''text-only'')),
      detection = (\<lambda>j skipSSRFCheck. \<lparr>ctxDone = (\<lambda>i. False),
                          exchanges = (\<lambda>i. if j < length bodies then Responded (respWith [] (bodies ! j))
                                            else TransportError False)\<rparr>)\<rparr>"

definition ctlEnv :: controller_env where
  "ctlEnv =
     \<lparr>role = 1, RoleAdminUser = 10, ServerAddress = ''https://api.example'',
      urlParse = (\<lambda>u. if u = ''https://api.example'' then Some (''https'', ''api.example'') else None),
      single = (\<lambda>skipSSRFCheck.
                  \<lparr>ctxDone = (\<lambda>i. False), exchanges = (\<lambda>i. Responded (respWith [] ''kiro-shape''))\<rparr>),
      multi = scanEnvOf [''anthropic-shape'', ''kiro-shape'']\<rparr>"

definition reqTwice :: ProxyDetectRequest where
  "reqTwice = \<lparr>ReqBaseURL = [], APIKey = ''sk-1'', Models = [''claude-a'', ''claude-a''],
               Rounds = 1, VerifyRatelimit = False\<rparr>"

definition reqTwo :: ProxyDetectRequest where
  "reqTwo = \<lparr>ReqBaseURL = [], APIKey = ''sk-1'', Models = [''claude-a'', ''claude-b''],
             Rounds = 1, VerifyRatelimit = False\<rparr>"

definition scanTwice :: ScanResult where
  "scanTwice = ScanMultipleModels libSample (scanEnvOf [''anthropic-shape'', ''kiro-shape''])
                 ''https://api.example'' [''claude-a'', ''claude-a''] 1 False"

definition scanTwo :: ScanResult where
  "scanTwo = ScanMultipleModels libSample (scanEnvOf [''anthropic-shape'', ''kiro-shape''])
               ''https://api.example'' [''claude-a'', ''claude-b''] 1 False"

section \<open>The value of the confidence\<close>

text \<open>
  \<open>analyze\<close> computes \<open>math.Round(float64(maxScore)/float64(total)*100) / 100\<close> in
  IEEE 754 binary64 with the default rounding, round to nearest, ties to even. A finite
  value that is not negative is modelled by a pair \<open>(m, e)\<close> of integers, its value being
  \<open>m * 2 ^ e\<close>: zero is \<open>(0, 0)\<close>, and every other result of a rounding has a mantissa
  \<open>m\<close> of exactly 53 bits (\<open>2 ^ 52 \<le> m \<le> 2 ^ 53\<close>). The exponent is not bounded:
  the operands are Go integers between 1 and \<open>2 ^ 63\<close> and the constant 100, so that
  every value met here lies between \<open>2 ^ - 64\<close> and \<open>2 ^ 71\<close>, well inside the normal range
  of binary64, with neither overflow nor a subnormal. Negative values, infinities and NaN do not
  occur: the scores are clamped at 0 and the division is under \<open>total > 0\<close>; the
  functions below are meant for positive fractions and divisors only.

  A \<open>fraction\<close> \<open>(p, q)\<close> with \<open>0 < q\<close> stands for the exact quotient \<open>p / q\<close>.
\<close>

type_synonym fraction = "int \<times> int"
type_synonym float64 = "int \<times> int"

text \<open>\<open>ilog2 n\<close> is the position of the highest bit of \<open>n\<close>: \<open>2 ^ ilog2 n \<le> n < 2 ^ (ilog2 n + 1)\<close>.\<close>

function ilog2 :: "int \<Rightarrow> int" where
  "ilog2 n = (if n < 2 then 0 else 1 + ilog2 (n div 2))"
  by pat_completeness auto
termination
  by (relation "measure nat") auto

declare ilog2.simps [simp del]

text \<open>\<open>scale e (p, q)\<close> is the fraction \<open>(p / q) / 2 ^ e\<close>.\<close>

definition scale :: "int \<Rightarrow> fraction \<Rightarrow> fraction" where
  "scale e = (\<lambda>(p, q). if 0 \<le> e then (p, q * 2 ^ nat e) else (p * 2 ^ nat (- e), q))"

text \<open>The integer nearest to a fraction, the even one of the two at a tie.\<close>

definition roundEven :: "fraction \<Rightarrow> int" where
  "roundEven = (\<lambda>(p, q).
     if 2 * (p mod q) < q then p div q
     else if q < 2 * (p mod q) then p div q + 1
     else if even (p div q) then p div q
     else p div q + 1)"

text \<open>The exponent \<open>b\<close> with \<open>2 ^ b \<le> p / q < 2 ^ (b + 1)\<close>, for a positive fraction.\<close>

definition binade :: "fraction \<Rightarrow> int" where
  "binade = (\<lambda>(p, q).
     if snd (scale (ilog2 p - ilog2 q) (p, q)) \<le> fst (scale (ilog2 p - ilog2 q) (p, q))
     then ilog2 p - ilog2 q
     else ilog2 p - ilog2 q - 1)"

text \<open>
  The binary64 value nearest to a fraction: the fraction is scaled into
  \<open>[2 ^ 52, 2 ^ 53)\<close> and rounded to an integer, ties to even.
\<close>

definition rd :: "fraction \<Rightarrow> float64" where
  "rd = (\<lambda>(p, q).
     if p \<le> 0 then (0, 0)
     else (roundEven (scale (binade (p, q) - 52) (p, q)), binade (p, q) - 52))"

text \<open>
  The conversion \<open>float64(n)\<close>, the quotient \<open>x / y\<close> and the product \<open>x * y\<close>: each
  is the exact result, rounded once.
\<close>

definition fromInt :: "int \<Rightarrow> float64" where
  "fromInt n = rd (n, 1)"

definition fdiv :: "float64 \<Rightarrow> float64 \<Rightarrow> float64" where
  "fdiv = (\<lambda>(m1, e1) (m2, e2). rd (scale (e2 - e1) (m1, m2)))"

definition fmul :: "float64 \<Rightarrow> float64 \<Rightarrow> float64" where
  "fmul = (\<lambda>(m1, e1) (m2, e2). rd (scale (- (e1 + e2)) (m1 * m2, 1)))"

text \<open>
  \<open>math.Round\<close> returns the nearest integer, rounding half away from zero, and makes no
  rounding error of its own; for a value that is not negative this is \<open>\<lfloor>x + 1/2\<rfloor>\<close>,
  computed on the integers. The result is given as an integer; \<open>math.Round\<close> returns it as
  a \<open>float64\<close>, which represents it exactly.
\<close>

definition goRound :: "float64 \<Rightarrow> int" where
  "goRound = (\<lambda>(m, e).
     if 0 \<le> e then m * 2 ^ nat e else (m + 2 ^ (nat (- e) - 1)) div 2 ^ nat (- e))"

text \<open>\<open>math.Round(float64(m)/float64(t)*100)\<close>, for the greatest score \<open>m\<close> and the total \<open>t\<close>.\<close>

definition hundredths :: "int \<Rightarrow> int \<Rightarrow> int" where
  "hundredths m t = goRound (fmul (fdiv (fromInt m) (fromInt t)) (fromInt 100))"

text \<open>The value of a \<open>confidence\<close> expression.\<close>

fun confValue :: "confidence \<Rightarrow> float64" where
  "confValue ConfZero = (0, 0)"
| "confValue (ConfRatio m t) = fdiv (fromInt (hundredths m t)) (fromInt 100)"

text \<open>The real number that a binary64 value, and a fraction, stands for.\<close>

definition val :: "float64 \<Rightarrow> real" where
  "val = (\<lambda>(m, e). of_int m * 2 powi e)"

definition ratio :: "fraction \<Rightarrow> real" where
  "ratio = (\<lambda>(p, q). of_int p / of_int q)"

text \<open>
  The specification's reading: the quotient \<open>m / t\<close> of the integers, rounded to 2
  decimals in exact arithmetic (half away from zero, as \<open>math.Round\<close> does), given by
  its number of hundredths \<open>\<lfloor>100 * m / t + 1/2\<rfloor>\<close>.
\<close>

definition exactHundredths :: "int \<Rightarrow> int \<Rightarrow> int" where
  "exactHundredths m t = (200 * m + t) div (2 * t)"

text \<open>Rounding a real number to the nearest integer, ties to even.\<close>

definition rne :: "real \<Rightarrow> int" where
  "rne y = (if y - of_int \<lfloor>y\<rfloor> < 1 / 2 then \<lfloor>y\<rfloor>
            else if 1 / 2 < y - of_int \<lfloor>y\<rfloor> then \<lfloor>y\<rfloor> + 1
            else if even \<lfloor>y\<rfloor> then \<lfloor>y\<rfloor> else \<lfloor>y\<rfloor> + 1)"

text \<open>
  Two fingerprints with the scores anthropic 23 and bedrock 17: the first carries the
  Anthropic tool id, message id, \<open>service_tier\<close>, \<open>inference_geo\<close>, cache object and
  rate-limit headers behind a Kiro model name and AWS headers, the second the Anthropic
  tool id and \<open>service_tier\<close> behind a Bedrock model name and AWS headers.
\<close>

definition fpMixA :: Fingerprint where
  "fpMixA = emptyFP\<lparr>ToolID := ''toolu_01'', ToolIDSource := ''anthropic'',
      MsgID := ''msg_01'', MsgIDSource := ''anthropic'',
      Model := ''kiro-claude'', ModelSource := ''kiro'',
      HasServiceTier := True, ServiceTier := ''standard'',
      HasInferenceGeo := True, InferenceGeo := ''us'',
      HasCacheCreation := True, HasAWSHeaders := True, HasAnthropicHdrs := True,
      ProbeType := ''tool''\<rparr>"

definition fpMixB :: Fingerprint where
  "fpMixB = emptyFP\<lparr>ToolID := ''toolu_02'', ToolIDSource := ''anthropic'',
      Model := ''anthropic.claude-3'', ModelSource := ''bedrock'',
      HasServiceTier := True, ServiceTier := ''standard'',
      HasAWSHeaders := True, ProbeType := ''tool''\<rparr>"

section \<open>Properties of the classifier\<close>

lemma clampScores_nonneg:
  "0 \<le> anthropic (clampScores s)" "0 \<le> bedrock (clampScores s)" "0 \<le> antigravity (clampScores s)"
  by (simp_all add: clampScores_def)

lemma analyze_scores_nonneg_aux:
  "0 \<le> anthropic (Scores (analyze fps model)) \<and>
   0 \<le> bedrock (Scores (analyze fps model)) \<and>
   0 \<le> antigravity (Scores (analyze fps model))"
  by (simp add: analyze_def Let_def zeroScores_def clampScores_nonneg split: prod.split)

text \<open>
  C9. For every list of fingerprints, every entry of the scores of the result of
  \<open>analyze\<close> is at least 0: the clamp comes after the three passes, and the result of a
  list without a valid fingerprint has the initial scores, all 0.
\<close>

theorem analyze_scores_nonneg:
  "0 \<le> anthropic (Scores (analyze fps model)) \<and>
   0 \<le> bedrock (Scores (analyze fps model)) \<and>
   0 \<le> antigravity (Scores (analyze fps model))"
  by (simp add: analyze_def Let_def zeroScores_def clampScores_nonneg split: prod.split)

subsection \<open>The verdict\<close>

lemma winnerOf_eq:
  "winnerOf s =
     (if bedrock s \<le> anthropic s \<and> antigravity s \<le> anthropic s then (''anthropic'', anthropic s)
      else if bedrock s \<le> anthropic s then (''antigravity'', antigravity s)
      else if antigravity s \<le> bedrock s then (''bedrock'', bedrock s)
      else (''antigravity'', antigravity s))"
  by (auto simp add: winnerOf_def winnerStep_def scoreOf_def)

lemma total_clamp_nonneg: "0 \<le> total_of (clampScores s)"
  using clampScores_nonneg [of s] by (simp add: total_of_def)

lemma fst_verdictPass:
  "fst (verdictPass s ev mf) =
     (if total_of s = 0 then (if 0 < length mf then ''suspicious'' else ''unknown'')
      else if fst (winnerOf s) = ''anthropic'' \<and> 2 \<le> length mf then ''suspicious''
      else fst (winnerOf s))"
  by (simp add: verdictPass_def Let_def)

lemma winner_not_suspicious: "fst (winnerOf s) \<noteq> ''suspicious''"
  by (simp add: winnerOf_eq)

lemma analyze_valid:
  "validFPs_of fps \<noteq> [] \<Longrightarrow>
   Scores (analyze fps model) = clampScores (fst (rawPasses (validFPs_of fps))) \<and>
   Verdict (analyze fps model) =
     fst (verdictPass (clampScores (fst (rawPasses (validFPs_of fps))))
            (fst (snd (rawPasses (validFPs_of fps)))) (missingFlags_of fps))"
  by (simp add: analyze_def Let_def missingFlags_of_def split: prod.split)

lemma analyze_invalid:
  "validFPs_of fps = [] \<Longrightarrow>
   Scores (analyze fps model) = zeroScores \<and> Verdict (analyze fps model) = ''unknown''"
  by (simp add: analyze_def)

lemma missingFlags_names:
  "set (missingFlags_of fps) \<subseteq> {''inference_geo'', ''cache_creation_obj'', ''thinking_signature''}"
  by (auto simp add: missingFlags_of_def rawPasses_def thirdPass_def missInferenceGeo_def
      missCacheObj_def missThinkingSig_def split: prod.splits if_splits)

text \<open>
  The confidence, as an expression: the constant 0.0 when the total is 0, and otherwise
  the rounding expression applied to the greatest score and the total.
\<close>

lemma conf_verdictPass:
  "fst (snd (verdictPass s ev mf)) =
     (if total_of s = 0 then ConfZero else ConfRatio (snd (winnerOf s)) (total_of s))"
  by (simp add: verdictPass_def Let_def)

lemma analyze_confidence:
  "Confidence (analyze fps model) =
     (if total_of (Scores (analyze fps model)) = 0 then ConfZero
      else ConfRatio (max (anthropic (Scores (analyze fps model)))
                        (max (bedrock (Scores (analyze fps model))) (antigravity (Scores (analyze fps model)))))
             (total_of (Scores (analyze fps model))))"
proof (cases "validFPs_of fps = []")
  case True
  then show ?thesis by (simp add: analyze_def zeroScores_def total_of_def)
next
  case False
  obtain s ev mf where r: "rawPasses (validFPs_of fps) = (s, ev, mf)"
    by (cases "rawPasses (validFPs_of fps)") auto
  have sc: "Scores (analyze fps model) = clampScores s"
    using False by (simp add: analyze_def Let_def r split: prod.split)
  have cf: "Confidence (analyze fps model) = fst (snd (verdictPass (clampScores s) ev mf))"
    using False by (simp add: analyze_def Let_def r split: prod.split)
  have "snd (winnerOf (clampScores s)) =
      max (anthropic (clampScores s)) (max (bedrock (clampScores s)) (antigravity (clampScores s)))"
    by (simp add: winnerOf_eq)
  then show ?thesis by (simp add: sc cf conf_verdictPass)
qed

text \<open>
  C2. For every list with at least one fingerprint without an error, the verdict of
  \<open>analyze\<close> is \<open>suspicious\<close> exactly when the total of the clamped scores is 0 and
  at least one missing flag was raised, or the total is positive, the winner of the
  verdict pass is \<open>anthropic\<close> and at least two missing flags were raised; the missing
  flags are among \<open>inference_geo\<close>, \<open>cache_creation_obj\<close> and \<open>thinking_signature\<close>.
\<close>

theorem analyze_suspicious_iff:
  assumes "validFPs_of fps \<noteq> []"
  shows "(Verdict (analyze fps model) = ''suspicious'' \<longleftrightarrow>
      (total_of (Scores (analyze fps model)) = 0 \<and> 1 \<le> length (missingFlags_of fps)) \<or>
      (0 < total_of (Scores (analyze fps model)) \<and>
       fst (winnerOf (Scores (analyze fps model))) = ''anthropic'' \<and>
       2 \<le> length (missingFlags_of fps))) \<and>
     set (missingFlags_of fps) \<subseteq> {''inference_geo'', ''cache_creation_obj'', ''thinking_signature''}"
proof -
  let ?s = "clampScores (fst (rawPasses (validFPs_of fps)))"
  have t: "0 \<le> total_of ?s" by (rule total_clamp_nonneg)
  have "Verdict (analyze fps model) = ''suspicious'' \<longleftrightarrow>
      (total_of (Scores (analyze fps model)) = 0 \<and> 1 \<le> length (missingFlags_of fps)) \<or>
      (0 < total_of (Scores (analyze fps model)) \<and>
       fst (winnerOf (Scores (analyze fps model))) = ''anthropic'' \<and>
       2 \<le> length (missingFlags_of fps))"
    using t winner_not_suspicious [of ?s] analyze_valid [OF assms, of model]
    by (auto simp add: fst_verdictPass Suc_le_eq)
  with missingFlags_names [of fps] show ?thesis by blast
qed

theorem analyze_suspicious_iff_witness:
  "validFPs_of [fpDisguised] \<noteq> [] \<and>
   Verdict (analyze [fpDisguised] ''m'') = ''suspicious'' \<and>
   total_of (Scores (analyze [fpDisguised] ''m'')) = 2 \<and>
   missingFlags_of [fpDisguised] = [''inference_geo'', ''cache_creation_obj'', ''thinking_signature''] \<and>
   validFPs_of [fpCancelled] \<noteq> [] \<and>
   Verdict (analyze [fpCancelled] ''m'') = ''suspicious'' \<and>
   total_of (Scores (analyze [fpCancelled] ''m'')) = 0 \<and>
   missingFlags_of [fpCancelled] = [''inference_geo'', ''cache_creation_obj'']"
proof -
  have v1: "validFPs_of [fpDisguised] \<noteq> []" by code_simp
  have t1: "total_of (Scores (analyze [fpDisguised] ''m'')) = 2" by code_simp
  have w1: "fst (winnerOf (Scores (analyze [fpDisguised] ''m''))) = ''anthropic''" by code_simp
  have m1: "missingFlags_of [fpDisguised] =
      [''inference_geo'', ''cache_creation_obj'', ''thinking_signature'']" by code_simp
  have s1: "Verdict (analyze [fpDisguised] ''m'') = ''suspicious''"
    using analyze_suspicious_iff [OF v1, of "''m''"] t1 w1 m1 by simp
  have v2: "validFPs_of [fpCancelled] \<noteq> []" by code_simp
  have t2: "total_of (Scores (analyze [fpCancelled] ''m'')) = 0" by code_simp
  have m2: "missingFlags_of [fpCancelled] = [''inference_geo'', ''cache_creation_obj'']"
    by code_simp
  have s2: "Verdict (analyze [fpCancelled] ''m'') = ''suspicious''"
    using analyze_suspicious_iff [OF v2, of "''m''"] t2 m2 by simp
  show ?thesis using v1 t1 m1 s1 v2 t2 m2 s2 by simp
qed

text \<open>
  C4. The verdict of \<open>analyze\<close>, from the scores of its result: when their total is not
  0, the winner is the first of \<open>anthropic\<close>, \<open>bedrock\<close>, \<open>antigravity\<close> whose score is
  the maximum of the three (\<open>anthropic\<close> is taken first and a later bucket replaces it
  only with a strictly greater score), and the verdict is the winner, unless the winner
  is \<open>anthropic\<close> with at least two missing flags. In particular, when
  \<open>bedrock = antigravity\<close> and both exceed \<open>anthropic\<close>, the verdict is \<open>bedrock\<close>. The
  winner loop returns that winner together with the maximum, for any scores.
\<close>

theorem verdict_tie_break:
  "(let s = Scores (analyze fps model);
        m = max (anthropic s) (max (bedrock s) (antigravity s));
        flags = length (missingFlags_of fps)
    in Verdict (analyze fps model) =
         (if total_of s = 0 then (if 0 < flags then ''suspicious'' else ''unknown'')
          else if anthropic s = m then (if 2 \<le> flags then ''suspicious'' else ''anthropic'')
          else if bedrock s = m then ''bedrock''
          else ''antigravity'')) \<and>
   (bedrock (Scores (analyze fps model)) = antigravity (Scores (analyze fps model)) \<and>
    anthropic (Scores (analyze fps model)) < bedrock (Scores (analyze fps model))
    \<longrightarrow> Verdict (analyze fps model) = ''bedrock'') \<and>
   snd (winnerOf s) = max (anthropic s) (max (bedrock s) (antigravity s)) \<and>
   fst (winnerOf s) =
     (if anthropic s = max (anthropic s) (max (bedrock s) (antigravity s)) then ''anthropic''
      else if bedrock s = max (anthropic s) (max (bedrock s) (antigravity s)) then ''bedrock''
      else ''antigravity'')"
proof -
  have a: "fst (winnerOf t) =
     (if anthropic t = max (anthropic t) (max (bedrock t) (antigravity t)) then ''anthropic''
      else if bedrock t = max (anthropic t) (max (bedrock t) (antigravity t)) then ''bedrock''
      else ''antigravity'')" for t
    by (auto simp add: winnerOf_eq max_def)
  have b: "snd (winnerOf s) = max (anthropic s) (max (bedrock s) (antigravity s))"
    by (simp add: winnerOf_eq)
  define r where "r = Scores (analyze fps model)"
  have g: "Verdict (analyze fps model) =
         (if total_of r = 0 then (if 0 < length (missingFlags_of fps) then ''suspicious'' else ''unknown'')
          else if anthropic r = max (anthropic r) (max (bedrock r) (antigravity r))
            then (if 2 \<le> length (missingFlags_of fps) then ''suspicious'' else ''anthropic'')
          else if bedrock r = max (anthropic r) (max (bedrock r) (antigravity r)) then ''bedrock''
          else ''antigravity'')"
  proof (cases "validFPs_of fps = []")
    case True
    have "rawPasses [] = (zeroScores, [], [])"
      by (simp add: rawPasses_def afterFirstPass_def firstPass_def firstPlatform_def
          secondPass_def transferTooluse_def noteKiroRewrite_def hasKiroModel_def thirdPass_def
          zeroScores_def)
    then have "missingFlags_of fps = []" by (simp add: missingFlags_of_def True)
    then show ?thesis
      using analyze_invalid [OF True, of model]
      by (simp add: r_def zeroScores_def total_of_def)
  next
    case False
    let ?s = "clampScores (fst (rawPasses (validFPs_of fps)))"
    have sc: "r = ?s"
      and vd: "Verdict (analyze fps model) =
        fst (verdictPass ?s (fst (snd (rawPasses (validFPs_of fps)))) (missingFlags_of fps))"
      using analyze_valid [OF False, of model] by (simp_all add: r_def)
    show ?thesis
      unfolding vd sc [symmetric] fst_verdictPass a [of r] by auto
  qed
  have c: "Verdict (analyze fps model) = ''bedrock''"
    if eq: "bedrock r = antigravity r" and lt: "anthropic r < bedrock r"
  proof -
    have "0 \<le> anthropic r"
      unfolding r_def using analyze_scores_nonneg_aux [of fps model] by simp
    then have "total_of r \<noteq> 0" using eq lt by (simp add: total_of_def)
    then show ?thesis using g eq lt by (simp add: max_def)
  qed
  from a [of s] b c g show ?thesis unfolding r_def Let_def by blast
qed

theorem verdict_tie_break_witness:
  "bedrock (Scores (analyze [fpTie] ''m'')) = 5 \<and>
   antigravity (Scores (analyze [fpTie] ''m'')) = 5 \<and>
   anthropic (Scores (analyze [fpTie] ''m'')) = 0 \<and>
   Verdict (analyze [fpTie] ''m'') = ''bedrock'' \<and>
   Scores (analyze [fpTieAB] ''m'') = \<lparr>anthropic = 5, bedrock = 5, antigravity = 0\<rparr> \<and>
   missingFlags_of [fpTieAB] = [] \<and>
   Verdict (analyze [fpTieAB] ''m'') = ''anthropic''"
proof -
  have b: "bedrock (Scores (analyze [fpTie] ''m'')) = 5" by code_simp
  have g: "antigravity (Scores (analyze [fpTie] ''m'')) = 5" by code_simp
  have a: "anthropic (Scores (analyze [fpTie] ''m'')) = 0" by code_simp
  have v: "Verdict (analyze [fpTie] ''m'') = ''bedrock''"
    using verdict_tie_break [of "[fpTie]" "''m''" zeroScores] a b g by simp
  have s: "Scores (analyze [fpTieAB] ''m'') = \<lparr>anthropic = 5, bedrock = 5, antigravity = 0\<rparr>"
    by code_simp
  have f: "missingFlags_of [fpTieAB] = []" by code_simp
  have w: "Verdict (analyze [fpTieAB] ''m'') = ''anthropic''"
    using verdict_tie_break [of "[fpTieAB]" "''m''" zeroScores] s f
    by (simp add: Let_def total_of_def)
  from a b g v s f w show ?thesis by simp
qed

subsection \<open>The points of the tool ids\<close>

lemma toolusePoints_fold:
  "fold (\<lambda>fp points. if ToolIDSource fp = ''bedrock'' then points + 5 else points) v n =
   n + 5 * int (length (filter (\<lambda>fp. ToolIDSource fp = ''bedrock'') v))"
  by (induction v arbitrary: n) simp_all

lemma toolusePoints_eq:
  "toolusePoints v = 5 * int (length (filter (\<lambda>fp. ToolIDSource fp = ''bedrock'') v))"
  by (simp add: toolusePoints_def toolusePoints_fold)

subsection \<open>The scores between the passes\<close>

text \<open>
  The third pass can leave a negative score, which the clamp removes; the first and the
  second pass cannot: each block of the first pass only adds, and the second pass takes
  from \<open>bedrock\<close> no more than the tool ids gave it.
\<close>

lemma rawPasses_negative: "anthropic (fst (rawPasses (validFPs_of [fpCancelled]))) = - 3"
  by code_simp

lemma grows_trans: "grows a b \<Longrightarrow> grows b c \<Longrightarrow> grows a c"
  by (auto simp add: grows_def)

lemma grows_steps:
  "grows a (scoreToolID tag fp a)" "grows a (scoreThinkingSig tag fp a)"
  "grows a (scoreMsgID tag fp a)" "grows a (scoreModel tag fp a)"
  "grows a (scoreServiceTier tag fp a)" "grows a (scoreInferenceGeo tag fp a)"
  "grows a (scoreCacheCreation tag fp a)" "grows a (scoreUsageStyle tag fp a)"
  "grows a (scoreAWSHeaders tag fp a)" "grows a (scoreAnthropicHdrs tag fp a)"
  by (cases a; simp add: grows_def scoreToolID_def scoreThinkingSig_def scoreMsgID_def
      scoreModel_def scoreServiceTier_def scoreInferenceGeo_def scoreCacheCreation_def
      scoreUsageStyle_def scoreAWSHeaders_def scoreAnthropicHdrs_def)+

lemma scoreToolID_bedrock:
  "bedrock (fst (scoreToolID tag fp a)) =
     bedrock (fst a) + (if ToolIDSource fp = ''bedrock'' then 5 else 0)"
  by (cases a) (simp add: scoreToolID_def)

lemmas grows_stepI = grows_steps [THEN [2] grows_trans]

lemma scoreFingerprint_grows:
  "grows a (scoreFingerprint i fp a) \<and>
   bedrock (fst a) + (if ToolIDSource fp = ''bedrock'' then 5 else 0)
     \<le> bedrock (fst (scoreFingerprint i fp a))"
proof -
  define tag where "tag = ''[R'' @ itoa (int i + 1) @ '']''"
  define a1 where "a1 = scoreToolID tag fp a"
  have "grows a1 a1" by (simp add: grows_def)
  then have r: "grows a1 (scoreFingerprint i fp a)"
    unfolding scoreFingerprint_def Let_def tag_def [symmetric] a1_def [symmetric]
    by (intro grows_stepI)
  have "grows a a1" unfolding a1_def by (rule grows_steps)
  with r have g: "grows a (scoreFingerprint i fp a)"
    using grows_trans by blast
  have "bedrock (fst a1) = bedrock (fst a) + (if ToolIDSource fp = ''bedrock'' then 5 else 0)"
    unfolding a1_def by (rule scoreToolID_bedrock)
  with r g show ?thesis by (simp add: grows_def)
qed

lemma firstPassFrom_grows:
  "grows a (firstPassFrom i v a) \<and>
   bedrock (fst a) + toolusePoints v \<le> bedrock (fst (firstPassFrom i v a))"
proof (induction v arbitrary: i a)
  case Nil
  then show ?case by (simp add: grows_def toolusePoints_def)
next
  case (Cons fp v)
  from Cons [of "scoreFingerprint i fp a" "Suc i"] scoreFingerprint_grows [of a i fp]
  show ?case
    by (auto simp add: grows_def toolusePoints_eq)
qed

lemma secondPass_nonneg:
  "0 \<le> anthropic (fst (secondPass v (firstPass v (zeroScores, ev)))) \<and>
   0 \<le> bedrock (fst (secondPass v (firstPass v (zeroScores, ev)))) \<and>
   0 \<le> antigravity (fst (secondPass v (firstPass v (zeroScores, ev))))"
proof -
  obtain s e where p: "firstPass v (zeroScores, ev) = (s, e)" by (cases "firstPass v (zeroScores, ev)")
  have "0 \<le> anthropic s \<and> 0 \<le> antigravity s \<and> toolusePoints v \<le> bedrock s"
    using firstPassFrom_grows [of "(zeroScores, ev)" 0 v] p
    by (simp add: firstPass_def grows_def zeroScores_def)
  moreover have "0 \<le> toolusePoints v" by (simp add: toolusePoints_eq)
  ultimately show ?thesis
    by (simp add: p secondPass_def transferTooluse_def noteKiroRewrite_def)
qed

subsection \<open>The second pass\<close>

text \<open>The second pass, from any scores and evidence.\<close>

lemma secondPass_eq:
  "secondPass validFPs (scores, evidence) =
     (if \<not> hasKiroModel validFPs \<and> 0 < bedrock scores \<and> 0 < antigravity scores \<and>
         4 \<le> antigravity scores
      then (scores\<lparr>antigravity := antigravity scores +
                       5 * int (length (filter (\<lambda>fp. ToolIDSource fp = ''bedrock'') validFPs)),
                    bedrock := bedrock scores -
                       5 * int (length (filter (\<lambda>fp. ToolIDSource fp = ''bedrock'') validFPs))\<rparr>,
            evidence @ [tag_fix @ txt_tooluse_points @
               itoa (5 * int (length (filter (\<lambda>fp. ToolIDSource fp = ''bedrock'') validFPs))) @
               txt_moved])
      else (scores,
            if hasKiroModel validFPs \<and> 0 < msgUUIDCount validFPs
            then evidence @ [tag_fix @ '' msg_<UUID> x'' @ itoa (msgUUIDCount validFPs) @ txt_kiro_rewrite]
            else evidence))"
  by (simp add: secondPass_def transferTooluse_def noteKiroRewrite_def toolusePoints_eq)

lemma thirdPass_skip:
  "antigravity s \<noteq> 0 \<Longrightarrow> thirdPass v (s, ev) = (s, ev, [])"
  by (simp add: thirdPass_def)

lemma clampScores_id:
  "0 \<le> anthropic s \<Longrightarrow> 0 \<le> bedrock s \<Longrightarrow> 0 \<le> antigravity s \<Longrightarrow> clampScores s = s"
  by (simp add: clampScores_def)

lemma afterFirstPass_bounds:
  "0 \<le> anthropic (fst (afterFirstPass v)) \<and> 0 \<le> antigravity (fst (afterFirstPass v)) \<and>
   toolusePoints v \<le> bedrock (fst (afterFirstPass v))"
  using firstPassFrom_grows
    [of "(zeroScores, if fst (firstPlatform v) \<noteq> [] then [txt_platform @ fst (firstPlatform v)] else [])" 0 v]
  by (simp add: afterFirstPass_def firstPass_def grows_def zeroScores_def)

lemma afterFirstPass_Nil: "fst (afterFirstPass []) = zeroScores"
  by (simp add: afterFirstPass_def firstPass_def)

text \<open>
  C5. During \<open>analyze\<close>, with the scores and the evidence that the first pass leaves for
  the valid fingerprints: when no valid fingerprint has the model source \<open>kiro\<close>, the
  scores of \<open>bedrock\<close> and \<open>antigravity\<close> are positive and \<open>antigravity\<close> is at least 4,
  the second pass moves 5 points for each valid fingerprint whose tool id source is
  \<open>bedrock\<close> from \<open>bedrock\<close> to \<open>antigravity\<close> and appends one line that starts with the
  tag \<open>[U+4FEE U+6B63]\<close>; the scores of the result are then the moved scores and its
  evidence ends with that line. In every other case the second pass leaves the scores
  unchanged, and the scores of the result are what the third pass and the clamp make of
  the scores of the first pass.
\<close>

theorem analyze_second_pass:
  "(let v = validFPs_of fps;
        s = fst (afterFirstPass v);
        ev = snd (afterFirstPass v);
        n = 5 * int (length (filter (\<lambda>fp. ToolIDSource fp = ''bedrock'') v));
        line = tag_fix @ txt_tooluse_points @ itoa n @ txt_moved
    in if \<not> hasKiroModel v \<and> 0 < bedrock s \<and> 0 < antigravity s \<and> 4 \<le> antigravity s then
         secondPass v (s, ev) =
           (s\<lparr>antigravity := antigravity s + n, bedrock := bedrock s - n\<rparr>, ev @ [line]) \<and>
         Scores (analyze fps model) = s\<lparr>antigravity := antigravity s + n, bedrock := bedrock s - n\<rparr> \<and>
         Evidence (analyze fps model) = ev @ [line]
       else
         fst (secondPass v (s, ev)) = s \<and>
         Scores (analyze fps model) = clampScores (fst (thirdPass v (s, ev)))) \<and>
   tag_fix = [CHR ''['', CHR 0xE4, CHR 0xBF, CHR 0xAE, CHR 0xE6, CHR 0xAD, CHR 0xA3, CHR '']'']"
proof -
  define v where "v = validFPs_of fps"
  define s where "s = fst (afterFirstPass v)"
  define ev where "ev = snd (afterFirstPass v)"
  define n where "n = 5 * int (length (filter (\<lambda>fp. ToolIDSource fp = ''bedrock'') v))"
  define line where "line = tag_fix @ txt_tooluse_points @ itoa n @ txt_moved"
  define c where "c \<longleftrightarrow> \<not> hasKiroModel v \<and> 0 < bedrock s \<and> 0 < antigravity s \<and> 4 \<le> antigravity s"
  have af: "afterFirstPass v = (s, ev)" by (simp add: s_def ev_def)
  have raw: "rawPasses v = thirdPass v (secondPass v (s, ev))"
    by (simp add: rawPasses_def af)
  have bounds: "0 \<le> anthropic s" "0 \<le> antigravity s" "n \<le> bedrock s" "0 \<le> n"
    using afterFirstPass_bounds [of v] by (simp_all add: s_def n_def toolusePoints_eq)
  have yes: "secondPass v (s, ev) =
           (s\<lparr>antigravity := antigravity s + n, bedrock := bedrock s - n\<rparr>, ev @ [line]) \<and>
         Scores (analyze fps model) = s\<lparr>antigravity := antigravity s + n, bedrock := bedrock s - n\<rparr> \<and>
         Evidence (analyze fps model) = ev @ [line]" if c
  proof -
    let ?t = "s\<lparr>antigravity := antigravity s + n, bedrock := bedrock s - n\<rparr>"
    have sp: "secondPass v (s, ev) = (?t, ev @ [line])"
      using that by (simp add: c_def secondPass_eq n_def line_def)
    have ne: "v \<noteq> []"
      using that afterFirstPass_Nil by (auto simp add: c_def s_def zeroScores_def)
    have pos: "antigravity ?t \<noteq> 0" using that bounds by (simp add: c_def)
    have r: "rawPasses v = (?t, ev @ [line], [])"
      by (simp only: raw sp thirdPass_skip [OF pos])
    have cl: "clampScores ?t = ?t"
      using bounds by (intro clampScores_id) simp_all
    have tot: "total_of ?t \<noteq> 0"
      using that bounds by (simp add: c_def total_of_def)
    have vp: "verdictPass ?t (ev @ [line]) [] =
        (fst (winnerOf ?t), ConfRatio (snd (winnerOf ?t)) (total_of ?t), ev @ [line])"
      using tot by (simp add: verdictPass_def)
    have "Scores (analyze fps model) = ?t \<and> Evidence (analyze fps model) = ev @ [line]"
      using ne by (simp add: analyze_def Let_def v_def [symmetric] r cl vp)
    with sp show ?thesis by simp
  qed
  have no: "fst (secondPass v (s, ev)) = s \<and>
         Scores (analyze fps model) = clampScores (fst (thirdPass v (s, ev)))" if "\<not> c"
  proof -
    have sp: "fst (secondPass v (s, ev)) = s"
      using that by (auto simp add: c_def secondPass_eq)
    then obtain e where sp2: "secondPass v (s, ev) = (s, e)"
      by (cases "secondPass v (s, ev)") auto
    have ind: "fst (thirdPass v (s, e)) = fst (thirdPass v (s, ev))"
      by (simp add: thirdPass_def missInferenceGeo_def missCacheObj_def missThinkingSig_def)
    have "Scores (analyze fps model) = clampScores (fst (rawPasses v))"
    proof (cases "v = []")
      case True
      have "rawPasses [] = (zeroScores, [], [])"
        by (simp add: rawPasses_def afterFirstPass_def firstPass_def firstPlatform_def
            secondPass_def transferTooluse_def noteKiroRewrite_def hasKiroModel_def thirdPass_def
            zeroScores_def)
      then show ?thesis
        using True analyze_invalid [of fps model]
        by (simp add: v_def zeroScores_def clampScores_def)
    next
      case False
      then show ?thesis using analyze_valid [of fps model] by (simp add: v_def)
    qed
    then show ?thesis using sp by (simp add: raw sp2 ind)
  qed
  have t: "tag_fix = [CHR ''['', CHR 0xE4, CHR 0xBF, CHR 0xAE, CHR 0xE6, CHR 0xAD, CHR 0xA3, CHR '']'']"
    by (simp add: tag_fix_def)
  show ?thesis
    unfolding Let_def v_def [symmetric] s_def [symmetric] ev_def [symmetric] n_def [symmetric]
      line_def [symmetric]
    using yes no t c_def by auto
qed

theorem analyze_second_pass_witness:
  "fst (afterFirstPass (validFPs_of [fpTooluse, fpTooluse, fpVrtx])) =
     \<lparr>anthropic = 0, bedrock = 10, antigravity = 6\<rparr> \<and>
   \<not> hasKiroModel (validFPs_of [fpTooluse, fpTooluse, fpVrtx]) \<and>
   Scores (analyze [fpTooluse, fpTooluse, fpVrtx] ''m'') =
     \<lparr>anthropic = 0, bedrock = 0, antigravity = 16\<rparr> \<and>
   last (Evidence (analyze [fpTooluse, fpTooluse, fpVrtx] ''m'')) =
     tag_fix @ txt_tooluse_points @ ''10'' @ txt_moved"
proof -
  let ?fps = "[fpTooluse, fpTooluse, fpVrtx]"
  have s: "fst (afterFirstPass (validFPs_of ?fps)) = \<lparr>anthropic = 0, bedrock = 10, antigravity = 6\<rparr>"
    by code_simp
  have k: "\<not> hasKiroModel (validFPs_of ?fps)" by code_simp
  have n: "5 * int (length (filter (\<lambda>fp. ToolIDSource fp = ''bedrock'') (validFPs_of ?fps))) = 10"
    by code_simp
  have i: "itoa 10 = ''10''" by code_simp
  have "Scores (analyze ?fps ''m'') = \<lparr>anthropic = 0, bedrock = 0, antigravity = 16\<rparr> \<and>
      Evidence (analyze ?fps ''m'') =
        snd (afterFirstPass (validFPs_of ?fps)) @ [tag_fix @ txt_tooluse_points @ ''10'' @ txt_moved]"
    using analyze_second_pass [of ?fps "''m''"] s k n i by (simp add: Let_def)
  with s k show ?thesis by simp
qed

section \<open>The confidence in binary64\<close>

subsection \<open>Rounding to the nearest binary64 value\<close>

lemma ilog2_bounds:
  "1 \<le> n \<Longrightarrow> 0 \<le> ilog2 n \<and> 2 ^ nat (ilog2 n) \<le> n \<and> n < 2 ^ nat (ilog2 n + 1)"
proof (induction n rule: ilog2.induct)
  case (1 n)
  show ?case
  proof (cases "n < 2")
    case True
    with 1(2) have "n = 1" by simp
    then show ?thesis by (simp add: ilog2.simps)
  next
    case False
    then have h: "1 \<le> n div 2" by simp
    from 1(1) [OF False h] have ih: "0 \<le> ilog2 (n div 2)"
      "2 ^ nat (ilog2 (n div 2)) \<le> n div 2" "n div 2 < 2 ^ nat (ilog2 (n div 2) + 1)"
      by simp_all
    have e: "ilog2 n = 1 + ilog2 (n div 2)" using False by (subst ilog2.simps) simp
    have n1: "nat (1 + ilog2 (n div 2)) = Suc (nat (ilog2 (n div 2)))" using ih(1) by simp
    have n2: "nat (1 + ilog2 (n div 2) + 1) = Suc (Suc (nat (ilog2 (n div 2))))" using ih(1) by simp
    have n3: "nat (ilog2 (n div 2) + 1) = Suc (nat (ilog2 (n div 2)))" using ih(1) by simp
    show ?thesis
      using ih unfolding e n1 n2 n3 by (simp; linarith)
  qed
qed

lemma roundEven_rne:
  assumes "0 < q"
  shows "roundEven (p, q) = rne (ratio (p, q))"
proof -
  have f: "\<lfloor>(of_int p :: real) / of_int q\<rfloor> = p div q" by (rule floor_divide_of_int_eq)
  have "(of_int p :: real) = of_int (p div q) * of_int q + of_int (p mod q)"
    by (metis div_mult_mod_eq of_int_add of_int_mult)
  then have d: "(of_int p :: real) / of_int q - of_int (p div q) = of_int (p mod q) / of_int q"
    using assms by (simp add: field_simps)
  have a: "(of_int p :: real) / of_int q - of_int (p div q) < 1 / 2 \<longleftrightarrow> 2 * (p mod q) < q"
  proof -
    have "of_int (p mod q) / (of_int q :: real) < 1 / 2 \<longleftrightarrow> 2 * (of_int (p mod q) :: real) < of_int q"
      using assms by (simp add: field_simps)
    also have "\<dots> \<longleftrightarrow> 2 * (p mod q) < q" by linarith
    finally show ?thesis by (simp add: d)
  qed
  have b: "1 / 2 < (of_int p :: real) / of_int q - of_int (p div q) \<longleftrightarrow> q < 2 * (p mod q)"
  proof -
    have "1 / 2 < of_int (p mod q) / (of_int q :: real) \<longleftrightarrow> of_int q < 2 * (of_int (p mod q) :: real)"
      using assms by (simp add: field_simps)
    also have "\<dots> \<longleftrightarrow> q < 2 * (p mod q)" by linarith
    finally show ?thesis by (simp add: d)
  qed
  show ?thesis
    unfolding roundEven_def rne_def ratio_def prod.case f a b by simp
qed

lemma rne_of_int [simp]: "rne (of_int k) = k"
  by (simp add: rne_def)

lemma rne_numeral [simp]: "rne (numeral k) = numeral k"
  using rne_of_int [of "numeral k"] by simp

lemma rne_between: "\<lfloor>y\<rfloor> \<le> rne y \<and> rne y \<le> \<lfloor>y\<rfloor> + 1"
  by (simp add: rne_def)

lemma rne_mono: "y \<le> z \<Longrightarrow> rne y \<le> rne z"
proof -
  assume yz: "y \<le> z"
  then have fl: "\<lfloor>y\<rfloor> \<le> \<lfloor>z\<rfloor>" by (rule floor_mono)
  show ?thesis
  proof (cases "\<lfloor>y\<rfloor> = \<lfloor>z\<rfloor>")
    case True
    then show ?thesis using yz unfolding rne_def by (auto simp add: True)
  next
    case False
    then have "\<lfloor>y\<rfloor> + 1 \<le> \<lfloor>z\<rfloor>" using fl by simp
    then show ?thesis using rne_between [of y] rne_between [of z] by linarith
  qed
qed

lemma rne_err: "\<bar>of_int (rne y) - y\<bar> \<le> 1 / 2"
  unfolding rne_def by (auto; linarith)


lemma ratio_scale: "q \<noteq> 0 \<Longrightarrow> ratio (scale e (p, q)) = ratio (p, q) / 2 powi e"
  by (cases "0 \<le> e") (simp_all add: scale_def ratio_def power_int_def field_simps)

lemma scale_pos: "0 < p \<Longrightarrow> 0 < fst (scale e (p, q))" "0 < q \<Longrightarrow> 0 < snd (scale e (p, q))"
  by (simp_all add: scale_def)

lemma p2_nat: "0 \<le> a \<Longrightarrow> (2::real) ^ nat a = 2 powi a"
  by (simp add: power_int_def)

lemma ilog2_real:
  assumes "1 \<le> n"
  shows "2 powi (ilog2 n) \<le> (of_int n :: real)" "(of_int n :: real) < 2 powi (ilog2 n + 1)"
proof -
  from ilog2_bounds [OF assms]
  have a: "0 \<le> ilog2 n" and b: "2 ^ nat (ilog2 n) \<le> n" and c: "n < 2 ^ nat (ilog2 n + 1)"
    by simp_all
  have "(of_int (2 ^ nat (ilog2 n)) :: real) \<le> of_int n" using b by (simp only: of_int_le_iff)
  then show "2 powi (ilog2 n) \<le> (of_int n :: real)" using a by (simp add: power_int_def)
  have "(of_int n :: real) < of_int (2 ^ nat (ilog2 n + 1))" using c by (simp only: of_int_less_iff)
  then show "(of_int n :: real) < 2 powi (ilog2 n + 1)" using a by (simp add: power_int_def)
qed

lemma binade_spec:
  assumes "1 \<le> p" "1 \<le> q"
  shows "2 powi (binade (p, q)) \<le> ratio (p, q) \<and> ratio (p, q) < 2 powi (binade (p, q) + 1)"
proof -
  define d where "d = ilog2 p - ilog2 q"
  define y where "y = ratio (p, q)"
  have qpos: "0 < (of_int q :: real)" using assms by simp
  have y: "y = of_int p / of_int q" by (simp add: y_def ratio_def)
  have up: "y < 2 powi (d + 1)"
  proof -
    have "(of_int p :: real) < 2 powi (ilog2 p + 1)" using ilog2_real [OF assms(1)] by simp
    moreover have "(2::real) powi (ilog2 p + 1) = 2 powi (d + 1) * 2 powi (ilog2 q)"
      by (simp add: d_def flip: power_int_add)
    moreover have "2 powi (d + 1) * 2 powi (ilog2 q) \<le> 2 powi (d + 1) * (of_int q :: real)"
      using ilog2_real(1) [OF assms(2)] by (intro mult_left_mono) simp_all
    ultimately have "of_int p < 2 powi (d + 1) * (of_int q :: real)" by linarith
    then show ?thesis using qpos by (simp add: y field_simps)
  qed
  have lo: "2 powi (d - 1) < y"
  proof -
    have "2 powi (ilog2 p) \<le> (of_int p :: real)" using ilog2_real [OF assms(1)] by simp
    moreover have "(2::real) powi (ilog2 p) = 2 powi (d - 1) * 2 powi (ilog2 q + 1)"
      by (simp add: d_def flip: power_int_add)
    moreover have "2 powi (d - 1) * (of_int q :: real) < 2 powi (d - 1) * 2 powi (ilog2 q + 1)"
      using ilog2_real(2) [OF assms(2)] by (intro mult_strict_left_mono) simp_all
    ultimately have "2 powi (d - 1) * (of_int q :: real) < of_int p" by linarith
    then show ?thesis using qpos by (simp add: y field_simps)
  qed
  have sp: "0 < snd (scale d (p, q))" using assms by (intro scale_pos) simp
  define A where "A = fst (scale d (p, q))"
  define B where "B = snd (scale d (p, q))"
  have Bpos: "0 < (of_int B :: real)" using sp by (simp add: B_def)
  have "ratio (scale d (p, q)) = y / 2 powi d"
    using assms by (simp add: ratio_scale y_def)
  moreover have "ratio (scale d (p, q)) = of_int A / of_int B"
    by (simp add: ratio_def A_def B_def split: prod.split)
  ultimately have eq: "(of_int A :: real) / of_int B = y / 2 powi d" by simp
  have "B \<le> A \<longleftrightarrow> (of_int B :: real) \<le> of_int A" by simp
  also have "\<dots> \<longleftrightarrow> 1 \<le> (of_int A :: real) / of_int B"
    using Bpos by (simp add: pos_le_divide_eq)
  also have "\<dots> \<longleftrightarrow> 1 \<le> y / 2 powi d" by (simp only: eq)
  also have "\<dots> \<longleftrightarrow> 2 powi d \<le> y" by (simp add: pos_le_divide_eq)
  finally have c: "snd (scale d (p, q)) \<le> fst (scale d (p, q)) \<longleftrightarrow> 2 powi d \<le> y"
    by (simp add: A_def B_def)
  show ?thesis
  proof (cases "2 powi d \<le> y")
    case True
    then have "binade (p, q) = d" using c by (simp add: binade_def d_def)
    then show ?thesis using True up by (simp add: y_def)
  next
    case False
    then have "binade (p, q) = d - 1" using c by (simp add: binade_def d_def)
    then show ?thesis using False lo by (simp add: y_def)
  qed
qed

lemma binade_mono:
  assumes "1 \<le> p" "1 \<le> q" "1 \<le> p'" "1 \<le> q'" "ratio (p, q) \<le> ratio (p', q')"
  shows "binade (p, q) \<le> binade (p', q')"
proof (rule ccontr)
  assume "\<not> binade (p, q) \<le> binade (p', q')"
  then have "binade (p', q') + 1 \<le> binade (p, q)" by simp
  then have "(2::real) powi (binade (p', q') + 1) \<le> 2 powi (binade (p, q))"
    by (intro power_int_increasing) simp_all
  with binade_spec [OF assms(1,2)] binade_spec [OF assms(3,4)] assms(5)
  show False by linarith
qed

lemma rd_spec:
  assumes "1 \<le> p" "1 \<le> q"
  shows "rd (p, q) = (rne (ratio (p, q) / 2 powi (binade (p, q) - 52)), binade (p, q) - 52)"
    and "2 ^ 52 \<le> ratio (p, q) / 2 powi (binade (p, q) - 52)"
    and "ratio (p, q) / 2 powi (binade (p, q) - 52) < 2 ^ 53"
    and "2 ^ 52 \<le> fst (rd (p, q))" and "fst (rd (p, q)) \<le> 2 ^ 53"
proof -
  define e where "e = binade (p, q) - 52"
  define s where "s = ratio (p, q) / 2 powi e"
  have sp: "0 < snd (scale e (p, q))" using assms by (intro scale_pos) simp
  have "roundEven (scale e (p, q)) = rne (ratio (scale e (p, q)))"
    using roundEven_rne [OF sp, of "fst (scale e (p, q))"] by simp
  also have "\<dots> = rne s" using assms by (simp add: ratio_scale s_def)
  finally have r: "rd (p, q) = (rne s, e)"
    using assms by (simp add: rd_def e_def)
  then show "rd (p, q) = (rne (ratio (p, q) / 2 powi (binade (p, q) - 52)), binade (p, q) - 52)"
    by (simp add: s_def e_def)
  have b1: "(2::real) powi (binade (p, q)) = 2 ^ 52 * 2 powi e"
    by (simp add: e_def power_int_diff)
  have b2: "(2::real) powi (binade (p, q) + 1) = 2 ^ 53 * 2 powi e"
    by (simp add: e_def power_int_diff power_int_add)
  have pos: "0 < (2::real) powi e" by simp
  have lo: "2 ^ 52 \<le> s"
    using binade_spec [OF assms] pos unfolding b1 s_def by (simp add: field_simps)
  have hi: "s < 2 ^ 53"
    using binade_spec [OF assms] pos unfolding b2 s_def by (simp add: field_simps)
  show "2 ^ 52 \<le> ratio (p, q) / 2 powi (binade (p, q) - 52)" using lo by (simp add: s_def e_def)
  show "ratio (p, q) / 2 powi (binade (p, q) - 52) < 2 ^ 53" using hi by (simp add: s_def e_def)
  have "rne (of_int (2 ^ 52)) \<le> rne s" using lo by (intro rne_mono) simp
  then show "2 ^ 52 \<le> fst (rd (p, q))" by (simp add: r)
  have "rne s \<le> rne (of_int (2 ^ 53))" using hi by (intro rne_mono) simp
  then show "fst (rd (p, q)) \<le> 2 ^ 53" by (simp add: r)
qed

lemma rd_mono:
  assumes "1 \<le> p" "1 \<le> q" "1 \<le> p'" "1 \<le> q'" "ratio (p, q) \<le> ratio (p', q')"
  shows "val (rd (p, q)) \<le> val (rd (p', q'))"
proof -
  define e where "e = binade (p, q) - 52"
  define e' where "e' = binade (p', q') - 52"
  have le: "e \<le> e'" using binade_mono [OF assms] by (simp add: e_def e'_def)
  have v: "val (rd (p, q)) = of_int (rne (ratio (p, q) / 2 powi e)) * 2 powi e"
    using rd_spec(1) [OF assms(1,2)] by (simp add: val_def e_def)
  have v': "val (rd (p', q')) = of_int (rne (ratio (p', q') / 2 powi e')) * 2 powi e'"
    using rd_spec(1) [OF assms(3,4)] by (simp add: val_def e'_def)
  show ?thesis
  proof (cases "e = e'")
    case True
    have "ratio (p, q) / 2 powi e \<le> ratio (p', q') / 2 powi e"
      using assms(5) by (simp add: divide_right_mono)
    then have "rne (ratio (p, q) / 2 powi e) \<le> rne (ratio (p', q') / 2 powi e)" by (rule rne_mono)
    then show ?thesis unfolding v v' True [symmetric]
      by (intro mult_right_mono) simp_all
  next
    case False
    then have lt: "e + 1 \<le> e'" using le by simp
    have "fst (rd (p, q)) \<le> 2 ^ 53" by (rule rd_spec(5) [OF assms(1,2)])
    then have "(of_int (fst (rd (p, q))) :: real) \<le> 2 ^ 53"
      by (metis of_int_le_iff of_int_numeral of_int_power)
    then have a: "val (rd (p, q)) \<le> 2 ^ 53 * 2 powi e"
      using rd_spec(1) [OF assms(1,2)] by (simp add: val_def e_def mult_right_mono)
    have "2 ^ 52 \<le> fst (rd (p', q'))" by (rule rd_spec(4) [OF assms(3,4)])
    then have "(2 ^ 52 :: real) \<le> of_int (fst (rd (p', q')))"
      by (metis of_int_le_iff of_int_numeral of_int_power)
    then have b: "2 ^ 52 * 2 powi e' \<le> val (rd (p', q'))"
      using rd_spec(1) [OF assms(3,4)] by (simp add: val_def e'_def mult_right_mono)
    have "(2::real) powi (e + 1) \<le> 2 powi e'" using lt by (intro power_int_increasing) simp_all
    then have "(2 ^ 53 :: real) * 2 powi e \<le> 2 ^ 52 * 2 powi e'"
      by (simp add: power_int_add)
    with a b show ?thesis by linarith
  qed
qed


lemma rd_one: "rd (1, 1) = (2 ^ 52, - 52)" by code_simp

lemma rd_hundred: "rd (100, 1) = (100 * 2 ^ 46, - 46)" by code_simp

lemma val_one: "val (rd (1, 1)) = 1"
  by (simp add: rd_one val_def power_int_def power_one_over)

lemma val_hundred: "val (rd (100, 1)) = 100"
  by (simp add: rd_hundred val_def power_int_def power_one_over)

lemma val_rd_pos: "1 \<le> p \<Longrightarrow> 1 \<le> q \<Longrightarrow> 0 < val (rd (p, q))"
proof -
  assume a: "1 \<le> p" "1 \<le> q"
  obtain m e where r: "rd (p, q) = (m, e)" by (cases "rd (p, q)")
  have "2 ^ 52 \<le> m" using rd_spec(4) [OF a] by (simp add: r)
  then have "0 < m" by (rule less_le_trans [rotated]) simp
  then show ?thesis by (simp add: r val_def)
qed

lemma val_rd_nonneg: "0 < q \<Longrightarrow> 0 \<le> val (rd (p, q))"
proof (cases "1 \<le> p")
  case True
  assume "0 < q"
  then show ?thesis using val_rd_pos [OF True, of q] by simp
next
  case False
  then show ?thesis by (simp add: rd_def val_def)
qed

lemma rd_le_one:
  "1 \<le> p \<Longrightarrow> 1 \<le> q \<Longrightarrow> ratio (p, q) \<le> 1 \<Longrightarrow> val (rd (p, q)) \<le> 1"
  using rd_mono [of p q 1 1] by (simp add: val_one ratio_def)

lemma rd_le_hundred:
  "1 \<le> p \<Longrightarrow> 1 \<le> q \<Longrightarrow> ratio (p, q) \<le> 100 \<Longrightarrow> val (rd (p, q)) \<le> 100"
  using rd_mono [of p q 100 1] by (simp add: val_hundred ratio_def)

lemma fromInt_pos: "1 \<le> n \<Longrightarrow> 1 \<le> fst (fromInt n) \<and> 0 < val (fromInt n)"
proof -
  assume a: "1 \<le> n"
  have "2 ^ 52 \<le> fst (rd (n, 1))" using rd_spec(4) [OF a, of 1] by simp
  then have "1 \<le> fst (rd (n, 1))" by (rule order_trans [rotated]) simp
  then show ?thesis using val_rd_pos [OF a, of 1] by (simp add: fromInt_def)
qed

lemma fromInt_mono: "1 \<le> m \<Longrightarrow> m \<le> t \<Longrightarrow> val (fromInt m) \<le> val (fromInt t)"
  unfolding fromInt_def by (rule rd_mono) (simp_all add: ratio_def)

text \<open>The quotient and the product round the exact quotient and product of the values.\<close>

lemma fdiv_ratio:
  assumes "1 \<le> m1" "1 \<le> m2"
  obtains p q where "fdiv (m1, e1) (m2, e2) = rd (p, q)" "1 \<le> p" "1 \<le> q"
    "ratio (p, q) = val (m1, e1) / val (m2, e2)"
proof -
  obtain p q where s: "scale (e2 - e1) (m1, m2) = (p, q)" by (cases "scale (e2 - e1) (m1, m2)")
  have p: "1 \<le> p" using scale_pos(1) [of m1 "e2 - e1" m2] assms by (simp add: s)
  have q: "1 \<le> q" using scale_pos(2) [of m2 "e2 - e1" m1] assms by (simp add: s)
  have "ratio (p, q) = ratio (m1, m2) / 2 powi (e2 - e1)"
    using ratio_scale [of m2 "e2 - e1" m1] assms by (simp add: s)
  also have "\<dots> = val (m1, e1) / val (m2, e2)"
    by (simp add: ratio_def val_def power_int_diff field_simps)
  finally have r: "ratio (p, q) = val (m1, e1) / val (m2, e2)" .
  have "fdiv (m1, e1) (m2, e2) = rd (p, q)" by (simp add: fdiv_def s)
  then show ?thesis using p q r that by blast
qed

lemma fmul_ratio:
  assumes "1 \<le> m1" "1 \<le> m2"
  obtains p q where "fmul (m1, e1) (m2, e2) = rd (p, q)" "1 \<le> p" "1 \<le> q"
    "ratio (p, q) = val (m1, e1) * val (m2, e2)"
proof -
  define d where "d = - (e1 + e2)"
  obtain p q where s: "scale d (m1 * m2, 1) = (p, q)"
    by (cases "scale d (m1 * m2, 1)")
  have m: "0 < m1 * m2" using assms by (simp add: zero_less_mult_iff)
  have "0 < fst (scale d (m1 * m2, 1))" using m by (rule scale_pos(1))
  then have p: "1 \<le> p" by (simp add: s)
  have "0 < snd (scale d (m1 * m2, 1))" by (rule scale_pos(2)) simp
  then have q: "1 \<le> q" by (simp add: s)
  have pw: "(2::real) powi d = inverse (2 powi (e1 + e2))"
    unfolding d_def by (rule power_int_minus)
  have "ratio (p, q) = ratio (m1 * m2, 1) / 2 powi d"
    using ratio_scale [of 1 d "m1 * m2"] by (simp add: s)
  also have "\<dots> = of_int (m1 * m2) * 2 powi (e1 + e2)"
    using pw by (simp add: ratio_def divide_inverse)
  also have "\<dots> = val (m1, e1) * val (m2, e2)"
    by (simp add: val_def power_int_add)
  finally have r: "ratio (p, q) = val (m1, e1) * val (m2, e2)" .
  have "fmul (m1, e1) (m2, e2) = rd (p, q)" using s by (simp add: fmul_def d_def)
  then show ?thesis using p q r that by blast
qed

lemma goRound_floor: "goRound (m, e) = \<lfloor>val (m, e) + 1 / 2\<rfloor>"
proof (cases "0 \<le> e")
  case True
  have "val (m, e) + 1 / 2 = of_int (m * 2 ^ nat e) + 1 / 2"
    using True by (simp add: val_def power_int_def)
  also have "\<lfloor>\<dots>\<rfloor> = m * 2 ^ nat e" by linarith
  finally show ?thesis using True by (simp add: goRound_def)
next
  case False
  define k where "k = nat (- e) - 1"
  have n: "nat (- e) = Suc k" using False by (simp add: k_def)
  have "val (m, e) + 1 / 2 = of_int m / 2 ^ Suc k + 1 / 2"
    using False by (simp add: val_def power_int_def n field_simps)
  also have "\<dots> = of_int (m + 2 ^ k) / of_int (2 ^ Suc k)"
    by (simp add: field_simps)
  also have "\<lfloor>\<dots>\<rfloor> = (m + 2 ^ k) div 2 ^ Suc k" by (rule floor_divide_of_int_eq)
  finally show ?thesis using False by (simp add: goRound_def n)
qed

lemma rd_rel:
  assumes "1 \<le> p" "1 \<le> q"
  shows "\<bar>val (rd (p, q)) - ratio (p, q)\<bar> \<le> ratio (p, q) / 2 ^ 53"
proof -
  define e where "e = binade (p, q) - 52"
  define y where "y = ratio (p, q)"
  define s where "s = y / 2 powi e"
  have pe: "(0::real) < 2 powi e" by simp
  have r: "rd (p, q) = (rne s, e)" using rd_spec(1) [OF assms] by (simp add: s_def y_def e_def)
  have lo: "2 ^ 52 \<le> s" using rd_spec(2) [OF assms] by (simp add: s_def y_def e_def)
  have y: "y = s * 2 powi e" by (simp add: s_def)
  have "val (rd (p, q)) - y = (of_int (rne s) - s) * 2 powi e"
    by (simp add: r val_def y algebra_simps)
  then have "\<bar>val (rd (p, q)) - y\<bar> = \<bar>of_int (rne s) - s\<bar> * 2 powi e"
    by (simp add: abs_mult)
  also have "\<dots> \<le> 1 / 2 * 2 powi e"
    using rne_err [of s] pe by (intro mult_right_mono) simp_all
  also have "\<dots> \<le> s * 2 powi e / 2 ^ 53"
  proof -
    have "2 ^ 52 * 2 powi e \<le> s * 2 powi e" using lo pe by (intro mult_right_mono) simp_all
    then show ?thesis by simp
  qed
  finally show ?thesis by (simp add: y_def [symmetric] y)
qed

lemma rd_rel_bounds:
  assumes "1 \<le> p" "1 \<le> q"
  shows "999 / 1000 * ratio (p, q) \<le> val (rd (p, q))"
    and "val (rd (p, q)) \<le> 1001 / 1000 * ratio (p, q)"
proof -
  have pos: "0 < ratio (p, q)" using assms by (simp add: ratio_def)
  have "ratio (p, q) / 2 ^ 53 \<le> ratio (p, q) / 1000"
    using pos by (intro divide_left_mono) simp_all
  then have b: "\<bar>val (rd (p, q)) - ratio (p, q)\<bar> \<le> ratio (p, q) / 1000"
    using rd_rel [OF assms] by linarith
  show "999 / 1000 * ratio (p, q) \<le> val (rd (p, q))" using b by linarith
  show "val (rd (p, q)) \<le> 1001 / 1000 * ratio (p, q)" using b by linarith
qed

lemma chain_err:
  fixes M T FM FT Q P :: real
  assumes "0 < M" "M \<le> T"
    and "999 / 1000 * M \<le> FM" "FM \<le> 1001 / 1000 * M"
    and "999 / 1000 * T \<le> FT" "FT \<le> 1001 / 1000 * T"
    and "999 / 1000 * (FM / FT) \<le> Q" "Q \<le> 1001 / 1000 * (FM / FT)"
    and "999 / 1000 * (Q * 100) \<le> P" "P \<le> 1001 / 1000 * (Q * 100)"
  shows "\<bar>P - 100 * (M / T)\<bar> \<le> 1"
proof -
  define X where "X = M / T"
  define R where "R = FM / FT"
  have T: "0 < T" using assms by linarith
  have X: "0 < X" "X \<le> 1" using assms(1,2) T by (simp_all add: X_def)
  have FM: "0 \<le> FM" using assms(1,3) by linarith
  have FT: "0 < FT" using T assms(5) by linarith
  have "FM / FT \<le> (1001 / 1000 * M) / (999 / 1000 * T)"
    by (rule frac_le [OF _ assms(4) _ assms(5)]) (use T assms(1) in simp_all)
  then have r1: "R \<le> 1001 / 999 * X" by (simp add: R_def X_def)
  have "(999 / 1000 * M) / (1001 / 1000 * T) \<le> FM / FT"
    by (rule frac_le [OF FM assms(3) FT assms(6)])
  then have r2: "999 / 1001 * X \<le> R" by (simp add: R_def X_def)
  have q: "999 / 1000 * R \<le> Q" "Q \<le> 1001 / 1000 * R" using assms(7,8) by (simp_all add: R_def)
  have "\<bar>P - 100 * X\<bar> \<le> 1" using r1 r2 q assms(9,10) X by linarith
  then show ?thesis by (simp add: X_def)
qed

lemma exactHundredths_floor:
  "0 < t \<Longrightarrow> exactHundredths m t = \<lfloor>100 * (of_int m / of_int t :: real) + 1 / 2\<rfloor>"
proof -
  assume t: "0 < t"
  have "100 * (of_int m / of_int t :: real) + 1 / 2 = of_int (200 * m + t) / of_int (2 * t)"
    using t by (simp add: field_simps)
  also have "\<lfloor>\<dots>\<rfloor> = (200 * m + t) div (2 * t)" by (rule floor_divide_of_int_eq)
  finally show ?thesis by (simp add: exactHundredths_def)
qed

lemma fromInt_rel:
  assumes "1 \<le> n"
  shows "999 / 1000 * of_int n \<le> val (fromInt n)" "val (fromInt n) \<le> 1001 / 1000 * of_int n"
  using rd_rel_bounds [OF assms, of 1] by (simp_all add: fromInt_def ratio_def)

lemma hundredths_val:
  assumes "1 \<le> m" "m \<le> t"
  obtains P :: real where "hundredths m t = \<lfloor>P + 1 / 2\<rfloor>" "0 \<le> P" "P \<le> 100"
    "\<bar>P - 100 * (of_int m / of_int t)\<bar> \<le> 1"
proof -
  have t: "1 \<le> t" using assms by simp
  obtain m1 e1 where fm: "fromInt m = (m1, e1)" by (cases "fromInt m")
  obtain m2 e2 where ft: "fromInt t = (m2, e2)" by (cases "fromInt t")
  have m1: "1 \<le> m1" "0 < val (m1, e1)" using fromInt_pos [OF assms(1)] by (simp_all add: fm)
  have m2: "1 \<le> m2" "0 < val (m2, e2)" using fromInt_pos [OF t] by (simp_all add: ft)
  have le: "val (m1, e1) \<le> val (m2, e2)" using fromInt_mono [OF assms] by (simp add: fm ft)
  obtain p q where d: "fdiv (m1, e1) (m2, e2) = rd (p, q)" "1 \<le> p" "1 \<le> q"
    "ratio (p, q) = val (m1, e1) / val (m2, e2)"
    using fdiv_ratio [OF m1(1) m2(1)] by blast
  have "ratio (p, q) \<le> 1" using le m2(2) by (simp add: d(4))
  then have q1: "val (rd (p, q)) \<le> 1" by (rule rd_le_one [OF d(2,3)])
  obtain m3 e3 where fq: "rd (p, q) = (m3, e3)" by (cases "rd (p, q)")
  have "2 ^ 52 \<le> m3" using rd_spec(4) [OF d(2,3)] by (simp add: fq)
  then have m3: "1 \<le> m3" by (rule order_trans [rotated]) simp
  obtain m5 e5 where h: "fromInt 100 = (m5, e5)" by (cases "fromInt 100")
  have vh: "val (m5, e5) = 100" using val_hundred by (simp add: fromInt_def flip: h)
  have m5: "1 \<le> m5" using fromInt_pos [of 100] by (simp add: h)
  obtain p' q' where u: "fmul (m3, e3) (m5, e5) = rd (p', q')" "1 \<le> p'" "1 \<le> q'"
    "ratio (p', q') = val (m3, e3) * val (m5, e5)"
    using fmul_ratio [OF m3 m5] by blast
  have "ratio (p', q') \<le> 100" using q1 by (simp add: u(4) vh fq)
  then have p100: "val (rd (p', q')) \<le> 100" by (rule rd_le_hundred [OF u(2,3)])
  have p0: "0 \<le> val (rd (p', q'))" using val_rd_pos [OF u(2,3)] by simp
  obtain m4 e4 where fp: "rd (p', q') = (m4, e4)" by (cases "rd (p', q')")
  have "hundredths m t = goRound (m4, e4)"
    by (simp add: hundredths_def fm ft d(1) fq h u(1) fp)
  also have "\<dots> = \<lfloor>val (m4, e4) + 1 / 2\<rfloor>" by (rule goRound_floor)
  finally have 1: "hundredths m t = \<lfloor>val (rd (p', q')) + 1 / 2\<rfloor>" by (simp add: fp)
  have "0 < (of_int m :: real)" "(of_int m :: real) \<le> of_int t" using assms by simp_all
  moreover have "999 / 1000 * of_int m \<le> val (m1, e1)" "val (m1, e1) \<le> 1001 / 1000 * of_int m"
    using fromInt_rel [OF assms(1)] by (simp_all add: fm)
  moreover have "999 / 1000 * of_int t \<le> val (m2, e2)" "val (m2, e2) \<le> 1001 / 1000 * of_int t"
    using fromInt_rel [OF t] by (simp_all add: ft)
  moreover have "999 / 1000 * (val (m1, e1) / val (m2, e2)) \<le> val (rd (p, q))"
    "val (rd (p, q)) \<le> 1001 / 1000 * (val (m1, e1) / val (m2, e2))"
    using rd_rel_bounds [OF d(2,3)] by (simp_all add: d(4))
  moreover have "999 / 1000 * (val (rd (p, q)) * 100) \<le> val (rd (p', q'))"
    "val (rd (p', q')) \<le> 1001 / 1000 * (val (rd (p, q)) * 100)"
    using rd_rel_bounds [OF u(2,3)] by (simp_all add: u(4) vh fq)
  ultimately have "\<bar>val (rd (p', q')) - 100 * (of_int m / of_int t)\<bar> \<le> 1"
    by (rule chain_err)
  then show ?thesis using 1 p0 p100 that by blast
qed

lemma hundredths_bounds:
  assumes "1 \<le> m" "m \<le> t"
  shows "0 \<le> hundredths m t" and "hundredths m t \<le> 100"
    and "\<bar>hundredths m t - exactHundredths m t\<bar> \<le> 1"
proof -
  obtain P :: real where P: "hundredths m t = \<lfloor>P + 1 / 2\<rfloor>" "0 \<le> P" "P \<le> 100"
    "\<bar>P - 100 * (of_int m / of_int t)\<bar> \<le> 1"
    using hundredths_val [OF assms] by blast
  have t: "0 < t" using assms by simp
  show "0 \<le> hundredths m t" using P(2) unfolding P(1) by linarith
  show "hundredths m t \<le> 100" using P(3) unfolding P(1) by linarith
  show "\<bar>hundredths m t - exactHundredths m t\<bar> \<le> 1"
    using P(4) unfolding P(1) exactHundredths_floor [OF t, of m] by linarith
qed

lemma final_bounds:
  assumes "0 \<le> k" "k \<le> 100"
  shows "0 \<le> val (fdiv (fromInt k) (fromInt 100)) \<and> val (fdiv (fromInt k) (fromInt 100)) \<le> 1"
proof (cases "k = 0")
  case True
  have "fromInt 0 = (0, 0)" by (simp add: fromInt_def rd_def)
  then have "fdiv (fromInt k) (fromInt 100) = (0, 0)"
    by (simp add: True fdiv_def scale_def rd_def split: prod.split)
  then show ?thesis by (simp add: val_def)
next
  case False
  then have k: "1 \<le> k" using assms by simp
  obtain m1 e1 where fk: "fromInt k = (m1, e1)" by (cases "fromInt k")
  obtain m2 e2 where fh: "fromInt 100 = (m2, e2)" by (cases "fromInt 100")
  have m1: "1 \<le> m1" "0 < val (m1, e1)" using fromInt_pos [OF k] by (simp_all add: fk)
  have m2: "1 \<le> m2" "0 < val (m2, e2)" using fromInt_pos [of 100] by (simp_all add: fh)
  have le: "val (m1, e1) \<le> val (m2, e2)" using fromInt_mono [OF k assms(2)] by (simp add: fk fh)
  obtain p q where d: "fdiv (m1, e1) (m2, e2) = rd (p, q)" "1 \<le> p" "1 \<le> q"
    "ratio (p, q) = val (m1, e1) / val (m2, e2)"
    using fdiv_ratio [OF m1(1) m2(1)] by blast
  have "ratio (p, q) \<le> 1" using le m2(2) by (simp add: d(4))
  then have "val (rd (p, q)) \<le> 1" by (rule rd_le_one [OF d(2,3)])
  moreover have "0 \<le> val (rd (p, q))" using val_rd_pos [OF d(2,3)] by simp
  ultimately show ?thesis by (simp add: fk fh d(1))
qed

subsection \<open>The confidence of \<open>analyze\<close>\<close>

lemma analyze_max_total:
  "total_of (Scores (analyze fps model)) \<noteq> 0 \<Longrightarrow>
   1 \<le> max (anthropic (Scores (analyze fps model)))
          (max (bedrock (Scores (analyze fps model))) (antigravity (Scores (analyze fps model)))) \<and>
   max (anthropic (Scores (analyze fps model)))
     (max (bedrock (Scores (analyze fps model))) (antigravity (Scores (analyze fps model))))
     \<le> total_of (Scores (analyze fps model))"
  using analyze_scores_nonneg_aux [of fps model] by (auto simp add: total_of_def)

text \<open>
  C3, amended. For every list of fingerprints, the confidence of the result of
  \<open>analyze\<close> is a binary64 value between 0 and 1. It is 0 when the total of the
  clamped scores is 0. When the total is positive it is \<open>h / 100\<close> in binary64, where
  \<open>h = math.Round(float64(max)/float64(total)*100)\<close> is computed in binary64 from the
  greatest score and the total; \<open>h\<close> is an integer between 0 and 100 and differs by at
  most 1 from the number of hundredths of the exact quotient rounded to 2 decimals. (It
  is not always equal to it: see the counterexample.)
\<close>

theorem analyze_confidence_value:
  "(let s = Scores (analyze fps model);
        mx = max (anthropic s) (max (bedrock s) (antigravity s));
        c = confValue (Confidence (analyze fps model))
    in 0 \<le> val c \<and> val c \<le> 1 \<and>
       (if total_of s = 0 then c = (0, 0)
        else c = fdiv (fromInt (hundredths mx (total_of s))) (fromInt 100) \<and>
             0 \<le> hundredths mx (total_of s) \<and> hundredths mx (total_of s) \<le> 100 \<and>
             \<bar>hundredths mx (total_of s) - exactHundredths mx (total_of s)\<bar> \<le> 1))"
proof (cases "total_of (Scores (analyze fps model)) = 0")
  case True
  then have "confValue (Confidence (analyze fps model)) = (0, 0)"
    by (simp add: analyze_confidence)
  then show ?thesis using True by (simp add: Let_def val_def)
next
  case False
  define mx where "mx = max (anthropic (Scores (analyze fps model)))
    (max (bedrock (Scores (analyze fps model))) (antigravity (Scores (analyze fps model))))"
  define t where "t = total_of (Scores (analyze fps model))"
  have mt: "1 \<le> mx" "mx \<le> t" using analyze_max_total [OF False] by (simp_all add: mx_def t_def)
  have c: "confValue (Confidence (analyze fps model)) = fdiv (fromInt (hundredths mx t)) (fromInt 100)"
    using False by (simp add: analyze_confidence mx_def t_def)
  note h = hundredths_bounds [OF mt]
  note v = final_bounds [OF h(1,2)]
  show ?thesis
    using False c h v unfolding Let_def mx_def [symmetric] t_def [symmetric] by simp
qed

text \<open>
  The claim as it was made, refuted: the two fingerprints \<open>fpMixA\<close> and \<open>fpMixB\<close> give
  the scores 23, 17 and 0, so the quotient is \<open>23 / 40 = 0.575\<close>, which rounds to \<open>0.58\<close>
  at 2 decimals. In binary64 the quotient is just below \<open>0.575\<close>, its product with 100
  is \<open>57.49999999999999\<close>, and the confidence is \<open>0.57\<close> (the binary64 value
  \<open>5134103575202365 * 2 ^ - 53\<close>), not \<open>0.58\<close> (\<open>5224175567749775 * 2 ^ - 53\<close>).
\<close>

theorem analyze_confidence_value_counterexample:
  "Scores (analyze [fpMixA, fpMixB] ''m'') = \<lparr>anthropic = 23, bedrock = 17, antigravity = 0\<rparr> \<and>
   Confidence (analyze [fpMixA, fpMixB] ''m'') = ConfRatio 23 40 \<and>
   hundredths 23 40 = 57 \<and>
   exactHundredths 23 40 = 58 \<and>
   confValue (Confidence (analyze [fpMixA, fpMixB] ''m'')) = (5134103575202365, - 53) \<and>
   fdiv (fromInt (exactHundredths 23 40)) (fromInt 100) = (5224175567749775, - 53) \<and>
   confValue (Confidence (analyze [fpMixA, fpMixB] ''m''))
     \<noteq> fdiv (fromInt (exactHundredths 23 40)) (fromInt 100)"
  by code_simp

section \<open>Properties of the safe dialer\<close>

lemma Equal_metadata_linklocal: "Equal ip metadataIP \<Longrightarrow> IsLinkLocalUnicast ip"
  by (auto simp add: Equal_def metadataIP_def IPv4_def v4InV6Prefix_def IsLinkLocalUnicast_def
      To4_def split: if_splits)

lemma checkIPs_hit:
  "a \<in> set ips \<Longrightarrow>
   IsLoopback (IP a) \<or> IsPrivate (IP a) \<or> IsLinkLocalUnicast (IP a) \<or>
   IsLinkLocalMulticast (IP a) \<or> IsUnspecified (IP a) \<or> Equal (IP a) metadataIP \<Longrightarrow>
   checkIPs ips = Some ''connection to private IP blocked'' \<or>
   checkIPs ips = Some ''connection to metadata endpoint blocked''"
  by (induction ips) auto

lemma checkIPs_Some: "checkIPs ips = Some msg \<Longrightarrow> msg = ''connection to private IP blocked''"
  using Equal_metadata_linklocal
  by (induction ips) (auto split: if_splits)

lemma checkIPs_None:
  "checkIPs ips = None \<Longrightarrow> a \<in> set ips \<Longrightarrow>
   \<not> (IsLoopback (IP a) \<or> IsPrivate (IP a) \<or> IsLinkLocalUnicast (IP a) \<or>
      IsLinkLocalMulticast (IP a) \<or> IsUnspecified (IP a) \<or> Equal (IP a) metadataIP)"
  by (induction ips) (auto split: if_splits)

text \<open>
  C1. A dial through the client of a caller without \<open>skipSSRFCheck\<close>: when the address
  splits into host and port and the resolver returns, for the host, a list with an
  address that is loopback, private, link-local unicast or multicast, unspecified, or
  equal to 169.254.169.254, the dial returns an error whose message contains
  \<open>private IP\<close> or \<open>metadata\<close>, and \<open>dialer.DialContext\<close> is not called.
\<close>

theorem safe_dial_blocks:
  assumes "SplitHostPort env addr = Inr (host, port)"
    and "LookupIPAddr env host = Inr ips"
    and "a \<in> set ips"
    and "IsLoopback (IP a) \<or> IsPrivate (IP a) \<or> IsLinkLocalUnicast (IP a) \<or>
         IsLinkLocalMulticast (IP a) \<or> IsUnspecified (IP a) \<or> Equal (IP a) metadataIP"
  shows "\<exists>msg. clientDial False env network addr = (Inl msg, []) \<and>
           (Contains msg ''private IP'' \<or> Contains msg ''metadata'')"
proof -
  have c1: "Contains ''connection to private IP blocked'' ''private IP''"
    by (simp add: HasPrefix_def)
  have c2: "Contains ''connection to metadata endpoint blocked'' ''metadata''"
    by (simp add: HasPrefix_def)
  from checkIPs_hit [OF assms(3) assms(4)]
  show ?thesis
  proof
    assume "checkIPs ips = Some ''connection to private IP blocked''"
    then have "clientDial False env network addr = (Inl ''connection to private IP blocked'', [])"
      using assms(1,2) by (simp add: clientDial_def safeDialer_def)
    with c1 show ?thesis by blast
  next
    assume "checkIPs ips = Some ''connection to metadata endpoint blocked''"
    then have "clientDial False env network addr = (Inl ''connection to metadata endpoint blocked'', [])"
      using assms(1,2) by (simp add: clientDial_def safeDialer_def)
    with c2 show ?thesis by blast
  qed
qed

theorem safe_dial_blocks_witness:
  "SplitHostPort envRebind ''rebind.example:443'' = Inr (''rebind.example'', ''443'') \<and>
   LookupIPAddr envRebind ''rebind.example'' =
     Inr [\<lparr>IP = [93, 184, 216, 34], Zone = []\<rparr>, \<lparr>IP = IPv4 127 0 0 1, Zone = []\<rparr>] \<and>
   IsLoopback (IPv4 127 0 0 1) \<and>
   (\<exists>msg. clientDial False envRebind ''tcp'' ''rebind.example:443'' = (Inl msg, []) \<and>
      (Contains msg ''private IP'' \<or> Contains msg ''metadata''))"
proof -
  have s: "SplitHostPort envRebind ''rebind.example:443'' = Inr (''rebind.example'', ''443'')"
    by (simp add: envRebind_def)
  have l: "LookupIPAddr envRebind ''rebind.example'' =
     Inr [\<lparr>IP = [93, 184, 216, 34], Zone = []\<rparr>, \<lparr>IP = IPv4 127 0 0 1, Zone = []\<rparr>]"
    by (simp add: envRebind_def)
  have b: "IsLoopback (IPv4 127 0 0 1)"
    by (simp add: IsLoopback_def To4_def IPv4_def v4InV6Prefix_def)
  have "\<exists>msg. clientDial False envRebind ''tcp'' ''rebind.example:443'' = (Inl msg, []) \<and>
      (Contains msg ''private IP'' \<or> Contains msg ''metadata'')"
    by (rule safe_dial_blocks [OF s l, of "\<lparr>IP = IPv4 127 0 0 1, Zone = []\<rparr>"]) (simp_all add: b)
  with s l b show ?thesis by blast
qed

text \<open>
  C10. An address equal to 169.254.169.254, in the 4-byte or in the 16-byte form, is
  link-local unicast, so the first test of the loop rejects it: the loop never returns
  the metadata message, and a dial whose resolved addresses include a rejected one
  returns exactly \<open>connection to private IP blocked\<close>.
\<close>

theorem metadata_branch_unreachable:
  "(Equal ip metadataIP \<longrightarrow> IsLinkLocalUnicast ip) \<and>
   checkIPs ips \<noteq> Some ''connection to metadata endpoint blocked'' \<and>
   (SplitHostPort env addr = Inr (host, port) \<and> LookupIPAddr env host = Inr ips \<and>
    a \<in> set ips \<and>
    (IsLoopback (IP a) \<or> IsPrivate (IP a) \<or> IsLinkLocalUnicast (IP a) \<or>
     IsLinkLocalMulticast (IP a) \<or> IsUnspecified (IP a) \<or> Equal (IP a) metadataIP)
    \<longrightarrow> safeDialer env network addr = (Inl ''connection to private IP blocked'', []))"
proof -
  have n: "checkIPs ips \<noteq> Some ''connection to metadata endpoint blocked''"
    using checkIPs_Some [of ips "''connection to metadata endpoint blocked''"] by auto
  have "safeDialer env network addr = (Inl ''connection to private IP blocked'', [])"
    if "SplitHostPort env addr = Inr (host, port)" "LookupIPAddr env host = Inr ips"
      "a \<in> set ips"
      "IsLoopback (IP a) \<or> IsPrivate (IP a) \<or> IsLinkLocalUnicast (IP a) \<or>
       IsLinkLocalMulticast (IP a) \<or> IsUnspecified (IP a) \<or> Equal (IP a) metadataIP"
    using checkIPs_hit [OF that(3) that(4)] n that(1,2) by (auto simp add: safeDialer_def)
  with n Equal_metadata_linklocal show ?thesis by blast
qed

theorem metadata_branch_unreachable_witness:
  "Equal [169, 254, 169, 254] metadataIP \<and> IsLinkLocalUnicast [169, 254, 169, 254] \<and>
   Equal (IPv4 169 254 169 254) metadataIP \<and> IsLinkLocalUnicast (IPv4 169 254 169 254) \<and>
   SplitHostPort envMetadata ''meta.example:80'' = Inr (''meta.example'', ''80'') \<and>
   LookupIPAddr envMetadata ''meta.example'' = Inr [\<lparr>IP = [169, 254, 169, 254], Zone = []\<rparr>] \<and>
   safeDialer envMetadata ''tcp'' ''meta.example:80'' = (Inl ''connection to private IP blocked'', [])"
proof -
  have e4: "Equal [169, 254, 169, 254] metadataIP"
    by (simp add: Equal_def metadataIP_def IPv4_def v4InV6Prefix_def)
  have e6: "Equal (IPv4 169 254 169 254) metadataIP"
    by (simp add: Equal_def metadataIP_def)
  have s: "SplitHostPort envMetadata ''meta.example:80'' = Inr (''meta.example'', ''80'')"
    by (simp add: envMetadata_def)
  have l: "LookupIPAddr envMetadata ''meta.example'' = Inr [\<lparr>IP = [169, 254, 169, 254], Zone = []\<rparr>]"
    by (simp add: envMetadata_def)
  note t = metadata_branch_unreachable [of _ "[\<lparr>IP = [169, 254, 169, 254], Zone = []\<rparr>]"
      envMetadata "''meta.example:80''" "''meta.example''" "''80''"
      "\<lparr>IP = [169, 254, 169, 254], Zone = []\<rparr>" "''tcp''"]
  have l4: "IsLinkLocalUnicast [169, 254, 169, 254]"
    using t [of "[169, 254, 169, 254]"] e4 by blast
  have l6: "IsLinkLocalUnicast (IPv4 169 254 169 254)"
    using t [of "IPv4 169 254 169 254"] e6 by blast
  have d: "safeDialer envMetadata ''tcp'' ''meta.example:80'' =
      (Inl ''connection to private IP blocked'', [])"
    using t [of "[169, 254, 169, 254]"] e4 s l by simp
  from e4 e6 l4 l6 s l d show ?thesis by simp
qed

section \<open>Properties of the probes\<close>

lemma scanHeaderKeys_sig [simp]:
  "ThinkingSigClass (scanHeaderKeys h fp) = ThinkingSigClass fp"
  unfolding scanHeaderKeys_def
  by (induction h arbitrary: fp) (simp_all add: Let_def split: prod.split)

lemma ratelimitHeader_sig [simp]:
  "ThinkingSigClass (ratelimitHeader kv fp) = ThinkingSigClass fp"
  by (cases kv) (simp add: ratelimitHeader_def split: option.split)

lemma scanRatelimitHeaders_sig [simp]:
  "ThinkingSigClass (scanRatelimitHeaders h fp) = ThinkingSigClass fp"
  unfolding scanRatelimitHeaders_def
  by (induction h arbitrary: fp) simp_all

lemma scanToolUse_sig [simp]: "ThinkingSigClass (scanToolUse bm fp) = ThinkingSigClass fp"
  by (simp add: scanToolUse_def Let_def)

lemma scanBlock_sig:
  "ThinkingSigClass (scanBlock b fp) =
     (if thinkingSigs [b] = [] then ThinkingSigClass fp
      else classifyThinkingSig (last (thinkingSigs [b])))"
  by (cases b) (simp_all add: scanBlock_def scanThinking_def)

lemma thinkingSigs_Cons: "thinkingSigs (b # content) = thinkingSigs [b] @ thinkingSigs content"
  by (cases b) simp_all

lemma scanBlocks_sig:
  "ThinkingSigClass (fold scanBlock content fp) =
     (if thinkingSigs content = [] then ThinkingSigClass fp
      else classifyThinkingSig (last (thinkingSigs content)))"
proof (induction content arbitrary: fp)
  case Nil
  then show ?case by simp
next
  case (Cons b content)
  have "ThinkingSigClass (fold scanBlock (b # content) fp) =
      (if thinkingSigs content = [] then ThinkingSigClass (scanBlock b fp)
       else classifyThinkingSig (last (thinkingSigs content)))"
    by (simp add: Cons)
  then show ?case
    by (simp add: scanBlock_sig thinkingSigs_Cons [of b content])
qed

lemma scanContent_sig:
  "ThinkingSigClass (scanContent body fp) =
     (case map_of body ''content'' of
        Some (JArr content) \<Rightarrow>
          (if thinkingSigs content = [] then ThinkingSigClass fp
           else classifyThinkingSig (last (thinkingSigs content)))
      | _ \<Rightarrow> ThinkingSigClass fp)"
  by (simp add: scanContent_def scanBlocks_sig split: option.split json.split)

lemma scanUsage_sig [simp]: "ThinkingSigClass (scanUsage lib body fp) = ThinkingSigClass fp"
  by (simp add: scanUsage_def Let_def split: option.split json.split)

lemma parseBody_sig:
  "ThinkingSigClass (parseBody lib body fp) = ThinkingSigClass (scanContent body fp)"
  by (simp add: parseBody_def scanModel_def scanMsgID_def Let_def)

text \<open>
  C8, as the code has it. The class of a fingerprint is the empty string when the probe
  failed or its response has no thinking block; otherwise, with the signature of the
  last thinking block: \<open>none\<close> when it is empty, \<open>short\<close> when it has fewer than 100
  bytes (whatever its prefix), \<open>vertex\<close> when it has at least 100 bytes and starts with
  \<open>claude#\<close>, and \<open>normal\<close> otherwise.
\<close>

theorem probe_thinking_sig_class:
  "ThinkingSigClass (probeOnce lib model probeType ex) =
     (case lastThinkingSig lib ex of
        None \<Rightarrow> []
      | Some sig \<Rightarrow>
          if sig = [] then ''none''
          else if length sig < 100 then ''short''
          else if HasPrefix sig ''claude#'' then ''vertex''
          else ''normal'')"
  by (simp add: probeOnce_def lastThinkingSig_def Let_def parseBody_sig scanContent_sig
      classifyThinkingSig_def thinkingSigShortThreshold_def emptyFP_def
      split: exchange.split option.split json.split)

text \<open>
  C8 as stated fails twice: a response without a thinking block leaves the class
  empty, not \<open>none\<close>, and a signature of 10 bytes that starts with \<open>claude#\<close> is
  \<open>short\<close>, not \<open>vertex\<close>.
\<close>

theorem probe_thinking_sig_class_counterexample:
  "lastThinkingSig libSample (Responded (respWith [] ''text-only'')) = None \<and>
   ThinkingSigClass (probeOnce libSample ''m'' ''thinking'' (Responded (respWith [] ''text-only''))) = [] \<and>
   lastThinkingSig libSample (Responded (respWith [] ''short-vertex'')) = Some ''claude#abc'' \<and>
   HasPrefix ''claude#abc'' ''claude#'' \<and>
   ThinkingSigClass (probeOnce libSample ''m'' ''thinking'' (Responded (respWith [] ''short-vertex'')))
     = ''short''"
  by (simp add: probeOnce_def lastThinkingSig_def libSample_def respWith_def emptyFP_def
      scanHeaderKeys_def scanRatelimitHeaders_def parseBody_def scanContent_def scanBlock_def
      scanThinking_def scanToolUse_def scanMsgID_def scanModel_def scanUsage_def asString_def
      classifyThinkingSig_def classifyMsgID_def thinkingSigShortThreshold_def HasPrefix_def
      kiroModelPrefix_def bedrockModelPrefix_def)

section \<open>Properties of the rate-limit verification\<close>

lemma shotLoop_samples:
  "shotLoop lib env model i n samples =
     samples @
     map (\<lambda>fp. \<lparr>Remaining = RatelimitInputRemaining fp, Reset = RatelimitInputReset fp\<rparr>)
       (filter (\<lambda>fp. Error fp = [] \<and> 0 < RatelimitInputRemaining fp)
          (shotFingerprints lib env model i n))"
  by (induction n arbitrary: i samples) (simp_all add: Let_def)

lemma allSame_card:
  assumes "samples \<noteq> []"
  shows "allSame samples \<longleftrightarrow> card (set (map Remaining samples)) = 1"
proof -
  obtain x xs where s: "samples = x # xs" using assms by (cases samples) auto
  show ?thesis
  proof
    assume "allSame samples"
    then have "set (map Remaining samples) = {Remaining x}"
      by (auto simp add: s allSame_def list_all_iff)
    then show "card (set (map Remaining samples)) = 1" by simp
  next
    assume "card (set (map Remaining samples)) = 1"
    then obtain a where a: "set (map Remaining samples) = {a}"
      by (auto simp add: card_1_singleton_iff)
    then have "Remaining x = a" by (auto simp add: s)
    moreover have "Remaining y = a" if "y \<in> set xs" for y
      using a that by (auto simp add: s)
    ultimately show "allSame samples"
      by (simp add: s allSame_def list_all_iff)
  qed
qed

lemma monotoneDec_sorted:
  "monotoneDec samples \<longleftrightarrow> sorted_wrt (\<lambda>a b. b \<le> a) (map Remaining samples)"
proof (induction samples rule: monotoneDec.induct)
  case 1
  then show ?case by simp
next
  case (2 s)
  then show ?case by simp
next
  case (3 s t rest)
  have "Remaining x \<le> Remaining s"
    if "Remaining t \<le> Remaining s" "\<forall>y\<in>set rest. Remaining y \<le> Remaining t" "x \<in> set rest"
    for x
    using that by (meson order_trans)
  with 3 show ?case by (auto simp add: not_less)
qed

text \<open>
  C7, as the code has it. \<open>verifyRatelimitDynamic\<close> issues its shots (4 when the number
  given is not positive) until the context has ended, and records one sample for each
  issued probe whose fingerprint has no error and a positive
  \<open>RatelimitInputRemaining\<close>. With fewer than 2 samples the verdict is \<open>unavailable\<close>;
  with at least 2 it is \<open>static\<close> exactly when all the remaining values are equal;
  otherwise it is \<open>dynamic\<close>, with the detail of a monotone decrease when the values
  never increase and the first exceeds the last, and with the detail of a change that
  is not monotone in every other case.
\<close>

theorem ratelimit_verdict:
  "(let r = verifyRatelimitDynamic lib env model shots;
        vals = map Remaining (rl_samples r)
    in rl_samples r =
         map (\<lambda>fp. \<lparr>Remaining = RatelimitInputRemaining fp, Reset = RatelimitInputReset fp\<rparr>)
           (filter (\<lambda>fp. Error fp = [] \<and> 0 < RatelimitInputRemaining fp)
              (shotFingerprints lib env model 0 (nat (if shots \<le> 0 then 4 else shots)))) \<and>
       rl_verdict r =
         (if length vals < 2 then ''unavailable''
          else if card (set vals) = 1 then ''static''
          else ''dynamic'') \<and>
       rl_detail r =
         (if length vals < 2 then txt_rl_unavailable
          else if card (set vals) = 1 then txt_rl_fixed @ itoa (hd vals) @ txt_rl_forged
          else if sorted_wrt (\<lambda>a b. b \<le> a) vals \<and> 0 < hd vals - last vals then
            txt_rl_monotone @ itoa (hd vals) @ txt_rl_arrow @ itoa (last vals) @
            '' (drop='' @ itoa (hd vals - last vals) @ txt_rl_real
          else txt_rl_varies @ itoa (hd vals) @ txt_rl_arrow @ itoa (last vals) @ txt_rl_maybe))"
proof -
  define ss where "ss = shotLoop lib env model 0 (nat (if shots \<le> 0 then 4 else shots)) []"
  have r: "verifyRatelimitDynamic lib env model shots = decideRatelimit ss"
    by (simp add: verifyRatelimitDynamic_def ss_def)
  have keep: "rl_samples (decideRatelimit ss) = ss"
    by (simp add: decideRatelimit_def Let_def)
  have samples: "ss =
      map (\<lambda>fp. \<lparr>Remaining = RatelimitInputRemaining fp, Reset = RatelimitInputReset fp\<rparr>)
        (filter (\<lambda>fp. Error fp = [] \<and> 0 < RatelimitInputRemaining fp)
           (shotFingerprints lib env model 0 (nat (if shots \<le> 0 then 4 else shots))))"
    unfolding ss_def by (simp add: shotLoop_samples)
  have rest: "rl_verdict (decideRatelimit ss) =
         (if length (map Remaining ss) < 2 then ''unavailable''
          else if card (set (map Remaining ss)) = 1 then ''static''
          else ''dynamic'') \<and>
       rl_detail (decideRatelimit ss) =
         (if length (map Remaining ss) < 2 then txt_rl_unavailable
          else if card (set (map Remaining ss)) = 1 then
            txt_rl_fixed @ itoa (hd (map Remaining ss)) @ txt_rl_forged
          else if sorted_wrt (\<lambda>a b. b \<le> a) (map Remaining ss) \<and>
                  0 < hd (map Remaining ss) - last (map Remaining ss) then
            txt_rl_monotone @ itoa (hd (map Remaining ss)) @ txt_rl_arrow @
            itoa (last (map Remaining ss)) @
            '' (drop='' @ itoa (hd (map Remaining ss) - last (map Remaining ss)) @ txt_rl_real
          else txt_rl_varies @ itoa (hd (map Remaining ss)) @ txt_rl_arrow @
               itoa (last (map Remaining ss)) @ txt_rl_maybe)"
  proof (cases "length ss < 2")
    case True
    then show ?thesis by (simp add: decideRatelimit_def)
  next
    case False
    then have ne: "ss \<noteq> []" by auto
    have h: "hd (map Remaining ss) = Remaining (hd ss)" using ne by (simp add: hd_map)
    have l: "last (map Remaining ss) = Remaining (last ss)" using ne by (simp add: last_map)
    show ?thesis
      using False
      by (simp add: decideRatelimit_def Let_def allSame_card [OF ne] monotoneDec_sorted h l)
  qed
  show ?thesis
    unfolding Let_def r keep using samples rest by blast
qed

text \<open>
  C7 as stated fails. Each of the four responses of the first run carries the
  header, with the value 0, and its probe has no error; each of the four responses of
  the second run carries it with the value 50000, and its probe ends with the error of
  a body that is not JSON. No sample is recorded in either run and the verdict is
  \<open>unavailable\<close>, where four equal samples would give \<open>static\<close>.
\<close>

theorem ratelimit_verdict_counterexample:
  "map_of (Header (respRemaining ''0'')) ''Anthropic-Ratelimit-Input-Tokens-Remaining'' = Some [''0''] \<and>
   shotFingerprints libSample envExhausted ''m'' 0 4 =
     [probeOnce libSample ''m'' ''simple'' (Responded (respRemaining ''0'')),
      probeOnce libSample ''m'' ''simple'' (Responded (respRemaining ''0'')),
      probeOnce libSample ''m'' ''simple'' (Responded (respRemaining ''0'')),
      probeOnce libSample ''m'' ''simple'' (Responded (respRemaining ''0''))] \<and>
   Error (probeOnce libSample ''m'' ''simple'' (Responded (respRemaining ''0''))) = [] \<and>
   rl_samples (verifyRatelimitDynamic libSample envExhausted ''m'' 4) = [] \<and>
   rl_verdict (verifyRatelimitDynamic libSample envExhausted ''m'' 4) = ''unavailable'' \<and>
   map_of (Header respBroken) ''Anthropic-Ratelimit-Input-Tokens-Remaining'' = Some [''50000''] \<and>
   shotFingerprints libSample envBroken ''m'' 0 4 =
     [probeOnce libSample ''m'' ''simple'' (Responded respBroken),
      probeOnce libSample ''m'' ''simple'' (Responded respBroken),
      probeOnce libSample ''m'' ''simple'' (Responded respBroken),
      probeOnce libSample ''m'' ''simple'' (Responded respBroken)] \<and>
   RatelimitInputRemaining (probeOnce libSample ''m'' ''simple'' (Responded respBroken)) = 50000 \<and>
   Error (probeOnce libSample ''m'' ''simple'' (Responded respBroken)) = ''response body not JSON'' \<and>
   rl_samples (verifyRatelimitDynamic libSample envBroken ''m'' 4) = [] \<and>
   rl_verdict (verifyRatelimitDynamic libSample envBroken ''m'' 4) = ''unavailable''"
proof -
  have a: "map_of (Header (respRemaining ''0'')) ''Anthropic-Ratelimit-Input-Tokens-Remaining''
      = Some [''0'']"
    by (simp add: respRemaining_def respWith_def)
  have b: "shotFingerprints libSample envExhausted ''m'' 0 4 =
     [probeOnce libSample ''m'' ''simple'' (Responded (respRemaining ''0'')),
      probeOnce libSample ''m'' ''simple'' (Responded (respRemaining ''0'')),
      probeOnce libSample ''m'' ''simple'' (Responded (respRemaining ''0'')),
      probeOnce libSample ''m'' ''simple'' (Responded (respRemaining ''0''))]"
    by (simp add: envExhausted_def numeral_eq_Suc)
  have c: "Error (probeOnce libSample ''m'' ''simple'' (Responded (respRemaining ''0''))) = []"
    by code_simp
  have d: "RatelimitInputRemaining (probeOnce libSample ''m'' ''simple'' (Responded (respRemaining ''0''))) = 0"
    by code_simp
  have e: "shotLoop libSample envExhausted ''m'' 0 4 [] = []"
    by (simp add: shotLoop_samples b d)
  have f: "rl_samples (verifyRatelimitDynamic libSample envExhausted ''m'' 4) = []"
    by (simp add: verifyRatelimitDynamic_def e decideRatelimit_def)
  have g: "rl_verdict (verifyRatelimitDynamic libSample envExhausted ''m'' 4) = ''unavailable''"
    by (simp add: verifyRatelimitDynamic_def e decideRatelimit_def)
  have a': "map_of (Header respBroken) ''Anthropic-Ratelimit-Input-Tokens-Remaining'' = Some [''50000'']"
    by (simp add: respBroken_def respWith_def)
  have b': "shotFingerprints libSample envBroken ''m'' 0 4 =
     [probeOnce libSample ''m'' ''simple'' (Responded respBroken),
      probeOnce libSample ''m'' ''simple'' (Responded respBroken),
      probeOnce libSample ''m'' ''simple'' (Responded respBroken),
      probeOnce libSample ''m'' ''simple'' (Responded respBroken)]"
    by (simp add: envBroken_def numeral_eq_Suc)
  have c': "Error (probeOnce libSample ''m'' ''simple'' (Responded respBroken)) = ''response body not JSON''"
    by code_simp
  have d': "RatelimitInputRemaining (probeOnce libSample ''m'' ''simple'' (Responded respBroken)) = 50000"
    by code_simp
  have e': "shotLoop libSample envBroken ''m'' 0 4 [] = []"
    by (simp add: shotLoop_samples b' c')
  have f': "rl_samples (verifyRatelimitDynamic libSample envBroken ''m'' 4) = []"
    by (simp add: verifyRatelimitDynamic_def e' decideRatelimit_def)
  have g': "rl_verdict (verifyRatelimitDynamic libSample envBroken ''m'' 4) = ''unavailable''"
    by (simp add: verifyRatelimitDynamic_def e' decideRatelimit_def)
  from a b c f g a' b' c' d' f' g' show ?thesis by simp
qed

text \<open>Three runs: a fixed value, a decrease with a repeated value, and a rise in between.\<close>

lemma ratelimit_examples:
  "rl_verdict (verifyRatelimitDynamic libSample (envOf [''50000'', ''50000'', ''50000'', ''50000'']) ''m'' 4)
     = ''static''"
  "rl_detail (verifyRatelimitDynamic libSample (envOf [''500'', ''400'', ''400'', ''300'']) ''m'' 4)
     = txt_rl_monotone @ ''500'' @ txt_rl_arrow @ ''300'' @ '' (drop=200'' @ txt_rl_real"
  "rl_detail (verifyRatelimitDynamic libSample (envOf [''500'', ''300'', ''400'', ''200'']) ''m'' 4)
     = txt_rl_varies @ ''500'' @ txt_rl_arrow @ ''200'' @ txt_rl_maybe"
  by code_simp+

section \<open>Properties of the scan\<close>

lemma update_fresh: "k \<notin> fst ` set al \<Longrightarrow> AList.update k v al = al @ [(k, v)]"
  by (induction al) auto

lemma scanLoop_summary:
  "distinct (map fst (Summary scan) @ models) \<Longrightarrow>
   map snd (Summary scan) = map Verdict (ModelResults scan) \<Longrightarrow>
   map snd (Summary (scanLoop lib env rounds skip j models scan)) =
   map Verdict (ModelResults (scanLoop lib env rounds skip j models scan))"
proof (induction models arbitrary: j scan)
  case Nil
  then show ?case by simp
next
  case (Cons model models)
  have fresh: "model \<notin> fst ` set (Summary scan)" using Cons.prems(1) by auto
  have d: "distinct (map fst (Summary scan @ [(model, v)]) @ models)" for v
    using Cons.prems(1) by auto
  show ?case
    using Cons.prems(2) d
    by (simp add: update_fresh [OF fresh] Let_def Cons.IH unavailableResult_def)
qed

lemma verdictSet_length:
  "length (verdictSet summary) = card (snd ` set summary - {''unavailable''})"
proof -
  have "set (filter (\<lambda>v. v \<noteq> ''unavailable'') (map snd summary)) =
      snd ` set summary - {''unavailable''}"
    by auto
  then show ?thesis
    by (simp add: verdictSet_def length_remdups_card_conv)
qed

lemma ScanMultipleModels_mixed:
  "IsMixed (ScanMultipleModels lib env baseURL models rounds skip) \<longleftrightarrow>
   2 \<le> card (snd ` set (Summary (ScanMultipleModels lib env baseURL models rounds skip)) -
               {''unavailable''})"
  by (auto simp add: ScanMultipleModels_def Let_def verdictSet_length)

lemma card_single_diff: "\<not> 2 \<le> card ({x} - {u})"
  by (cases "x = u") auto

lemma ScanMultipleModels_summary:
  assumes "models \<noteq> []" "distinct models"
  shows "map snd (Summary (ScanMultipleModels lib env baseURL models rounds skip)) =
         map Verdict (ModelResults (ScanMultipleModels lib env baseURL models rounds skip))"
  using assms scanLoop_summary [of "\<lparr>BaseURL = baseURL, ScanProxyPlatform = [], ModelResults = [],
      Summary = [], IsMixed = False\<rparr>" models lib env rounds skip 0]
  by (simp add: ScanMultipleModels_def Let_def)

text \<open>
  C6, as the code has it. For every \<open>ScanResult\<close> the detect operation returns,
  \<open>is_mixed\<close> holds exactly when the summary map (model to the verdict of its last
  result) has at least 2 distinct values other than \<open>unavailable\<close>; when the models of
  the request (its first 6) are pairwise distinct, these are the verdicts of
  \<open>model_results\<close>; a detection of a single model has \<open>is_mixed\<close> false.
\<close>

theorem detect_is_mixed:
  assumes "ProxyDetect lib env req = Success scan"
  shows "(IsMixed scan \<longleftrightarrow> 2 \<le> card (snd ` set (Summary scan) - {''unavailable''})) \<and>
         (distinct (take 6 (Models req)) \<longrightarrow>
            (IsMixed scan \<longleftrightarrow>
             2 \<le> card (Verdict ` set (ModelResults scan) - {''unavailable''}))) \<and>
         (length (Models req) = 1 \<longrightarrow> \<not> IsMixed scan)"
proof -
  define models where "models = (if 6 < length (Models req) then take 6 (Models req) else Models req)"
  have m6: "models = take 6 (Models req)" by (simp add: models_def)
  have ne: "models \<noteq> []" using assms
    by (auto simp add: m6 ProxyDetect_def split: if_splits)
  show ?thesis
  proof (cases "length models = 1")
    case True
    then obtain r where "scan = \<lparr>BaseURL = fst (resolveProxyDetectBaseURL env (ReqBaseURL req)),
        ScanProxyPlatform = ResultProxyPlatform r, ModelResults = [r],
        Summary = [(ResultModel r, Verdict r)], IsMixed = False\<rparr>"
      using assms
      by (auto simp add: ProxyDetect_def Let_def models_def split: if_splits prod.splits)
    then show ?thesis by (simp add: card_single_diff)
  next
    case False
    then obtain baseURL rounds skip
      where s: "scan = ScanMultipleModels lib (multi env) baseURL models rounds skip"
      using assms
      by (auto simp add: ProxyDetect_def Let_def models_def split: if_splits prod.splits)
    have a: "IsMixed scan \<longleftrightarrow> 2 \<le> card (snd ` set (Summary scan) - {''unavailable''})"
      unfolding s by (rule ScanMultipleModels_mixed)
    have b: "IsMixed scan \<longleftrightarrow> 2 \<le> card (Verdict ` set (ModelResults scan) - {''unavailable''})"
      if "distinct (take 6 (Models req))"
    proof -
      have "map snd (Summary scan) = map Verdict (ModelResults scan)"
        unfolding s using ne that by (intro ScanMultipleModels_summary) (simp_all add: m6)
      then have "snd ` set (Summary scan) = Verdict ` set (ModelResults scan)"
        by (metis set_map)
      with a show ?thesis by simp
    qed
    have c: "length (Models req) \<noteq> 1" using False by (auto simp add: m6)
    from a b c show ?thesis by blast
  qed
qed

theorem detect_is_mixed_witness:
  "ProxyDetect libSample ctlEnv reqTwo = Success scanTwo \<and>
   distinct (take 6 (Models reqTwo)) \<and>
   map Verdict (ModelResults scanTwo) = [''anthropic'', ''bedrock''] \<and>
   IsMixed scanTwo \<and>
   2 \<le> card (Verdict ` set (ModelResults scanTwo) - {''unavailable''})"
proof -
  have p: "ProxyDetect libSample ctlEnv reqTwo = Success scanTwo" by code_simp
  have d: "distinct (take 6 (Models reqTwo))" by code_simp
  have v: "map Verdict (ModelResults scanTwo) = [''anthropic'', ''bedrock'']" by code_simp
  have m: "IsMixed scanTwo" by code_simp
  have "2 \<le> card (Verdict ` set (ModelResults scanTwo) - {''unavailable''})"
    using detect_is_mixed [OF p] d m by blast
  with p d v m show ?thesis by simp
qed

text \<open>
  C6 as stated fails for a request that names a model twice: the two results
  have the verdicts \<open>anthropic\<close> and \<open>bedrock\<close>, two distinct verdicts, and the summary
  keeps the last one only, so \<open>is_mixed\<close> is false.
\<close>

theorem detect_is_mixed_counterexample:
  "ProxyDetect libSample ctlEnv reqTwice = Success scanTwice \<and>
   map Verdict (ModelResults scanTwice) = [''anthropic'', ''bedrock''] \<and>
   card (set [''anthropic'', ''bedrock''] - {''unavailable''}) = 2 \<and>
   Summary scanTwice = [(''claude-a'', ''bedrock'')] \<and>
   \<not> IsMixed scanTwice"
proof -
  have p: "ProxyDetect libSample ctlEnv reqTwice = Success scanTwice" by code_simp
  have v: "map Verdict (ModelResults scanTwice) = [''anthropic'', ''bedrock'']" by code_simp
  have s: "Summary scanTwice = [(''claude-a'', ''bedrock'')]" by code_simp
  have m: "\<not> IsMixed scanTwice" by code_simp
  have c: "card (set [''anthropic'', ''bedrock''] - {''unavailable''}) = 2" by simp
  from p v s m c show ?thesis by simp
qed

end
